theory Spec2Isabelle
  imports Complex_Main "HOL-Library.Multiset"
begin

section \<open>Structural equality results\<close>

text \<open>
  \<^verbatim>\<open>EqualsResult = purify.Either<EqualsResult.Unequal, true>\<close>. The descriptor of a
  mismatch keeps its tag, the property name, the element index and the nested
  descriptors; the references to the compared values (\<^verbatim>\<open>left\<close>, \<^verbatim>\<open>right\<close>, typed
  \<^verbatim>\<open>any\<close>) carry no information that any operation reads back and are left out.
\<close>

datatype Unequal =
    ArrayElement nat "Unequal list"
  | ArrayLength
  | BooleanEquals
  | LeftError
  | LeftNull
  | Primitive
  | Property string Unequal
  | RightError
  | RightNull

type_synonym EqualsResult = "Unequal + unit"

definition Equal :: EqualsResult where
  "Equal = Inr ()"

text \<open>The union \<^verbatim>\<open>boolean | EqualsResult\<close> that element comparisons may return.\<close>

datatype BooleanOrEqualsResult = Boolean bool | Result EqualsResult

fun fromBooleanEqualsResult :: "BooleanOrEqualsResult \<Rightarrow> EqualsResult" where
  "fromBooleanEqualsResult (Result equalsResult) = equalsResult"
| "fromBooleanEqualsResult (Boolean equalsResult) =
     (if equalsResult then Equal else Inl BooleanEquals)"

text \<open>\<^verbatim>\<open>mapLeft\<close> and \<^verbatim>\<open>chain\<close> of the either type, as \<^verbatim>\<open>equals\<close> uses them.\<close>

definition mapLeft :: "('e \<Rightarrow> 'f) \<Rightarrow> 'e + 'a \<Rightarrow> 'f + 'a" where
  "mapLeft f e = (case e of Inl l \<Rightarrow> Inl (f l) | Inr r \<Rightarrow> Inr r)"

definition chain :: "'e + 'a \<Rightarrow> ('a \<Rightarrow> 'e + 'b) \<Rightarrow> 'e + 'b" where
  "chain e f = (case e of Inl l \<Rightarrow> Inl l | Inr r \<Rightarrow> f r)"

definition maybeEquals ::
  "('a \<Rightarrow> 'a \<Rightarrow> BooleanOrEqualsResult) \<Rightarrow> 'a option \<Rightarrow> 'a option \<Rightarrow> EqualsResult" where
  "maybeEquals valueEquals leftMaybe rightMaybe =
     (case leftMaybe of
        Some l \<Rightarrow>
          (case rightMaybe of
             Some r \<Rightarrow> fromBooleanEqualsResult (valueEquals l r)
           | None \<Rightarrow> Inl RightNull)
      | None \<Rightarrow>
          (case rightMaybe of
             Some r \<Rightarrow> Inl LeftNull
           | None \<Rightarrow> Equal))"

subsection \<open>arrayEquals\<close>

text \<open>
  The inner loop of \<^verbatim>\<open>arrayEquals\<close>: it walks the right array, stops at the first
  right element equal to the left element (\<^verbatim>\<open>break\<close>) and collects the descriptors of
  the unequal ones met before.
\<close>

fun rightUnequals ::
  "('a \<Rightarrow> 'a \<Rightarrow> BooleanOrEqualsResult) \<Rightarrow> 'a \<Rightarrow> 'a list \<Rightarrow> Unequal list \<Rightarrow> Unequal list" where
  "rightUnequals elementEquals leftElement [] acc = acc"
| "rightUnequals elementEquals leftElement (rightElement # rest) acc =
     (case fromBooleanEqualsResult (elementEquals leftElement rightElement) of
        Inr _ \<Rightarrow> acc
      | Inl u \<Rightarrow> rightUnequals elementEquals leftElement rest (acc @ [u]))"

text \<open>The outer loop, from index \<open>leftElementIndex\<close> on.\<close>

fun leftLoop ::
  "('a \<Rightarrow> 'a \<Rightarrow> BooleanOrEqualsResult) \<Rightarrow> 'a list \<Rightarrow> 'a list \<Rightarrow> nat \<Rightarrow> EqualsResult" where
  "leftLoop elementEquals [] rightArray leftElementIndex = Equal"
| "leftLoop elementEquals (leftElement # rest) rightArray leftElementIndex =
     (let us = rightUnequals elementEquals leftElement rightArray []
      in if length us = length rightArray
         then Inl (ArrayElement leftElementIndex us)
         else leftLoop elementEquals rest rightArray (leftElementIndex + 1))"

definition arrayEquals ::
  "('a \<Rightarrow> 'a \<Rightarrow> BooleanOrEqualsResult) \<Rightarrow> 'a list \<Rightarrow> 'a list \<Rightarrow> EqualsResult" where
  "arrayEquals elementEquals leftArray rightArray =
     (if length leftArray \<noteq> length rightArray then Inl ArrayLength
      else leftLoop elementEquals leftArray rightArray 0)"

section \<open>Calls that return or throw\<close>

text \<open>
  A call either returns or throws. \<^verbatim>\<open>unsafeCoerce\<close> of an either returns the value of a
  \<^verbatim>\<open>Right\<close> and throws on a \<^verbatim>\<open>Left\<close>.
\<close>

datatype 'a Outcome = Threw | Returned 'a

fun andThen :: "'a Outcome \<Rightarrow> ('a \<Rightarrow> 'b Outcome) \<Rightarrow> 'b Outcome" where
  "andThen Threw k = Threw"
| "andThen (Returned x) k = k x"

text \<open>The value of a call that returns, for use where the call is known to return.\<close>

fun returned :: "'a Outcome \<Rightarrow> 'a" where
  "returned (Returned x) = x"

fun unsafeCoerce :: "'e + 'a \<Rightarrow> 'a Outcome" where
  "unsafeCoerce (Inr x) = Returned x"
| "unsafeCoerce (Inl e) = Threw"

text \<open>
  The recurring step of the decoders,
  \<^verbatim>\<open>if (e.isLeft()) { return e; } const x = e.unsafeCoerce();\<close>
  followed by the rest of the function.
\<close>

definition returnIfLeft ::
  "'e + 'a \<Rightarrow> ('a \<Rightarrow> ('e + 'b) Outcome) \<Rightarrow> ('e + 'b) Outcome" where
  "returnIfLeft e rest =
     (if isl e then Returned (Inl (projl e)) else andThen (unsafeCoerce e) rest)"

text \<open>The same step on the result of a call that may itself throw.\<close>

definition callThenReturnIfLeft ::
  "('e + 'a) Outcome \<Rightarrow> ('a \<Rightarrow> ('e + 'b) Outcome) \<Rightarrow> ('e + 'b) Outcome" where
  "callThenReturnIfLeft call rest = andThen call (\<lambda>e. returnIfLeft e rest)"

text \<open>\<^verbatim>\<open>either.map(f)\<close> on the result of a call.\<close>

definition mapRight :: "('a \<Rightarrow> 'b) \<Rightarrow> ('e + 'a) Outcome \<Rightarrow> ('e + 'b) Outcome" where
  "mapRight f call = andThen call (\<lambda>e. Returned (map_sum id f e))"

text \<open>\<^verbatim>\<open>items.map(item => f(item))\<close> where \<open>f\<close> may throw: the first throw ends the map.\<close>

fun mapOutcome :: "('a \<Rightarrow> 'b Outcome) \<Rightarrow> 'a list \<Rightarrow> 'b list Outcome" where
  "mapOutcome f [] = Returned []"
| "mapOutcome f (x # xs) =
     andThen (f x) (\<lambda>y. andThen (mapOutcome f xs) (\<lambda>ys. Returned (y # ys)))"

fun mapOutcomeOption :: "('a \<Rightarrow> 'b Outcome) \<Rightarrow> 'a option \<Rightarrow> 'b option Outcome" where
  "mapOutcomeOption f None = Returned None"
| "mapOutcomeOption f (Some x) = andThen (f x) (\<lambda>y. Returned (Some y))"

section \<open>Values of the platform\<close>

subsection \<open>RDF terms\<close>

text \<open>
  RDF/JS terms. A \<^verbatim>\<open>NamedNode\<close> has \<^verbatim>\<open>termType\<close> "NamedNode" and a \<^verbatim>\<open>value\<close> (its
  IRI); a literal has a lexical value, a language tag (empty when there is none) and a
  datatype. \<^verbatim>\<open>Term.equals\<close> holds exactly for terms with the same \<^verbatim>\<open>termType\<close> and
  \<^verbatim>\<open>value\<close> (and, for literals, the same language and datatype).
\<close>

datatype NamedNode = NamedNode (iri: string)

datatype Term =
    NamedNodeTerm NamedNode
  | BlankNodeTerm string
  | LiteralTerm string string NamedNode

fun termType :: "Term \<Rightarrow> string" where
  "termType (NamedNodeTerm n) = ''NamedNode''"
| "termType (BlankNodeTerm b) = ''BlankNode''"
| "termType (LiteralTerm v l d) = ''Literal''"

fun termValue :: "Term \<Rightarrow> string" where
  "termValue (NamedNodeTerm n) = iri n"
| "termValue (BlankNodeTerm b) = b"
| "termValue (LiteralTerm v l d) = v"

definition NamedNode_equals :: "NamedNode \<Rightarrow> NamedNode \<Rightarrow> bool" where
  "NamedNode_equals left right = (iri left = iri right)"

fun Term_equals :: "Term \<Rightarrow> Term \<Rightarrow> bool" where
  "Term_equals (NamedNodeTerm a) (NamedNodeTerm b) = NamedNode_equals a b"
| "Term_equals (BlankNodeTerm a) (BlankNodeTerm b) = (a = b)"
| "Term_equals (LiteralTerm v l d) (LiteralTerm v' l' d') =
     (v = v' \<and> l = l' \<and> NamedNode_equals d d')"
| "Term_equals _ _ = False"

text \<open>
  A quad of the default graph, with a named node as subject. The dataset of a resource
  set is kept as the sequence of the quads added to it.
\<close>

datatype Quad = Quad (subject: NamedNode) (predicate: NamedNode) (object: Term)

type_synonym Dataset = "Quad list"

text \<open>The named nodes of the vocabularies that the code names.\<close>

definition rdf_type :: NamedNode where
  "rdf_type = NamedNode ''http://www.w3.org/1999/02/22-rdf-syntax-ns#type''"

definition rdfs_subClassOf :: NamedNode where
  "rdfs_subClassOf = NamedNode ''http://www.w3.org/2000/01/rdf-schema#subClassOf''"

definition rdf_subject :: NamedNode where
  "rdf_subject = NamedNode ''http://www.w3.org/1999/02/22-rdf-syntax-ns#subject''"

definition schema :: "string \<Rightarrow> NamedNode" where
  "schema localName = NamedNode (''http://schema.org/'' @ localName)"

definition xsd_string :: NamedNode where
  "xsd_string = NamedNode ''http://www.w3.org/2001/XMLSchema#string''"

definition rdf_langString :: NamedNode where
  "rdf_langString = NamedNode ''http://www.w3.org/1999/02/22-rdf-syntax-ns#langString''"

subsection \<open>Numbers\<close>

text \<open>
  A JavaScript number is \<^verbatim>\<open>NaN\<close>, an infinity or a finite value; the finite values are
  kept by their mathematical value (the two zeros, which \<^verbatim>\<open>===\<close> identifies, are one
  value). \<^verbatim>\<open>===\<close> on numbers is false whenever an operand is \<^verbatim>\<open>NaN\<close>.
\<close>

datatype number = NaN | PosInfinity | NegInfinity | Finite rat

definition number_strictly_equal :: "number \<Rightarrow> number \<Rightarrow> bool" where
  "number_strictly_equal left right = (left \<noteq> NaN \<and> right \<noteq> NaN \<and> left = right)"

subsection \<open>Dates\<close>

text \<open>
  A \<^verbatim>\<open>Date\<close> object holds a time value, a whole number of milliseconds since the epoch
  of at most 8,640,000,000,000,000 in absolute value, or \<^verbatim>\<open>NaN\<close>: the \<^verbatim>\<open>Invalid Date\<close>,
  as \<^verbatim>\<open>new Date(NaN)\<close> makes it. A time value is kept by its UTC calendar fields: year,
  month (1 to 12), day of the month and the milliseconds elapsed in that day.
\<close>

datatype Date = Date (year: int) (month: int) (day: int) (msOfDay: int) | InvalidDate

definition isLeapYear :: "int \<Rightarrow> bool" where
  "isLeapYear y = (y mod 4 = 0 \<and> (y mod 100 \<noteq> 0 \<or> y mod 400 = 0))"

definition daysInMonth :: "int \<Rightarrow> int \<Rightarrow> int" where
  "daysInMonth y m =
     (if m = 2 then (if isLeapYear y then 29 else 28)
      else if m = 4 \<or> m = 6 \<or> m = 9 \<or> m = 11 then 30
      else 31)"

text \<open>Days from 1970-01-01 to the given civil date of the proleptic Gregorian calendar.\<close>

definition daysFromCivil :: "int \<Rightarrow> int \<Rightarrow> int \<Rightarrow> int" where
  "daysFromCivil y m d =
     (let y' = (if m \<le> 2 then y - 1 else y);
          era = y' div 400;
          yoe = y' - era * 400;
          mp = (if m > 2 then m - 3 else m + 9);
          doy = (153 * mp + 2) div 5 + d - 1;
          doe = yoe * 365 + yoe div 4 - yoe div 100 + doy
      in era * 146097 + doe - 719468)"

definition timeValue :: "int \<Rightarrow> int \<Rightarrow> int \<Rightarrow> int \<Rightarrow> int" where
  "timeValue y m d ms = daysFromCivil y m d * 86400000 + ms"

text \<open>
  The fields are those of a time value: they name a day of the calendar and an instant
  of that day, within the range of the time values. Every \<^verbatim>\<open>Date\<close> object other than
  the \<^verbatim>\<open>Invalid Date\<close> has such fields; a value with other fields stands for no object
  and is treated like the \<^verbatim>\<open>Invalid Date\<close>.
\<close>

fun validDate :: "Date \<Rightarrow> bool" where
  "validDate InvalidDate = False"
| "validDate (Date y m d ms) =
     (1 \<le> m \<and> m \<le> 12 \<and> 1 \<le> d \<and> d \<le> daysInMonth y m \<and> 0 \<le> ms \<and> ms < 86400000
      \<and> \<bar>timeValue y m d ms\<bar> \<le> 8640000000000000)"

text \<open>\<^verbatim>\<open>getTime()\<close>: the time value, \<^verbatim>\<open>NaN\<close> for the \<^verbatim>\<open>Invalid Date\<close>.\<close>

definition getTime :: "Date \<Rightarrow> number" where
  "getTime d =
     (if validDate d then Finite (of_int (timeValue (year d) (month d) (day d) (msOfDay d)))
      else NaN)"

definition digit :: "int \<Rightarrow> char" where
  "digit n = ''0123456789'' ! nat n"

text \<open>The \<open>k\<close> low decimal digits of \<open>n\<close>, padded with zeros.\<close>

fun decimal :: "nat \<Rightarrow> int \<Rightarrow> string" where
  "decimal 0 n = []"
| "decimal (Suc k) n = decimal k (n div 10) @ [digit (n mod 10)]"

definition yearString :: "int \<Rightarrow> string" where
  "yearString y =
     (if 0 \<le> y \<and> y \<le> 9999 then decimal 4 y
      else (if y < 0 then ''-'' else ''+'') @ decimal 6 \<bar>y\<bar>)"

text \<open>The ISO 8601 string of a time value, \<^verbatim>\<open>YYYY-MM-DDTHH:mm:ss.sssZ\<close>.\<close>

definition isoString :: "Date \<Rightarrow> string" where
  "isoString d =
     yearString (year d) @ ''-'' @ decimal 2 (month d) @ ''-'' @ decimal 2 (day d) @ ''T''
     @ decimal 2 (msOfDay d div 3600000) @ '':'' @ decimal 2 (msOfDay d div 60000 mod 60)
     @ '':'' @ decimal 2 (msOfDay d div 1000 mod 60) @ ''.'' @ decimal 3 (msOfDay d mod 1000)
     @ ''Z''"

text \<open>\<^verbatim>\<open>toISOString()\<close> throws a \<^verbatim>\<open>RangeError\<close> on the \<^verbatim>\<open>Invalid Date\<close>.\<close>

definition toISOString :: "Date \<Rightarrow> string Outcome" where
  "toISOString d = (if validDate d then Returned (isoString d) else Threw)"

subsection \<open>Library functions taken as parameters\<close>

text \<open>
  The functions of the imported libraries whose results the code only passes on:
  the hexadecimal SHA-256 digest of a sequence of \<^verbatim>\<open>update\<close> messages
  (\<^verbatim>\<open>sha256.create()\<close>, read through the hasher's \<^verbatim>\<open>toString\<close>),
  \<^verbatim>\<open>Number.prototype.toString\<close>, the conversions between numbers, dates and RDF
  literals of \<^verbatim>\<open>rdf-literal\<close> and \<^verbatim>\<open>rdfjs-resource\<close> (that of a date may throw), the
  functions \<^verbatim>\<open>literal\<close> and \<^verbatim>\<open>blankNode\<close> of the data factory of \<^verbatim>\<open>n3\<close> (the argument of
  \<^verbatim>\<open>literal\<close> after the value is a language tag, a datatype or undefined; for an empty
  label \<^verbatim>\<open>blankNode\<close> gives the label the factory mints at that call), and the order in
  which the dataset of a resource lists, through \<^verbatim>\<open>match\<close>, the quads that were added to
  it in a given sequence.
\<close>

datatype LanguageOrDatatype = Language string | Datatype NamedNode

record Library =
  sha256_hex :: "string list \<Rightarrow> string"
  Number_toString :: "number \<Rightarrow> string"
  number_toRdf :: "number \<Rightarrow> Term"
  date_toRdf :: "Date \<Rightarrow> Term Outcome"
  toString :: "Term \<Rightarrow> string option"
  toNumber :: "Term \<Rightarrow> number option"
  toDate :: "Term \<Rightarrow> Date option"
  literal :: "string \<Rightarrow> LanguageOrDatatype option \<Rightarrow> Term"
  blankNode :: "string \<Rightarrow> Term"
  storeOrder :: "Quad list \<Rightarrow> Quad list"

section \<open>The comparison helpers on values\<close>

definition strictEquals :: "('a \<Rightarrow> 'a \<Rightarrow> bool) \<Rightarrow> 'a \<Rightarrow> 'a \<Rightarrow> EqualsResult" where
  "strictEquals strictlyEqual left right =
     fromBooleanEqualsResult (Boolean (strictlyEqual left right))"

definition booleanEquals :: "('a \<Rightarrow> 'a \<Rightarrow> bool) \<Rightarrow> 'a \<Rightarrow> 'a \<Rightarrow> EqualsResult" where
  "booleanEquals equals left right = fromBooleanEqualsResult (Boolean (equals left right))"

definition dateEquals :: "Date \<Rightarrow> Date \<Rightarrow> EqualsResult" where
  "dateEquals left right =
     fromBooleanEqualsResult (Boolean (number_strictly_equal (getTime left) (getTime right)))"

text \<open>The comparisons as the classes pass them to \<^verbatim>\<open>maybeEquals\<close> and \<^verbatim>\<open>arrayEquals\<close>.\<close>

definition stringEquals :: "string \<Rightarrow> string \<Rightarrow> BooleanOrEqualsResult" where
  "stringEquals left right = Result (strictEquals (=) left right)"

definition numberEquals :: "number \<Rightarrow> number \<Rightarrow> BooleanOrEqualsResult" where
  "numberEquals left right = Result (strictEquals number_strictly_equal left right)"

definition namedNodeEquals :: "NamedNode \<Rightarrow> NamedNode \<Rightarrow> BooleanOrEqualsResult" where
  "namedNodeEquals left right = Result (booleanEquals NamedNode_equals left right)"

definition termEquals :: "Term \<Rightarrow> Term \<Rightarrow> BooleanOrEqualsResult" where
  "termEquals left right = Result (booleanEquals Term_equals left right)"

definition dateEqualsResult :: "Date \<Rightarrow> Date \<Rightarrow> BooleanOrEqualsResult" where
  "dateEqualsResult left right = Result (dateEquals left right)"

section \<open>The vocabulary classes\<close>

text \<open>
  Each class is a record of its declared instance properties; a subclass extends the
  record of its superclass. The abstract classes that declare no property of their own
  (\<^verbatim>\<open>Intangible\<close>, \<^verbatim>\<open>StructuredValue\<close>, \<^verbatim>\<open>Enumeration\<close>) add no record. The
  \<^verbatim>\<open>identifier\<close> that \<^verbatim>\<open>Thing\<close> declares abstract is a field of each concrete class,
  named after the class; in \<^verbatim>\<open>Role\<close> it is the private \<^verbatim>\<open>_identifier\<close>, which may be
  undefined, read through a getter. The \<^verbatim>\<open>type\<close> of a class is a constant.
\<close>

record Thing =
  description :: "string option"
  identifiers :: "string list"
  name :: "string option"
  sameAs :: "NamedNode list"
  url :: "NamedNode option"

record Role = Thing +
  endDate :: "Date option"
  Role__identifier :: "NamedNode option"
  roleName :: "NamedNode option"
  startDate :: "Date option"

record Occupation = Thing +
  Occupation_identifier :: NamedNode

record Organization = Thing +
  Organization_identifier :: NamedNode
  members :: "NamedNode list"
  parentOrganizations :: "NamedNode list"
  subOrganizations :: "NamedNode list"

record QuantitiveValue = Thing +
  QuantitiveValue_identifier :: NamedNode
  QuantitiveValue_value :: "number option"

record CreativeWork = Thing +
  isBasedOn :: "NamedNode list"

record MediaObject = CreativeWork +
  contentUrl :: "NamedNode option"
  encodingFormat :: "string option"
  height :: "QuantitiveValue option"
  width :: "QuantitiveValue option"

record ImageObject = MediaObject +
  ImageObject_identifier :: NamedNode

record GenderType = Thing +
  GenderType_identifier :: NamedNode

text \<open>The union \<^verbatim>\<open>Occupation | Role\<close> of the elements of \<^verbatim>\<open>hasOccupation\<close>.\<close>

datatype OccupationOrRole = IsOccupation Occupation | IsRole Role

record Person = Thing +
  birthDate :: "Date option"
  familyName :: "string option"
  gender :: "Term option"
  givenName :: "string option"
  hasOccupation :: "OccupationOrRole list"
  Person_identifier :: NamedNode
  images :: "ImageObject list"
  memberOf :: "NamedNode list"

definition Role_type :: string where "Role_type = ''Role''"
definition Occupation_type :: string where "Occupation_type = ''Occupation''"
definition Organization_type :: string where "Organization_type = ''Organization''"
definition QuantitiveValue_type :: string where "QuantitiveValue_type = ''QuantitiveValue''"
definition ImageObject_type :: string where "ImageObject_type = ''ImageObject''"
definition GenderType_type :: string where "GenderType_type = ''GenderType''"
definition Person_type :: string where "Person_type = ''Person''"

fun OccupationOrRole_type :: "OccupationOrRole \<Rightarrow> string" where
  "OccupationOrRole_type (IsOccupation v) = Occupation_type"
| "OccupationOrRole_type (IsRole v) = Role_type"

text \<open>\<^verbatim>\<open>maybe.toList()\<close>.\<close>

definition maybeToList :: "'a option \<Rightarrow> 'a list" where
  "maybeToList m = (case m of None \<Rightarrow> [] | Some v \<Rightarrow> [v])"

section \<open>hash\<close>

text \<open>
  The caller's hasher is observed through the sequence of messages passed to its
  \<^verbatim>\<open>update\<close> method. A \<^verbatim>\<open>toISOString\<close> that throws ends the call of \<^verbatim>\<open>hash\<close>: the hasher
  has received the messages passed before, and the statements that follow are not run.
  \<^verbatim>\<open>hash\<close> takes the hasher, with the mark of a call that has thrown, and returns it as
  the call leaves it. \<^verbatim>\<open>sha256.create()\<close> is the hasher that has received nothing.
\<close>

datatype Hasher = Hasher (received: "string list") (thrown: bool)

definition create :: Hasher where
  "create = Hasher [] False"

definition update :: "Hasher \<Rightarrow> string \<Rightarrow> Hasher" where
  "update hasher message =
     (if thrown hasher then hasher else Hasher (received hasher @ [message]) False)"

definition throw :: "Hasher \<Rightarrow> Hasher" where
  "throw hasher = Hasher (received hasher) True"

definition ifJust :: "'a option \<Rightarrow> ('a \<Rightarrow> Hasher \<Rightarrow> Hasher) \<Rightarrow> Hasher \<Rightarrow> Hasher" where
  "ifJust maybe f hasher = (case maybe of Some v \<Rightarrow> f v hasher | None \<Rightarrow> hasher)"

definition forOf :: "'a list \<Rightarrow> ('a \<Rightarrow> Hasher \<Rightarrow> Hasher) \<Rightarrow> Hasher \<Rightarrow> Hasher" where
  "forOf items f hasher = foldl (\<lambda>h item. f item h) hasher items"

definition updateString :: "string \<Rightarrow> Hasher \<Rightarrow> Hasher" where
  "updateString v hasher = update hasher v"

definition updateNamedNode :: "NamedNode \<Rightarrow> Hasher \<Rightarrow> Hasher" where
  "updateNamedNode v hasher = update (update hasher ''NamedNode'') (iri v)"

definition updateTerm :: "Term \<Rightarrow> Hasher \<Rightarrow> Hasher" where
  "updateTerm v hasher = update (update hasher (termType v)) (termValue v)"

definition updateDate :: "Date \<Rightarrow> Hasher \<Rightarrow> Hasher" where
  "updateDate v hasher =
     (case toISOString v of
        Returned message \<Rightarrow> update hasher message
      | Threw \<Rightarrow> throw hasher)"

definition Thing_hash :: "'a Thing_scheme \<Rightarrow> Hasher \<Rightarrow> Hasher" where
  "Thing_hash this hasher =
     (let hasher = ifJust (description this) updateString hasher;
          hasher = forOf (identifiers this) updateString hasher;
          hasher = ifJust (name this) updateString hasher;
          hasher = forOf (sameAs this) updateNamedNode hasher;
          hasher = ifJust (url this) updateNamedNode hasher
      in hasher)"

definition Role_hash :: "Role \<Rightarrow> Hasher \<Rightarrow> Hasher" where
  "Role_hash this hasher =
     (let hasher = Thing_hash this hasher;
          hasher = ifJust (endDate this) updateDate hasher;
          hasher = ifJust (roleName this) updateNamedNode hasher;
          hasher = ifJust (startDate this) updateDate hasher
      in hasher)"

definition Occupation_hash :: "Occupation \<Rightarrow> Hasher \<Rightarrow> Hasher" where
  "Occupation_hash this hasher =
     (let hasher = Thing_hash this hasher;
          hasher = updateString (iri (Occupation_identifier this)) hasher
      in hasher)"

definition Organization_hash :: "Organization \<Rightarrow> Hasher \<Rightarrow> Hasher" where
  "Organization_hash this hasher =
     (let hasher = Thing_hash this hasher;
          hasher = updateString (iri (Organization_identifier this)) hasher;
          hasher = forOf (members this) updateNamedNode hasher;
          hasher = forOf (parentOrganizations this) updateNamedNode hasher;
          hasher = forOf (subOrganizations this) updateNamedNode hasher
      in hasher)"

definition QuantitiveValue_hash :: "Library \<Rightarrow> QuantitiveValue \<Rightarrow> Hasher \<Rightarrow> Hasher" where
  "QuantitiveValue_hash lib this hasher =
     (let hasher = Thing_hash this hasher;
          hasher = updateString (iri (QuantitiveValue_identifier this)) hasher;
          hasher = ifJust (QuantitiveValue_value this) (\<lambda>v. updateString (Number_toString lib v)) hasher
      in hasher)"

definition CreativeWork_hash :: "'a CreativeWork_scheme \<Rightarrow> Hasher \<Rightarrow> Hasher" where
  "CreativeWork_hash this hasher =
     (let hasher = Thing_hash this hasher;
          hasher = forOf (isBasedOn this) updateNamedNode hasher
      in hasher)"

definition MediaObject_hash :: "Library \<Rightarrow> 'a MediaObject_scheme \<Rightarrow> Hasher \<Rightarrow> Hasher" where
  "MediaObject_hash lib this hasher =
     (let hasher = CreativeWork_hash this hasher;
          hasher = ifJust (contentUrl this) updateNamedNode hasher;
          hasher = ifJust (encodingFormat this) updateString hasher;
          hasher = ifJust (height this) (QuantitiveValue_hash lib) hasher;
          hasher = ifJust (width this) (QuantitiveValue_hash lib) hasher
      in hasher)"

definition ImageObject_hash :: "Library \<Rightarrow> ImageObject \<Rightarrow> Hasher \<Rightarrow> Hasher" where
  "ImageObject_hash lib this hasher =
     (let hasher = MediaObject_hash lib this hasher;
          hasher = updateString (iri (ImageObject_identifier this)) hasher
      in hasher)"

definition GenderType_hash :: "GenderType \<Rightarrow> Hasher \<Rightarrow> Hasher" where
  "GenderType_hash this hasher =
     (let hasher = Thing_hash this hasher;
          hasher = updateString (iri (GenderType_identifier this)) hasher
      in hasher)"

fun OccupationOrRole_hash :: "OccupationOrRole \<Rightarrow> Hasher \<Rightarrow> Hasher" where
  "OccupationOrRole_hash (IsOccupation item) = Occupation_hash item"
| "OccupationOrRole_hash (IsRole item) = Role_hash item"

definition Person_hash :: "Library \<Rightarrow> Person \<Rightarrow> Hasher \<Rightarrow> Hasher" where
  "Person_hash lib this hasher =
     (let hasher = Thing_hash this hasher;
          hasher = ifJust (birthDate this) updateDate hasher;
          hasher = ifJust (familyName this) updateString hasher;
          hasher = ifJust (gender this) updateTerm hasher;
          hasher = ifJust (givenName this) updateString hasher;
          hasher = forOf (hasOccupation this) OccupationOrRole_hash hasher;
          hasher = updateString (iri (Person_identifier this)) hasher;
          hasher = forOf (images this) (ImageObject_hash lib) hasher;
          hasher = forOf (memberOf this) updateNamedNode hasher
      in hasher)"

section \<open>Identifiers\<close>

text \<open>
  The getter of \<^verbatim>\<open>Role\<close>: the stored identifier when there is one, else the named node
  \<^verbatim>\<open>urn:shaclmate:object:Role:<digest>\<close> of the messages a fresh SHA-256 hasher
  receives from \<^verbatim>\<open>hash\<close>; the getter throws when \<^verbatim>\<open>hash\<close> does.
\<close>

definition Role_identifier :: "Library \<Rightarrow> Role \<Rightarrow> NamedNode Outcome" where
  "Role_identifier lib this =
     (case Role__identifier this of
        Some i \<Rightarrow> Returned i
      | None \<Rightarrow>
          (let hasher = Role_hash this create
           in if thrown hasher then Threw
              else Returned (NamedNode (''urn:shaclmate:object:'' @ Role_type @ '':''
                                        @ sha256_hex lib (received hasher)))))"

section \<open>equals\<close>

text \<open>
  \<^verbatim>\<open>first.chain(() => second).chain(() => third) ...\<close>: the comparisons of the
  properties in the order of the source, stopping at the first that is unequal.
\<close>

definition chainAll :: "EqualsResult \<Rightarrow> (unit \<Rightarrow> EqualsResult) list \<Rightarrow> EqualsResult" where
  "chainAll first rest = foldl chain first rest"

definition property :: "string \<Rightarrow> EqualsResult \<Rightarrow> EqualsResult" where
  "property propertyName result = mapLeft (Property propertyName) result"

text \<open>
  \<^verbatim>\<open>Thing.equals\<close> reads the abstract members \<^verbatim>\<open>identifier\<close> and \<^verbatim>\<open>type\<close> of both
  objects; the concrete classes supply them.
\<close>

definition Thing_equals ::
  "NamedNode \<Rightarrow> string \<Rightarrow> 'a Thing_scheme \<Rightarrow> NamedNode \<Rightarrow> string \<Rightarrow> 'b Thing_scheme
     \<Rightarrow> EqualsResult" where
  "Thing_equals thisIdentifier thisType this otherIdentifier otherType other =
     chainAll
       (property ''description''
          (maybeEquals stringEquals (description this) (description other)))
       [\<lambda>_. property ''identifier''
               (booleanEquals NamedNode_equals thisIdentifier otherIdentifier),
        \<lambda>_. property ''identifiers''
               (arrayEquals stringEquals (identifiers this) (identifiers other)),
        \<lambda>_. property ''name'' (maybeEquals stringEquals (name this) (name other)),
        \<lambda>_. property ''sameAs'' (arrayEquals namedNodeEquals (sameAs this) (sameAs other)),
        \<lambda>_. property ''type'' (strictEquals (=) thisType otherType),
        \<lambda>_. property ''url'' (maybeEquals namedNodeEquals (url this) (url other))]"

text \<open>
  The steps of a chain run only after the steps before them have given \<^verbatim>\<open>Right\<close>. A
  step that may throw is reached through \<open>chainOutcome\<close>.
\<close>

definition chainOutcome ::
  "EqualsResult \<Rightarrow> (unit \<Rightarrow> EqualsResult Outcome) \<Rightarrow> EqualsResult Outcome" where
  "chainOutcome e f = (case e of Inl l \<Rightarrow> Returned (Inl l) | Inr r \<Rightarrow> f r)"

text \<open>
  In \<^verbatim>\<open>Role\<close> the \<^verbatim>\<open>identifier\<close> is a getter that may throw. \<^verbatim>\<open>Thing.equals\<close> reads it in
  its second step, of this object and then of the other, after the descriptions have
  compared equal: the comparison of the descriptions comes first here, and is
  \<^verbatim>\<open>Right\<close> again where \<open>Thing_equals\<close> repeats it with the identifiers read.
\<close>

definition Role_equals :: "Library \<Rightarrow> Role \<Rightarrow> Role \<Rightarrow> EqualsResult Outcome" where
  "Role_equals lib this other =
     chainOutcome
       (property ''description''
          (maybeEquals stringEquals (description this) (description other)))
       (\<lambda>_.
       andThen (Role_identifier lib this) (\<lambda>thisIdentifier.
       andThen (Role_identifier lib other) (\<lambda>otherIdentifier.
       Returned
         (chainAll
            (Thing_equals thisIdentifier Role_type this otherIdentifier Role_type other)
            [\<lambda>_. property ''endDate''
                    (maybeEquals dateEqualsResult (endDate this) (endDate other)),
             \<lambda>_. property ''roleName''
                    (maybeEquals namedNodeEquals (roleName this) (roleName other)),
             \<lambda>_. property ''startDate''
                    (maybeEquals dateEqualsResult (startDate this) (startDate other))]))))"

text \<open>\<^verbatim>\<open>Occupation\<close> and \<^verbatim>\<open>GenderType\<close> inherit \<^verbatim>\<open>equals\<close> from \<^verbatim>\<open>Thing\<close>.\<close>

definition Occupation_equals :: "Occupation \<Rightarrow> Occupation \<Rightarrow> EqualsResult" where
  "Occupation_equals this other =
     Thing_equals (Occupation_identifier this) Occupation_type this
       (Occupation_identifier other) Occupation_type other"

definition GenderType_equals :: "GenderType \<Rightarrow> GenderType \<Rightarrow> EqualsResult" where
  "GenderType_equals this other =
     Thing_equals (GenderType_identifier this) GenderType_type this
       (GenderType_identifier other) GenderType_type other"

definition Organization_equals :: "Organization \<Rightarrow> Organization \<Rightarrow> EqualsResult" where
  "Organization_equals this other =
     chainAll
       (Thing_equals (Organization_identifier this) Organization_type this
          (Organization_identifier other) Organization_type other)
       [\<lambda>_. property ''members''
               (arrayEquals namedNodeEquals (members this) (members other)),
        \<lambda>_. property ''parentOrganizations''
               (arrayEquals namedNodeEquals (parentOrganizations this)
                  (parentOrganizations other)),
        \<lambda>_. property ''subOrganizations''
               (arrayEquals namedNodeEquals (subOrganizations this)
                  (subOrganizations other))]"

definition QuantitiveValue_equals :: "QuantitiveValue \<Rightarrow> QuantitiveValue \<Rightarrow> EqualsResult" where
  "QuantitiveValue_equals this other =
     chainAll
       (Thing_equals (QuantitiveValue_identifier this) QuantitiveValue_type this
          (QuantitiveValue_identifier other) QuantitiveValue_type other)
       [\<lambda>_. property ''value''
               (maybeEquals numberEquals (QuantitiveValue_value this)
                  (QuantitiveValue_value other))]"

definition CreativeWork_equals ::
  "NamedNode \<Rightarrow> string \<Rightarrow> 'a CreativeWork_scheme \<Rightarrow> NamedNode \<Rightarrow> string
     \<Rightarrow> 'b CreativeWork_scheme \<Rightarrow> EqualsResult" where
  "CreativeWork_equals thisIdentifier thisType this otherIdentifier otherType other =
     chainAll
       (Thing_equals thisIdentifier thisType this otherIdentifier otherType other)
       [\<lambda>_. property ''isBasedOn''
               (arrayEquals namedNodeEquals (isBasedOn this) (isBasedOn other))]"

definition MediaObject_equals ::
  "NamedNode \<Rightarrow> string \<Rightarrow> 'a MediaObject_scheme \<Rightarrow> NamedNode \<Rightarrow> string
     \<Rightarrow> 'b MediaObject_scheme \<Rightarrow> EqualsResult" where
  "MediaObject_equals thisIdentifier thisType this otherIdentifier otherType other =
     chainAll
       (CreativeWork_equals thisIdentifier thisType this otherIdentifier otherType other)
       [\<lambda>_. property ''contentUrl''
               (maybeEquals namedNodeEquals (contentUrl this) (contentUrl other)),
        \<lambda>_. property ''encodingFormat''
               (maybeEquals stringEquals (encodingFormat this) (encodingFormat other)),
        \<lambda>_. property ''height''
               (maybeEquals (\<lambda>left right. Result (QuantitiveValue_equals left right))
                  (height this) (height other)),
        \<lambda>_. property ''width''
               (maybeEquals (\<lambda>left right. Result (QuantitiveValue_equals left right))
                  (width this) (width other))]"

text \<open>\<^verbatim>\<open>ImageObject\<close> inherits \<^verbatim>\<open>equals\<close> from \<^verbatim>\<open>MediaObject\<close>.\<close>

definition ImageObject_equals :: "ImageObject \<Rightarrow> ImageObject \<Rightarrow> EqualsResult" where
  "ImageObject_equals this other =
     MediaObject_equals (ImageObject_identifier this) ImageObject_type this
       (ImageObject_identifier other) ImageObject_type other"

text \<open>
  The element comparison of \<^verbatim>\<open>hasOccupation\<close>: two occupations or two roles are
  compared by their \<^verbatim>\<open>equals\<close>; an occupation and a role are unequal.
\<close>

fun OccupationOrRole_equals ::
  "Library \<Rightarrow> OccupationOrRole \<Rightarrow> OccupationOrRole \<Rightarrow> BooleanOrEqualsResult Outcome" where
  "OccupationOrRole_equals lib (IsOccupation left) (IsOccupation right) =
     Returned (Result (Occupation_equals left right))"
| "OccupationOrRole_equals lib (IsRole left) (IsRole right) =
     andThen (Role_equals lib left right) (\<lambda>result. Returned (Result result))"
| "OccupationOrRole_equals lib left right =
     Returned (Result (Inl (Property ''type'' BooleanEquals)))"

text \<open>
  \<^verbatim>\<open>arrayEquals\<close> with an element comparison that may throw: the loops are those of
  \<open>rightUnequals\<close> and \<open>leftLoop\<close>, and the first comparison that throws ends them.
\<close>

fun rightUnequalsOutcome ::
  "('a \<Rightarrow> 'a \<Rightarrow> BooleanOrEqualsResult Outcome) \<Rightarrow> 'a \<Rightarrow> 'a list \<Rightarrow> Unequal list
     \<Rightarrow> Unequal list Outcome" where
  "rightUnequalsOutcome elementEquals leftElement [] acc = Returned acc"
| "rightUnequalsOutcome elementEquals leftElement (rightElement # rest) acc =
     andThen (elementEquals leftElement rightElement) (\<lambda>result.
       case fromBooleanEqualsResult result of
         Inr _ \<Rightarrow> Returned acc
       | Inl u \<Rightarrow> rightUnequalsOutcome elementEquals leftElement rest (acc @ [u]))"

fun leftLoopOutcome ::
  "('a \<Rightarrow> 'a \<Rightarrow> BooleanOrEqualsResult Outcome) \<Rightarrow> 'a list \<Rightarrow> 'a list \<Rightarrow> nat
     \<Rightarrow> EqualsResult Outcome" where
  "leftLoopOutcome elementEquals [] rightArray leftElementIndex = Returned Equal"
| "leftLoopOutcome elementEquals (leftElement # rest) rightArray leftElementIndex =
     andThen (rightUnequalsOutcome elementEquals leftElement rightArray []) (\<lambda>us.
       if length us = length rightArray
       then Returned (Inl (ArrayElement leftElementIndex us))
       else leftLoopOutcome elementEquals rest rightArray (leftElementIndex + 1))"

definition arrayEqualsOutcome ::
  "('a \<Rightarrow> 'a \<Rightarrow> BooleanOrEqualsResult Outcome) \<Rightarrow> 'a list \<Rightarrow> 'a list
     \<Rightarrow> EqualsResult Outcome" where
  "arrayEqualsOutcome elementEquals leftArray rightArray =
     (if length leftArray \<noteq> length rightArray then Returned (Inl ArrayLength)
      else leftLoopOutcome elementEquals leftArray rightArray 0)"

definition Person_equals :: "Library \<Rightarrow> Person \<Rightarrow> Person \<Rightarrow> EqualsResult Outcome" where
  "Person_equals lib this other =
     chainOutcome
       (chainAll
          (Thing_equals (Person_identifier this) Person_type this
             (Person_identifier other) Person_type other)
          [\<lambda>_. property ''birthDate''
                  (maybeEquals dateEqualsResult (birthDate this) (birthDate other)),
           \<lambda>_. property ''familyName''
                  (maybeEquals stringEquals (familyName this) (familyName other)),
           \<lambda>_. property ''gender'' (maybeEquals termEquals (gender this) (gender other)),
           \<lambda>_. property ''givenName''
                  (maybeEquals stringEquals (givenName this) (givenName other))])
       (\<lambda>_.
       andThen
         (arrayEqualsOutcome (OccupationOrRole_equals lib) (hasOccupation this)
            (hasOccupation other))
         (\<lambda>hasOccupationResult.
       Returned
         (chainAll (property ''hasOccupation'' hasOccupationResult)
            [\<lambda>_. property ''images''
                    (arrayEquals (\<lambda>left right. Result (ImageObject_equals left right))
                       (images this) (images other)),
             \<lambda>_. property ''memberOf''
                    (arrayEquals namedNodeEquals (memberOf this) (memberOf other))])))"

section \<open>The constructor of Role\<close>

text \<open>
  The constructor accepts each optional property as a raw value, as a \<^verbatim>\<open>Maybe\<close> or
  not at all, a named node also as its IRI string, and normalises them, testing the
  shapes in the order of the source. The fields of the parameter records carry the
  prefix \<open>param_\<close>.
\<close>

datatype 'a OrMaybe = Undefined | Plain 'a | Maybe "'a option"

datatype NamedNodeParameter =
  UndefinedNode | Node NamedNode | MaybeNode "NamedNode option" | Iri string

datatype IdentifierParameter = IdentifierNode NamedNode | IdentifierString string

record ThingParameters =
  param_description :: "string OrMaybe"
  param_identifiers :: "string list option"
  param_name :: "string OrMaybe"
  param_sameAs :: "NamedNode list option"
  param_url :: NamedNodeParameter

record RoleParameters = ThingParameters +
  param_endDate :: "Date OrMaybe"
  param_identifier :: "IdentifierParameter option"
  param_roleName :: NamedNodeParameter
  param_startDate :: "Date OrMaybe"

fun fromOrMaybe :: "'a OrMaybe \<Rightarrow> 'a option" where
  "fromOrMaybe (Maybe m) = m"
| "fromOrMaybe (Plain v) = Some v"
| "fromOrMaybe Undefined = None"

fun fromNamedNodeParameter :: "NamedNodeParameter \<Rightarrow> NamedNode option" where
  "fromNamedNodeParameter (MaybeNode m) = m"
| "fromNamedNodeParameter (Node n) = Some n"
| "fromNamedNodeParameter (Iri s) = Some (NamedNode s)"
| "fromNamedNodeParameter UndefinedNode = None"

fun fromArrayParameter :: "'a list option \<Rightarrow> 'a list" where
  "fromArrayParameter None = []"
| "fromArrayParameter (Some xs) = xs"

fun fromIdentifierParameter :: "IdentifierParameter \<Rightarrow> NamedNode" where
  "fromIdentifierParameter (IdentifierNode n) = n"
| "fromIdentifierParameter (IdentifierString s) = NamedNode s"

definition Role_new :: "RoleParameters \<Rightarrow> Role" where
  "Role_new parameters =
     \<lparr> description = fromOrMaybe (param_description parameters),
       identifiers = fromArrayParameter (param_identifiers parameters),
       name = fromOrMaybe (param_name parameters),
       sameAs = fromArrayParameter (param_sameAs parameters),
       url = fromNamedNodeParameter (param_url parameters),
       endDate = fromOrMaybe (param_endDate parameters),
       Role__identifier = map_option fromIdentifierParameter (param_identifier parameters),
       roleName = fromNamedNodeParameter (param_roleName parameters),
       startDate = fromOrMaybe (param_startDate parameters) \<rparr>"

section \<open>Predicates used in the statements\<close>

text \<open>The numeric value of an optional \<^verbatim>\<open>QuantitiveValue\<close> is not \<^verbatim>\<open>NaN\<close>.\<close>

definition notNaN :: "QuantitiveValue option \<Rightarrow> bool" where
  "notNaN q = (case q of None \<Rightarrow> True | Some v \<Rightarrow> QuantitiveValue_value v \<noteq> Some NaN)"

subsection \<open>The update calls of hash, written out\<close>

text \<open>
  The calls of \<^verbatim>\<open>update\<close> that \<^verbatim>\<open>hash\<close> makes for a value, one entry for each call in the
  order of the calls, with the message it passes; the entry of a call whose argument
  throws is \<open>Threw\<close>. A string gives one call; a named node two, its term type and its
  IRI; a term two, its term type and its value; a date one, its ISO string.
\<close>

definition stringMessages :: "string \<Rightarrow> string Outcome list" where
  "stringMessages v = [Returned v]"

definition namedNodeMessages :: "NamedNode \<Rightarrow> string Outcome list" where
  "namedNodeMessages v = [Returned ''NamedNode'', Returned (iri v)]"

fun termMessages :: "Term \<Rightarrow> string Outcome list" where
  "termMessages (NamedNodeTerm n) = [Returned ''NamedNode'', Returned (iri n)]"
| "termMessages (BlankNodeTerm b) = [Returned ''BlankNode'', Returned b]"
| "termMessages (LiteralTerm v l d) = [Returned ''Literal'', Returned v]"

definition dateMessages :: "Date \<Rightarrow> string Outcome list" where
  "dateMessages v = [toISOString v]"

text \<open>The calls for an optional property and for an array-valued one.\<close>

definition ofMaybe :: "('a \<Rightarrow> 'b list) \<Rightarrow> 'a option \<Rightarrow> 'b list" where
  "ofMaybe f m = (case m of None \<Rightarrow> [] | Some v \<Rightarrow> f v)"

definition ofArray :: "('a \<Rightarrow> 'b list) \<Rightarrow> 'a list \<Rightarrow> 'b list" where
  "ofArray f xs = concat (map f xs)"

text \<open>The properties of each class in the order of their declaration.\<close>

definition Thing_messages :: "'a Thing_scheme \<Rightarrow> string Outcome list" where
  "Thing_messages this =
     ofMaybe stringMessages (description this)
     @ ofArray stringMessages (identifiers this)
     @ ofMaybe stringMessages (name this)
     @ ofArray namedNodeMessages (sameAs this)
     @ ofMaybe namedNodeMessages (url this)"

definition Role_messages :: "Role \<Rightarrow> string Outcome list" where
  "Role_messages this =
     Thing_messages this
     @ ofMaybe dateMessages (endDate this)
     @ ofMaybe namedNodeMessages (roleName this)
     @ ofMaybe dateMessages (startDate this)"

definition Occupation_messages :: "Occupation \<Rightarrow> string Outcome list" where
  "Occupation_messages this =
     Thing_messages this @ stringMessages (iri (Occupation_identifier this))"

definition Organization_messages :: "Organization \<Rightarrow> string Outcome list" where
  "Organization_messages this =
     Thing_messages this
     @ stringMessages (iri (Organization_identifier this))
     @ ofArray namedNodeMessages (members this)
     @ ofArray namedNodeMessages (parentOrganizations this)
     @ ofArray namedNodeMessages (subOrganizations this)"

definition GenderType_messages :: "GenderType \<Rightarrow> string Outcome list" where
  "GenderType_messages this =
     Thing_messages this @ stringMessages (iri (GenderType_identifier this))"

definition QuantitiveValue_messages :: "Library \<Rightarrow> QuantitiveValue \<Rightarrow> string Outcome list" where
  "QuantitiveValue_messages lib this =
     Thing_messages this
     @ stringMessages (iri (QuantitiveValue_identifier this))
     @ ofMaybe (\<lambda>v. stringMessages (Number_toString lib v)) (QuantitiveValue_value this)"

definition ImageObject_messages :: "Library \<Rightarrow> ImageObject \<Rightarrow> string Outcome list" where
  "ImageObject_messages lib this =
     Thing_messages this
     @ ofArray namedNodeMessages (isBasedOn this)
     @ ofMaybe namedNodeMessages (contentUrl this)
     @ ofMaybe stringMessages (encodingFormat this)
     @ ofMaybe (QuantitiveValue_messages lib) (height this)
     @ ofMaybe (QuantitiveValue_messages lib) (width this)
     @ stringMessages (iri (ImageObject_identifier this))"

fun OccupationOrRole_messages :: "OccupationOrRole \<Rightarrow> string Outcome list" where
  "OccupationOrRole_messages (IsOccupation item) = Occupation_messages item"
| "OccupationOrRole_messages (IsRole item) = Role_messages item"

definition Person_messages :: "Library \<Rightarrow> Person \<Rightarrow> string Outcome list" where
  "Person_messages lib this =
     Thing_messages this
     @ ofMaybe dateMessages (birthDate this)
     @ ofMaybe stringMessages (familyName this)
     @ ofMaybe termMessages (gender this)
     @ ofMaybe stringMessages (givenName this)
     @ ofArray OccupationOrRole_messages (hasOccupation this)
     @ stringMessages (iri (Person_identifier this))
     @ ofArray (ImageObject_messages lib) (images this)
     @ ofArray namedNodeMessages (memberOf this)"

text \<open>
  A hasher that is passed the messages of the calls one after the other, up to the
  first that throws.
\<close>

fun feed :: "Hasher \<Rightarrow> string Outcome list \<Rightarrow> Hasher" where
  "feed hasher [] = hasher"
| "feed hasher (Returned message # calls) = feed (update hasher message) calls"
| "feed hasher (Threw # calls) = throw hasher"

text \<open>Two objects agree on the properties that \<^verbatim>\<open>Thing\<close> declares.\<close>

definition sameThingFields :: "'a Thing_scheme \<Rightarrow> 'b Thing_scheme \<Rightarrow> bool" where
  "sameThingFields a b =
     (description a = description b \<and> identifiers a = identifiers b \<and> name a = name b
      \<and> sameAs a = sameAs b \<and> url a = url b)"

text \<open>Two roles agree on the properties the class declares.\<close>

definition sameRoleProperties :: "Role \<Rightarrow> Role \<Rightarrow> bool" where
  "sameRoleProperties a b =
     (sameThingFields a b \<and> endDate a = endDate b \<and> roleName a = roleName b
      \<and> startDate a = startDate b)"

subsection \<open>Values without the Invalid Date\<close>

text \<open>A condition on the value of a \<^verbatim>\<open>Maybe\<close>, when there is one.\<close>

definition optionally :: "('a \<Rightarrow> bool) \<Rightarrow> 'a option \<Rightarrow> bool" where
  "optionally P m = (case m of None \<Rightarrow> True | Some x \<Rightarrow> P x)"

definition Role_validDates :: "Role \<Rightarrow> bool" where
  "Role_validDates this =
     (optionally validDate (endDate this) \<and> optionally validDate (startDate this))"

fun OccupationOrRole_validDates :: "OccupationOrRole \<Rightarrow> bool" where
  "OccupationOrRole_validDates (IsOccupation item) = True"
| "OccupationOrRole_validDates (IsRole item) = Role_validDates item"

definition Person_validDates :: "Person \<Rightarrow> bool" where
  "Person_validDates this =
     (optionally validDate (birthDate this)
      \<and> list_all OccupationOrRole_validDates (hasOccupation this))"

subsection \<open>The messages of a role without identifier, by its parameters\<close>

text \<open>
  The messages that make the digest in the identifier of a role constructed from the
  parameters without identifier, when its dates are valid: those of the properties as
  the constructor normalises them, in the order of \<^verbatim>\<open>hash\<close>.
\<close>

definition namedNodeStrings :: "NamedNode \<Rightarrow> string list" where
  "namedNodeStrings v = [''NamedNode'', iri v]"

definition Role_parameterMessages :: "RoleParameters \<Rightarrow> string list" where
  "Role_parameterMessages parameters =
     maybeToList (fromOrMaybe (param_description parameters))
     @ fromArrayParameter (param_identifiers parameters)
     @ maybeToList (fromOrMaybe (param_name parameters))
     @ concat (map namedNodeStrings (fromArrayParameter (param_sameAs parameters)))
     @ concat (map namedNodeStrings
                 (maybeToList (fromNamedNodeParameter (param_url parameters))))
     @ map isoString (maybeToList (fromOrMaybe (param_endDate parameters)))
     @ concat (map namedNodeStrings
                 (maybeToList (fromNamedNodeParameter (param_roleName parameters))))
     @ map isoString (maybeToList (fromOrMaybe (param_startDate parameters)))"

text \<open>Two parameter records give the same properties, in whatever shapes.\<close>

definition sameRoleParameters :: "RoleParameters \<Rightarrow> RoleParameters \<Rightarrow> bool" where
  "sameRoleParameters p q =
     (fromOrMaybe (param_description p) = fromOrMaybe (param_description q)
      \<and> fromArrayParameter (param_identifiers p) = fromArrayParameter (param_identifiers q)
      \<and> fromOrMaybe (param_name p) = fromOrMaybe (param_name q)
      \<and> fromArrayParameter (param_sameAs p) = fromArrayParameter (param_sameAs q)
      \<and> fromNamedNodeParameter (param_url p) = fromNamedNodeParameter (param_url q)
      \<and> fromOrMaybe (param_endDate p) = fromOrMaybe (param_endDate q)
      \<and> fromNamedNodeParameter (param_roleName p) = fromNamedNodeParameter (param_roleName q)
      \<and> fromOrMaybe (param_startDate p) = fromOrMaybe (param_startDate q))"

section \<open>Example values\<close>

text \<open>
  A library instance for evaluating examples. The digest is a stand-in that
  concatenates the messages. The data factory behaves as the one of \<^verbatim>\<open>n3\<close> does on
  these examples: \<^verbatim>\<open>literal\<close> puts a language tag in lower case (here the letters A to
  Z) and gives it the datatype \<^verbatim>\<open>rdf:langString\<close>, and \<^verbatim>\<open>blankNode\<close> replaces an empty
  label by a label of its own. The dataset lists its quads in the order of insertion.
\<close>

definition lowercaseLetter :: "char \<Rightarrow> char" where
  "lowercaseLetter c =
     (let n = (of_char c :: nat) in if 65 \<le> n \<and> n \<le> 90 then char_of (n + 32) else c)"

definition exampleLibrary :: Library where
  "exampleLibrary =
     \<lparr> sha256_hex = concat,
       Number_toString = (\<lambda>n. case n of NaN \<Rightarrow> ''NaN'' | PosInfinity \<Rightarrow> ''Infinity''
                            | NegInfinity \<Rightarrow> ''-Infinity'' | Finite q \<Rightarrow> ''finite''),
       number_toRdf = (\<lambda>n. LiteralTerm ''number'' []
                         (NamedNode ''http://www.w3.org/2001/XMLSchema#double'')),
       date_toRdf = (\<lambda>d. andThen (toISOString d) (\<lambda>s.
                       Returned (LiteralTerm (take 10 s) []
                         (NamedNode ''http://www.w3.org/2001/XMLSchema#date'')))),
       toString = (\<lambda>t. case t of LiteralTerm v l d \<Rightarrow> Some v | _ \<Rightarrow> None),
       toNumber = (\<lambda>t. None),
       toDate = (\<lambda>t. None),
       literal = (\<lambda>v languageOrDatatype.
                    case languageOrDatatype of
                      Some (Language l) \<Rightarrow> LiteralTerm v (map lowercaseLetter l) rdf_langString
                    | Some (Datatype d) \<Rightarrow> LiteralTerm v [] d
                    | None \<Rightarrow> LiteralTerm v [] xsd_string),
       blankNode = (\<lambda>label. BlankNodeTerm (if label = [] then ''n3-0'' else label)),
       storeOrder = (\<lambda>quads. quads) \<rparr>"

definition exampleQuantitiveValueNaN :: QuantitiveValue where
  "exampleQuantitiveValueNaN =
     \<lparr> description = None, identifiers = [], name = None, sameAs = [], url = None,
       QuantitiveValue_identifier = NamedNode ''http://example.com/q'',
       QuantitiveValue_value = Some NaN \<rparr>"

definition exampleQuantitiveValue :: QuantitiveValue where
  "exampleQuantitiveValue =
     \<lparr> description = None, identifiers = [], name = Some ''height'', sameAs = [],
       url = None,
       QuantitiveValue_identifier = NamedNode ''http://example.com/h'',
       QuantitiveValue_value = Some (Finite 480) \<rparr>"

definition exampleImageObject :: ImageObject where
  "exampleImageObject =
     \<lparr> description = None, identifiers = [], name = None, sameAs = [], url = None,
       isBasedOn = [NamedNode ''http://example.com/original''],
       contentUrl = Some (NamedNode ''http://example.com/i.png''),
       encodingFormat = Some ''image/png'',
       height = Some exampleQuantitiveValue, width = None,
       ImageObject_identifier = NamedNode ''http://example.com/i'' \<rparr>"

definition exampleRole :: Role where
  "exampleRole =
     \<lparr> description = None, identifiers = [], name = None, sameAs = [], url = None,
       endDate = Some (Date 2020 1 1 43200000), Role__identifier = None,
       roleName = None, startDate = None \<rparr>"

definition exampleOccupation :: Occupation where
  "exampleOccupation =
     \<lparr> description = Some ''An occupation'', identifiers = [], name = None, sameAs = [],
       url = None, Occupation_identifier = NamedNode ''http://example.com/o'' \<rparr>"

definition exampleOrganization :: Organization where
  "exampleOrganization =
     \<lparr> description = None, identifiers = [], name = Some ''Org'', sameAs = [], url = None,
       Organization_identifier = NamedNode ''http://example.com/org'',
       members = [NamedNode ''http://example.com/p''], parentOrganizations = [],
       subOrganizations = [] \<rparr>"

definition exampleGenderType :: GenderType where
  "exampleGenderType =
     \<lparr> description = None, identifiers = [], name = None, sameAs = [], url = None,
       GenderType_identifier = NamedNode ''http://schema.org/Female'' \<rparr>"

text \<open>
  A person with optional properties present and absent, an array with a duplicate and
  nested objects.
\<close>

definition examplePerson :: Person where
  "examplePerson =
     \<lparr> description = Some ''A person'', identifiers = [''a'', ''a''], name = None,
       sameAs = [NamedNode ''http://example.com/same'', NamedNode ''http://example.com/same''],
       url = None,
       birthDate = Some (Date 1990 2 28 0), familyName = Some ''Doe'',
       gender = Some (LiteralTerm ''female'' ''en''
                  (NamedNode ''http://www.w3.org/1999/02/22-rdf-syntax-ns#langString'')),
       givenName = None,
       hasOccupation = [IsRole exampleRole, IsOccupation exampleOccupation,
                        IsRole exampleRole],
       Person_identifier = NamedNode ''http://example.com/p'',
       images = [exampleImageObject, exampleImageObject],
       memberOf = [] \<rparr>"

text \<open>Two parameter records that give the same properties in different shapes.\<close>

definition exampleRoleParameters1 :: RoleParameters where
  "exampleRoleParameters1 =
     \<lparr> param_description = Plain ''A role'', param_identifiers = None,
       param_name = Undefined, param_sameAs = None,
       param_url = Iri ''http://example.com/u'',
       param_endDate = Plain (Date 2020 1 1 0), param_identifier = None,
       param_roleName = UndefinedNode, param_startDate = Undefined \<rparr>"

definition exampleRoleParameters2 :: RoleParameters where
  "exampleRoleParameters2 =
     \<lparr> param_description = Maybe (Some ''A role''), param_identifiers = Some [],
       param_name = Maybe None, param_sameAs = Some [],
       param_url = Node (NamedNode ''http://example.com/u''),
       param_endDate = Maybe (Some (Date 2020 1 1 0)), param_identifier = None,
       param_roleName = MaybeNode None, param_startDate = Maybe None \<rparr>"

text \<open>Parameters without identifier whose end date is the \<^verbatim>\<open>Invalid Date\<close>.\<close>

definition exampleRoleParametersInvalidDate :: RoleParameters where
  "exampleRoleParametersInvalidDate =
     \<lparr> param_description = Plain ''A role'', param_identifiers = None,
       param_name = Undefined, param_sameAs = None, param_url = UndefinedNode,
       param_endDate = Plain InvalidDate, param_identifier = None,
       param_roleName = UndefinedNode, param_startDate = Undefined \<rparr>"

text \<open>The same role with a stored identifier.\<close>

definition exampleRoleInvalidDate :: Role where
  "exampleRoleInvalidDate =
     (Role_new exampleRoleParametersInvalidDate)
       \<lparr> Role__identifier := Some (NamedNode ''http://example.com/role'') \<rparr>"

section \<open>RDF datasets and resources\<close>

text \<open>\<^verbatim>\<open>resource.add(predicate, values)\<close>: one quad for each value.\<close>

definition add :: "NamedNode \<Rightarrow> NamedNode \<Rightarrow> Term list \<Rightarrow> Dataset \<Rightarrow> Dataset" where
  "add resource p values dataset = dataset @ map (Quad resource p) values"

text \<open>The values that \<^verbatim>\<open>add\<close> accepts, as terms.\<close>

definition stringTerm :: "string \<Rightarrow> Term" where
  "stringTerm s = LiteralTerm s [] xsd_string"

text \<open>
  \<^verbatim>\<open>items.map(item => item.toRdf(...))\<close>: each nested object writes its own quads into
  the dataset and yields its resource.
\<close>

fun toRdfAll ::
  "('a \<Rightarrow> Dataset \<Rightarrow> NamedNode \<times> Dataset) \<Rightarrow> 'a list \<Rightarrow> Dataset
     \<Rightarrow> NamedNode list \<times> Dataset" where
  "toRdfAll f [] dataset = ([], dataset)"
| "toRdfAll f (item # items) dataset =
     (let (resource, dataset) = f item dataset;
          (resources, dataset) = toRdfAll f items dataset
      in (resource # resources, dataset))"

definition toRdfMaybe ::
  "('a \<Rightarrow> Dataset \<Rightarrow> NamedNode \<times> Dataset) \<Rightarrow> 'a option \<Rightarrow> Dataset
     \<Rightarrow> NamedNode list \<times> Dataset" where
  "toRdfMaybe f maybe dataset = toRdfAll f (maybeToList maybe) dataset"

text \<open>The same where the \<^verbatim>\<open>toRdf\<close> of an item may throw, which ends the map.\<close>

fun toRdfAllOutcome ::
  "('a \<Rightarrow> Dataset \<Rightarrow> (NamedNode \<times> Dataset) Outcome) \<Rightarrow> 'a list \<Rightarrow> Dataset
     \<Rightarrow> (NamedNode list \<times> Dataset) Outcome" where
  "toRdfAllOutcome f [] dataset = Returned ([], dataset)"
| "toRdfAllOutcome f (item # items) dataset =
     andThen (f item dataset) (\<lambda>(resource, dataset).
     andThen (toRdfAllOutcome f items dataset) (\<lambda>(resources, dataset).
     Returned (resource # resources, dataset)))"

section \<open>toRdf\<close>

text \<open>
  \<^verbatim>\<open>toRdf\<close> takes the flag \<^verbatim>\<open>ignoreRdfType\<close> (false when the caller leaves it out) and
  the dataset of the resource set, and returns the identifier of the resource with
  the dataset extended. The abstract classes receive the flag and do not read it. The
  \<^verbatim>\<open>toRdf\<close> of a class with dates, or with roles among its values, throws when the
  getter of the identifier or the conversion of a date does; the quads such a call has
  added before are not kept in its result.
\<close>

definition Thing_toRdf ::
  "NamedNode \<Rightarrow> 'a Thing_scheme \<Rightarrow> bool \<Rightarrow> Dataset \<Rightarrow> NamedNode \<times> Dataset" where
  "Thing_toRdf thisIdentifier this ignoreRdfType dataset =
     (let resource = thisIdentifier;
          dataset = add resource (schema ''description'')
                      (map stringTerm (maybeToList (description this))) dataset;
          dataset = add resource (schema ''identifier'')
                      (map stringTerm (identifiers this)) dataset;
          dataset = add resource (schema ''name'')
                      (map stringTerm (maybeToList (name this))) dataset;
          dataset = add resource (schema ''sameAs'')
                      (map NamedNodeTerm (sameAs this)) dataset;
          dataset = add resource (schema ''url'')
                      (map NamedNodeTerm (maybeToList (url this))) dataset
      in (resource, dataset))"

definition Intangible_toRdf ::
  "NamedNode \<Rightarrow> 'a Thing_scheme \<Rightarrow> bool \<Rightarrow> Dataset \<Rightarrow> NamedNode \<times> Dataset" where
  "Intangible_toRdf thisIdentifier this ignoreRdfType dataset =
     Thing_toRdf thisIdentifier this True dataset"

definition StructuredValue_toRdf ::
  "NamedNode \<Rightarrow> 'a Thing_scheme \<Rightarrow> bool \<Rightarrow> Dataset \<Rightarrow> NamedNode \<times> Dataset" where
  "StructuredValue_toRdf thisIdentifier this ignoreRdfType dataset =
     Intangible_toRdf thisIdentifier this True dataset"

definition Enumeration_toRdf ::
  "NamedNode \<Rightarrow> 'a Thing_scheme \<Rightarrow> bool \<Rightarrow> Dataset \<Rightarrow> NamedNode \<times> Dataset" where
  "Enumeration_toRdf thisIdentifier this ignoreRdfType dataset =
     Intangible_toRdf thisIdentifier this True dataset"

definition Role_toRdf ::
  "Library \<Rightarrow> Role \<Rightarrow> bool \<Rightarrow> Dataset \<Rightarrow> (NamedNode \<times> Dataset) Outcome" where
  "Role_toRdf lib this ignoreRdfType dataset =
     andThen (Role_identifier lib this) (\<lambda>thisIdentifier.
     let (resource, dataset) = Intangible_toRdf thisIdentifier this True dataset;
         dataset = (if \<not> ignoreRdfType
                    then add resource rdf_type [NamedNodeTerm (schema ''Role'')] dataset
                    else dataset)
     in
     andThen (mapOutcome (date_toRdf lib) (maybeToList (endDate this))) (\<lambda>values.
     let dataset = add resource (schema ''endDate'') values dataset;
         dataset = add resource (schema ''roleName'')
                     (map NamedNodeTerm (maybeToList (roleName this))) dataset
     in
     andThen (mapOutcome (date_toRdf lib) (maybeToList (startDate this))) (\<lambda>values.
     let dataset = add resource (schema ''startDate'') values dataset
     in Returned (resource, dataset))))"

definition Occupation_toRdf :: "Occupation \<Rightarrow> bool \<Rightarrow> Dataset \<Rightarrow> NamedNode \<times> Dataset" where
  "Occupation_toRdf this ignoreRdfType dataset =
     (let (resource, dataset) =
            Intangible_toRdf (Occupation_identifier this) this True dataset;
          dataset = (if \<not> ignoreRdfType
                     then add resource rdf_type [NamedNodeTerm (schema ''Occupation'')] dataset
                     else dataset)
      in (resource, dataset))"

definition Organization_toRdf ::
  "Organization \<Rightarrow> bool \<Rightarrow> Dataset \<Rightarrow> NamedNode \<times> Dataset" where
  "Organization_toRdf this ignoreRdfType dataset =
     (let (resource, dataset) =
            Thing_toRdf (Organization_identifier this) this True dataset;
          dataset = (if \<not> ignoreRdfType
                     then add resource rdf_type [NamedNodeTerm (schema ''Organization'')]
                            dataset
                     else dataset);
          dataset = add resource (schema ''member'')
                      (map NamedNodeTerm (members this)) dataset;
          dataset = add resource (schema ''parentOrganization'')
                      (map NamedNodeTerm (parentOrganizations this)) dataset;
          dataset = add resource (schema ''subOrganization'')
                      (map NamedNodeTerm (subOrganizations this)) dataset
      in (resource, dataset))"

definition QuantitiveValue_toRdf ::
  "Library \<Rightarrow> QuantitiveValue \<Rightarrow> bool \<Rightarrow> Dataset \<Rightarrow> NamedNode \<times> Dataset" where
  "QuantitiveValue_toRdf lib this ignoreRdfType dataset =
     (let (resource, dataset) =
            StructuredValue_toRdf (QuantitiveValue_identifier this) this True dataset;
          dataset = (if \<not> ignoreRdfType
                     then add resource rdf_type
                            [NamedNodeTerm (schema ''QuantitativeValue'')] dataset
                     else dataset);
          dataset = add resource (schema ''value'')
                      (map (number_toRdf lib) (maybeToList (QuantitiveValue_value this)))
                      dataset
      in (resource, dataset))"

definition CreativeWork_toRdf ::
  "NamedNode \<Rightarrow> 'a CreativeWork_scheme \<Rightarrow> bool \<Rightarrow> Dataset \<Rightarrow> NamedNode \<times> Dataset" where
  "CreativeWork_toRdf thisIdentifier this ignoreRdfType dataset =
     (let (resource, dataset) = Thing_toRdf thisIdentifier this True dataset;
          dataset = add resource (schema ''isBasedOn'')
                      (map NamedNodeTerm (isBasedOn this)) dataset
      in (resource, dataset))"

definition MediaObject_toRdf ::
  "Library \<Rightarrow> NamedNode \<Rightarrow> 'a MediaObject_scheme \<Rightarrow> bool \<Rightarrow> Dataset
     \<Rightarrow> NamedNode \<times> Dataset" where
  "MediaObject_toRdf lib thisIdentifier this ignoreRdfType dataset =
     (let (resource, dataset) = CreativeWork_toRdf thisIdentifier this True dataset;
          dataset = add resource (schema ''contentUrl'')
                      (map NamedNodeTerm (maybeToList (contentUrl this))) dataset;
          dataset = add resource (schema ''encodingFormat'')
                      (map stringTerm (maybeToList (encodingFormat this))) dataset;
          (values, dataset) =
            toRdfMaybe (\<lambda>v. QuantitiveValue_toRdf lib v False) (height this) dataset;
          dataset = add resource (schema ''height'') (map NamedNodeTerm values) dataset;
          (values, dataset) =
            toRdfMaybe (\<lambda>v. QuantitiveValue_toRdf lib v False) (width this) dataset;
          dataset = add resource (schema ''width'') (map NamedNodeTerm values) dataset
      in (resource, dataset))"

definition ImageObject_toRdf ::
  "Library \<Rightarrow> ImageObject \<Rightarrow> bool \<Rightarrow> Dataset \<Rightarrow> NamedNode \<times> Dataset" where
  "ImageObject_toRdf lib this ignoreRdfType dataset =
     (let (resource, dataset) =
            MediaObject_toRdf lib (ImageObject_identifier this) this True dataset;
          dataset = (if \<not> ignoreRdfType
                     then add resource rdf_type [NamedNodeTerm (schema ''ImageObject'')]
                            dataset
                     else dataset)
      in (resource, dataset))"

definition GenderType_toRdf :: "GenderType \<Rightarrow> bool \<Rightarrow> Dataset \<Rightarrow> NamedNode \<times> Dataset" where
  "GenderType_toRdf this ignoreRdfType dataset =
     (let (resource, dataset) =
            Enumeration_toRdf (GenderType_identifier this) this True dataset;
          dataset = (if \<not> ignoreRdfType
                     then add resource rdf_type [NamedNodeTerm (schema ''GenderType'')] dataset
                     else dataset)
      in (resource, dataset))"

fun OccupationOrRole_toRdf ::
  "Library \<Rightarrow> OccupationOrRole \<Rightarrow> Dataset \<Rightarrow> (NamedNode \<times> Dataset) Outcome" where
  "OccupationOrRole_toRdf lib (IsRole item) dataset = Role_toRdf lib item False dataset"
| "OccupationOrRole_toRdf lib (IsOccupation item) dataset =
     Returned (Occupation_toRdf item False dataset)"

definition Person_toRdf ::
  "Library \<Rightarrow> Person \<Rightarrow> bool \<Rightarrow> Dataset \<Rightarrow> (NamedNode \<times> Dataset) Outcome" where
  "Person_toRdf lib this ignoreRdfType dataset =
     (let (resource, dataset) = Thing_toRdf (Person_identifier this) this True dataset;
          dataset = (if \<not> ignoreRdfType
                     then add resource rdf_type [NamedNodeTerm (schema ''Person'')] dataset
                     else dataset)
      in
      andThen (mapOutcome (date_toRdf lib) (maybeToList (birthDate this))) (\<lambda>values.
      let dataset = add resource (schema ''birthDate'') values dataset;
          dataset = add resource (schema ''familyName'')
                      (map stringTerm (maybeToList (familyName this))) dataset;
          dataset = add resource (schema ''gender'') (maybeToList (gender this)) dataset;
          dataset = add resource (schema ''givenName'')
                      (map stringTerm (maybeToList (givenName this))) dataset
      in
      andThen (toRdfAllOutcome (OccupationOrRole_toRdf lib) (hasOccupation this) dataset)
      (\<lambda>(values, dataset).
      let dataset = add resource (schema ''hasOccupation'') (map NamedNodeTerm values)
                      dataset;
          (values, dataset) =
            toRdfAll (\<lambda>item. ImageObject_toRdf lib item False) (images this) dataset;
          dataset = add resource (schema ''image'') (map NamedNodeTerm values) dataset;
          dataset = add resource (schema ''memberOf'')
                      (map NamedNodeTerm (memberOf this)) dataset
      in Returned (resource, dataset))))"

section \<open>fromRdf\<close>

text \<open>
  The errors of the resource library: the resource in focus, the predicate expected and,
  for a value of the wrong type, the actual value.
\<close>

datatype ValueError =
    ValueError (focusResource: NamedNode) (message: string) (expectedPredicate: NamedNode)
  | MistypedValueError (actualValue: Term) (expectedValueType: string)
      (focusResource: NamedNode) (expectedPredicate: NamedNode)

text \<open>An array without the later occurrences of the elements it repeats.\<close>

definition firstOccurrences :: "'a list \<Rightarrow> 'a list" where
  "firstOccurrences xs = rev (remdups (rev xs))"

text \<open>
  \<^verbatim>\<open>resource.values(predicate, {unique: true})\<close>: the objects of the quads of the resource
  with that predicate, in the order in which the dataset lists the quads, each object
  where it is first met.
\<close>

definition valuesOf :: "Library \<Rightarrow> Dataset \<Rightarrow> NamedNode \<Rightarrow> NamedNode \<Rightarrow> Term list" where
  "valuesOf lib dataset resource p =
     firstOccurrences
       (map object
          (filter (\<lambda>q. subject q = resource \<and> predicate q = p) (storeOrder lib dataset)))"

text \<open>\<^verbatim>\<open>values.head()\<close> is the first value, or an error when there is none.\<close>

definition head ::
  "NamedNode \<Rightarrow> NamedNode \<Rightarrow> Term list \<Rightarrow> ValueError + Term" where
  "head resource p vs =
     (case vs of
        [] \<Rightarrow> Inl (ValueError resource ''no values'' p)
      | v # _ \<Rightarrow> Inr v)"

text \<open>
  \<^verbatim>\<open>resource.isInstanceOf(class)\<close>: the resource has an \<^verbatim>\<open>rdf:type\<close> quad for the class,
  or for a class that the dataset puts below it by a chain of \<^verbatim>\<open>rdfs:subClassOf\<close> quads.
  The classes below a class are collected round by round; a chain without repetition
  has no more quads than the dataset, so as many rounds as the dataset has quads reach
  them all.
\<close>

definition subClassesOf :: "Dataset \<Rightarrow> NamedNode \<Rightarrow> NamedNode list" where
  "subClassesOf dataset class =
     map subject
       (filter (\<lambda>q. predicate q = rdfs_subClassOf \<and> object q = NamedNodeTerm class) dataset)"

fun classesBelow :: "nat \<Rightarrow> Dataset \<Rightarrow> NamedNode list \<Rightarrow> NamedNode list" where
  "classesBelow 0 dataset classes = classes"
| "classesBelow (Suc rounds) dataset classes =
     classesBelow rounds dataset
       (remdups (classes @ concat (map (subClassesOf dataset) classes)))"

definition isInstanceOf :: "Dataset \<Rightarrow> NamedNode \<Rightarrow> NamedNode \<Rightarrow> bool" where
  "isInstanceOf dataset resource class =
     list_ex (\<lambda>c. Quad resource rdf_type (NamedNodeTerm c) \<in> set dataset)
       (classesBelow (length dataset) dataset [class])"

text \<open>The conversions of a value; those to primitives are the library's.\<close>

fun toIri :: "NamedNode \<Rightarrow> NamedNode \<Rightarrow> Term \<Rightarrow> ValueError + NamedNode" where
  "toIri resource p (NamedNodeTerm n) = Inr n"
| "toIri resource p v = Inl (MistypedValueError v ''NamedNode'' resource p)"

definition toNamedResource :: "NamedNode \<Rightarrow> NamedNode \<Rightarrow> Term \<Rightarrow> ValueError + NamedNode" where
  "toNamedResource resource p v = toIri resource p v"

definition toPrimitive ::
  "(Term \<Rightarrow> 'a option) \<Rightarrow> string \<Rightarrow> NamedNode \<Rightarrow> NamedNode \<Rightarrow> Term \<Rightarrow> ValueError + 'a" where
  "toPrimitive convert expected resource p v =
     (case convert v of
        Some x \<Rightarrow> Inr x
      | None \<Rightarrow> Inl (MistypedValueError v expected resource p))"

definition toMaybe :: "'e + 'a \<Rightarrow> 'a option" where
  "toMaybe e = (case e of Inl _ \<Rightarrow> None | Inr x \<Rightarrow> Some x)"

definition altLazy ::
  "'e + 'a \<Rightarrow> (unit \<Rightarrow> ('e + 'a) Outcome) \<Rightarrow> ('e + 'a) Outcome" where
  "altLazy e other = (case e of Inr x \<Rightarrow> Returned (Inr x) | Inl _ \<Rightarrow> other ())"

text \<open>
  The decoders of one optional value,
  \<^verbatim>\<open>values(p).head().chain(convert).toMaybe()\<close>, and of an array,
  \<^verbatim>\<open>values(p).flatMap(item => item.toValues().head().chain(convert).toMaybe().toList())\<close>.
\<close>

definition maybeValue ::
  "Library \<Rightarrow> (NamedNode \<Rightarrow> NamedNode \<Rightarrow> Term \<Rightarrow> ValueError + 'a) \<Rightarrow> Dataset \<Rightarrow> NamedNode
     \<Rightarrow> NamedNode \<Rightarrow> 'a option" where
  "maybeValue lib convert dataset resource p =
     toMaybe (chain (head resource p (valuesOf lib dataset resource p)) (convert resource p))"

definition arrayValues ::
  "Library \<Rightarrow> (NamedNode \<Rightarrow> NamedNode \<Rightarrow> Term \<Rightarrow> ValueError + 'a) \<Rightarrow> Dataset \<Rightarrow> NamedNode
     \<Rightarrow> NamedNode \<Rightarrow> 'a list" where
  "arrayValues lib convert dataset resource p =
     concat (map (\<lambda>item. maybeToList
                    (toMaybe (chain (head resource p [item]) (convert resource p))))
               (valuesOf lib dataset resource p))"

definition identifierToString :: "NamedNode \<Rightarrow> string" where
  "identifierToString identifier = ''<'' @ iri identifier @ ''>''"

definition unexpectedRdfType :: "NamedNode \<Rightarrow> NamedNode \<Rightarrow> ValueError" where
  "unexpectedRdfType resource class =
     ValueError resource (identifierToString resource @ '' has unexpected RDF type'') class"

text \<open>
  The properties of an abstract class are its record together with the identifier; those
  of a concrete class are the record of the class, which the constructor stores as they
  are (each is already a \<^verbatim>\<open>Maybe\<close>, an array or a named node).
\<close>

definition Thing_propertiesFromRdf ::
  "Library \<Rightarrow> bool \<Rightarrow> Dataset \<Rightarrow> NamedNode \<Rightarrow> (ValueError + NamedNode \<times> Thing) Outcome" where
  "Thing_propertiesFromRdf lib ignoreRdfType dataset resource =
     returnIfLeft (Inr (maybeValue lib (toPrimitive (toString lib) ''string'') dataset resource
                         (schema ''description'')))
     (\<lambda>description.
     let identifier = resource in
     returnIfLeft (Inr (arrayValues lib (toPrimitive (toString lib) ''string'') dataset resource
                         (schema ''identifier'')))
     (\<lambda>identifiers.
     returnIfLeft (Inr (maybeValue lib (toPrimitive (toString lib) ''string'') dataset resource
                         (schema ''name'')))
     (\<lambda>name.
     returnIfLeft (Inr (arrayValues lib toIri dataset resource (schema ''sameAs'')))
     (\<lambda>sameAs.
     returnIfLeft (Inr (maybeValue lib toIri dataset resource (schema ''url'')))
     (\<lambda>url.
     Returned (Inr (identifier,
       \<lparr> description = description, identifiers = identifiers, name = name,
         sameAs = sameAs, url = url \<rparr>)))))))"

definition Intangible_propertiesFromRdf ::
  "Library \<Rightarrow> bool \<Rightarrow> Dataset \<Rightarrow> NamedNode \<Rightarrow> (ValueError + NamedNode \<times> Thing) Outcome" where
  "Intangible_propertiesFromRdf lib ignoreRdfType dataset resource =
     callThenReturnIfLeft (Thing_propertiesFromRdf lib True dataset resource)
     (\<lambda>(_, super0).
     let identifier = resource in
     Returned (Inr (identifier, super0)))"

definition StructuredValue_propertiesFromRdf ::
  "Library \<Rightarrow> bool \<Rightarrow> Dataset \<Rightarrow> NamedNode \<Rightarrow> (ValueError + NamedNode \<times> Thing) Outcome" where
  "StructuredValue_propertiesFromRdf lib ignoreRdfType dataset resource =
     callThenReturnIfLeft (Intangible_propertiesFromRdf lib True dataset resource)
     (\<lambda>(_, super0).
     let identifier = resource in
     Returned (Inr (identifier, super0)))"

definition Enumeration_propertiesFromRdf ::
  "Library \<Rightarrow> bool \<Rightarrow> Dataset \<Rightarrow> NamedNode \<Rightarrow> (ValueError + NamedNode \<times> Thing) Outcome" where
  "Enumeration_propertiesFromRdf lib ignoreRdfType dataset resource =
     callThenReturnIfLeft (Intangible_propertiesFromRdf lib True dataset resource)
     (\<lambda>(_, super0).
     let identifier = resource in
     Returned (Inr (identifier, super0)))"

definition Role_propertiesFromRdf ::
  "Library \<Rightarrow> bool \<Rightarrow> Dataset \<Rightarrow> NamedNode \<Rightarrow> (ValueError + Role) Outcome" where
  "Role_propertiesFromRdf lib ignoreRdfType dataset resource =
     callThenReturnIfLeft (Intangible_propertiesFromRdf lib True dataset resource)
     (\<lambda>(_, super0).
     if \<not> ignoreRdfType \<and> \<not> isInstanceOf dataset resource (schema ''Role'')
     then Returned (Inl (unexpectedRdfType resource (schema ''Role'')))
     else
     returnIfLeft (Inr (maybeValue lib (toPrimitive (toDate lib) ''Date'') dataset resource
                         (schema ''endDate'')))
     (\<lambda>endDate.
     let identifier = resource in
     returnIfLeft (Inr (maybeValue lib toIri dataset resource (schema ''roleName'')))
     (\<lambda>roleName.
     returnIfLeft (Inr (maybeValue lib (toPrimitive (toDate lib) ''Date'') dataset resource
                         (schema ''startDate'')))
     (\<lambda>startDate.
     Returned (Inr (Thing.extend super0
       (Role.fields endDate (Some identifier) roleName startDate)))))))"

definition Role_fromRdf ::
  "Library \<Rightarrow> bool \<Rightarrow> Dataset \<Rightarrow> NamedNode \<Rightarrow> (ValueError + Role) Outcome" where
  "Role_fromRdf lib ignoreRdfType dataset resource =
     mapRight (\<lambda>properties. properties)
       (Role_propertiesFromRdf lib ignoreRdfType dataset resource)"

definition Occupation_propertiesFromRdf ::
  "Library \<Rightarrow> bool \<Rightarrow> Dataset \<Rightarrow> NamedNode \<Rightarrow> (ValueError + Occupation) Outcome" where
  "Occupation_propertiesFromRdf lib ignoreRdfType dataset resource =
     callThenReturnIfLeft (Intangible_propertiesFromRdf lib True dataset resource)
     (\<lambda>(_, super0).
     if \<not> ignoreRdfType \<and> \<not> isInstanceOf dataset resource (schema ''Occupation'')
     then Returned (Inl (unexpectedRdfType resource (schema ''Occupation'')))
     else
     let identifier = resource in
     Returned (Inr (Thing.extend super0 (Occupation.fields identifier))))"

definition Occupation_fromRdf ::
  "Library \<Rightarrow> bool \<Rightarrow> Dataset \<Rightarrow> NamedNode \<Rightarrow> (ValueError + Occupation) Outcome" where
  "Occupation_fromRdf lib ignoreRdfType dataset resource =
     mapRight (\<lambda>properties. properties)
       (Occupation_propertiesFromRdf lib ignoreRdfType dataset resource)"

definition Organization_propertiesFromRdf ::
  "Library \<Rightarrow> bool \<Rightarrow> Dataset \<Rightarrow> NamedNode \<Rightarrow> (ValueError + Organization) Outcome" where
  "Organization_propertiesFromRdf lib ignoreRdfType dataset resource =
     callThenReturnIfLeft (Thing_propertiesFromRdf lib True dataset resource)
     (\<lambda>(_, super0).
     if \<not> ignoreRdfType \<and> \<not> isInstanceOf dataset resource (schema ''Organization'')
     then Returned (Inl (unexpectedRdfType resource (schema ''Organization'')))
     else
     let identifier = resource in
     returnIfLeft (Inr (arrayValues lib toIri dataset resource (schema ''member'')))
     (\<lambda>members.
     returnIfLeft (Inr (arrayValues lib toIri dataset resource (schema ''parentOrganization'')))
     (\<lambda>parentOrganizations.
     returnIfLeft (Inr (arrayValues lib toIri dataset resource (schema ''subOrganization'')))
     (\<lambda>subOrganizations.
     Returned (Inr (Thing.extend super0
       (Organization.fields identifier members parentOrganizations subOrganizations)))))))"

definition Organization_fromRdf ::
  "Library \<Rightarrow> bool \<Rightarrow> Dataset \<Rightarrow> NamedNode \<Rightarrow> (ValueError + Organization) Outcome" where
  "Organization_fromRdf lib ignoreRdfType dataset resource =
     mapRight (\<lambda>properties. properties)
       (Organization_propertiesFromRdf lib ignoreRdfType dataset resource)"

definition QuantitiveValue_propertiesFromRdf ::
  "Library \<Rightarrow> bool \<Rightarrow> Dataset \<Rightarrow> NamedNode \<Rightarrow> (ValueError + QuantitiveValue) Outcome" where
  "QuantitiveValue_propertiesFromRdf lib ignoreRdfType dataset resource =
     callThenReturnIfLeft (StructuredValue_propertiesFromRdf lib True dataset resource)
     (\<lambda>(_, super0).
     if \<not> ignoreRdfType \<and> \<not> isInstanceOf dataset resource (schema ''QuantitativeValue'')
     then Returned (Inl (unexpectedRdfType resource (schema ''QuantitativeValue'')))
     else
     let identifier = resource in
     returnIfLeft (Inr (maybeValue lib (toPrimitive (toNumber lib) ''number'') dataset resource
                         (schema ''value'')))
     (\<lambda>v.
     Returned (Inr (Thing.extend super0 (QuantitiveValue.fields identifier v)))))"

definition QuantitiveValue_fromRdf ::
  "Library \<Rightarrow> bool \<Rightarrow> Dataset \<Rightarrow> NamedNode \<Rightarrow> (ValueError + QuantitiveValue) Outcome" where
  "QuantitiveValue_fromRdf lib ignoreRdfType dataset resource =
     mapRight (\<lambda>properties. properties)
       (QuantitiveValue_propertiesFromRdf lib ignoreRdfType dataset resource)"

definition CreativeWork_propertiesFromRdf ::
  "Library \<Rightarrow> bool \<Rightarrow> Dataset \<Rightarrow> NamedNode
     \<Rightarrow> (ValueError + NamedNode \<times> CreativeWork) Outcome" where
  "CreativeWork_propertiesFromRdf lib ignoreRdfType dataset resource =
     callThenReturnIfLeft (Thing_propertiesFromRdf lib True dataset resource)
     (\<lambda>(_, super0).
     let identifier = resource in
     returnIfLeft (Inr (arrayValues lib toIri dataset resource (schema ''isBasedOn'')))
     (\<lambda>isBasedOn.
     Returned (Inr (identifier, Thing.extend super0 (CreativeWork.fields isBasedOn)))))"

text \<open>
  An object-valued property: the value is turned into a named resource of the same
  dataset and decoded by the class of the property, with \<^verbatim>\<open>ignoreRdfType: true\<close>.
\<close>

definition chainCall :: "'e + 'a \<Rightarrow> ('a \<Rightarrow> ('e + 'b) Outcome) \<Rightarrow> ('e + 'b) Outcome" where
  "chainCall e f = (case e of Inl l \<Rightarrow> Returned (Inl l) | Inr r \<Rightarrow> f r)"

definition MediaObject_propertiesFromRdf ::
  "Library \<Rightarrow> bool \<Rightarrow> Dataset \<Rightarrow> NamedNode
     \<Rightarrow> (ValueError + NamedNode \<times> MediaObject) Outcome" where
  "MediaObject_propertiesFromRdf lib ignoreRdfType dataset resource =
     callThenReturnIfLeft (CreativeWork_propertiesFromRdf lib True dataset resource)
     (\<lambda>(_, super0).
     returnIfLeft (Inr (maybeValue lib toIri dataset resource (schema ''contentUrl'')))
     (\<lambda>contentUrl.
     returnIfLeft (Inr (maybeValue lib (toPrimitive (toString lib) ''string'') dataset resource
                         (schema ''encodingFormat'')))
     (\<lambda>encodingFormat.
     andThen
       (chainCall
          (chain (head resource (schema ''height'')
                    (valuesOf lib dataset resource (schema ''height'')))
             (toNamedResource resource (schema ''height'')))
          (\<lambda>r. QuantitiveValue_fromRdf lib True dataset r))
     (\<lambda>decoded.
     returnIfLeft (Inr (toMaybe decoded))
     (\<lambda>height.
     let identifier = resource in
     andThen
       (chainCall
          (chain (head resource (schema ''width'')
                    (valuesOf lib dataset resource (schema ''width'')))
             (toNamedResource resource (schema ''width'')))
          (\<lambda>r. QuantitiveValue_fromRdf lib True dataset r))
     (\<lambda>decoded.
     returnIfLeft (Inr (toMaybe decoded))
     (\<lambda>width.
     Returned (Inr (identifier, CreativeWork.extend super0
       (MediaObject.fields contentUrl encodingFormat height width))))))))))"

definition ImageObject_propertiesFromRdf ::
  "Library \<Rightarrow> bool \<Rightarrow> Dataset \<Rightarrow> NamedNode \<Rightarrow> (ValueError + ImageObject) Outcome" where
  "ImageObject_propertiesFromRdf lib ignoreRdfType dataset resource =
     callThenReturnIfLeft (MediaObject_propertiesFromRdf lib True dataset resource)
     (\<lambda>(_, super0).
     if \<not> ignoreRdfType \<and> \<not> isInstanceOf dataset resource (schema ''ImageObject'')
     then Returned (Inl (unexpectedRdfType resource (schema ''ImageObject'')))
     else
     let identifier = resource in
     Returned (Inr (MediaObject.extend super0 (ImageObject.fields identifier))))"

definition ImageObject_fromRdf ::
  "Library \<Rightarrow> bool \<Rightarrow> Dataset \<Rightarrow> NamedNode \<Rightarrow> (ValueError + ImageObject) Outcome" where
  "ImageObject_fromRdf lib ignoreRdfType dataset resource =
     mapRight (\<lambda>properties. properties)
       (ImageObject_propertiesFromRdf lib ignoreRdfType dataset resource)"

text \<open>A string between double quotes, as the message of the error below has them.\<close>

definition quoted :: "string \<Rightarrow> string" where
  "quoted s = [CHR 0x22] @ s @ [CHR 0x22]"

definition GenderType_propertiesFromRdf ::
  "Library \<Rightarrow> bool \<Rightarrow> Dataset \<Rightarrow> NamedNode \<Rightarrow> (ValueError + GenderType) Outcome" where
  "GenderType_propertiesFromRdf lib ignoreRdfType dataset resource =
     callThenReturnIfLeft (Enumeration_propertiesFromRdf lib True dataset resource)
     (\<lambda>(_, super0).
     if \<not> ignoreRdfType \<and> \<not> isInstanceOf dataset resource (schema ''GenderType'')
     then Returned (Inl (unexpectedRdfType resource (schema ''GenderType'')))
     else if iri resource = ''http://schema.org/Female''
     then Returned (Inr (Thing.extend super0
            (GenderType.fields (NamedNode ''http://schema.org/Female''))))
     else if iri resource = ''http://schema.org/Male''
     then Returned (Inr (Thing.extend super0
            (GenderType.fields (NamedNode ''http://schema.org/Male''))))
     else Returned (Inl (MistypedValueError (NamedNodeTerm resource)
            (''rdfjs.NamedNode<'' @ quoted ''http://schema.org/Female'' @ '' | ''
             @ quoted ''http://schema.org/Male'' @ ''>'')
            resource rdf_subject)))"

definition GenderType_fromRdf ::
  "Library \<Rightarrow> bool \<Rightarrow> Dataset \<Rightarrow> NamedNode \<Rightarrow> (ValueError + GenderType) Outcome" where
  "GenderType_fromRdf lib ignoreRdfType dataset resource =
     mapRight (\<lambda>properties. properties)
       (GenderType_propertiesFromRdf lib ignoreRdfType dataset resource)"

text \<open>
  One value of \<^verbatim>\<open>hasOccupation\<close>: the decoder of \<^verbatim>\<open>Occupation\<close> is tried first and, when
  it returns a \<^verbatim>\<open>Left\<close>, the decoder of \<^verbatim>\<open>Role\<close> (\<^verbatim>\<open>altLazy\<close>); both are called with
  \<^verbatim>\<open>ignoreRdfType: true\<close>.
\<close>

definition occupationAttempt ::
  "Library \<Rightarrow> Dataset \<Rightarrow> NamedNode \<Rightarrow> Term \<Rightarrow> (ValueError + OccupationOrRole) Outcome" where
  "occupationAttempt lib dataset resource item =
     mapRight IsOccupation
       (chainCall
          (chain (head resource (schema ''hasOccupation'') [item])
             (toNamedResource resource (schema ''hasOccupation'')))
          (\<lambda>r. Occupation_fromRdf lib True dataset r))"

definition roleAttempt ::
  "Library \<Rightarrow> Dataset \<Rightarrow> NamedNode \<Rightarrow> Term \<Rightarrow> (ValueError + OccupationOrRole) Outcome" where
  "roleAttempt lib dataset resource item =
     mapRight IsRole
       (chainCall
          (chain (head resource (schema ''hasOccupation'') [item])
             (toNamedResource resource (schema ''hasOccupation'')))
          (\<lambda>r. Role_fromRdf lib True dataset r))"

definition hasOccupationFromRdf ::
  "Library \<Rightarrow> Dataset \<Rightarrow> NamedNode \<Rightarrow> Term \<Rightarrow> OccupationOrRole list Outcome" where
  "hasOccupationFromRdf lib dataset resource item =
     andThen (occupationAttempt lib dataset resource item)
     (\<lambda>first.
     andThen (altLazy first (\<lambda>_. roleAttempt lib dataset resource item))
     (\<lambda>decoded. Returned (maybeToList (toMaybe decoded))))"

definition imageFromRdf ::
  "Library \<Rightarrow> Dataset \<Rightarrow> NamedNode \<Rightarrow> Term \<Rightarrow> ImageObject list Outcome" where
  "imageFromRdf lib dataset resource item =
     andThen
       (chainCall
          (chain (head resource (schema ''image'') [item])
             (toNamedResource resource (schema ''image'')))
          (\<lambda>r. ImageObject_fromRdf lib True dataset r))
     (\<lambda>decoded. Returned (maybeToList (toMaybe decoded)))"

definition Person_propertiesFromRdf ::
  "Library \<Rightarrow> bool \<Rightarrow> Dataset \<Rightarrow> NamedNode \<Rightarrow> (ValueError + Person) Outcome" where
  "Person_propertiesFromRdf lib ignoreRdfType dataset resource =
     callThenReturnIfLeft (Thing_propertiesFromRdf lib True dataset resource)
     (\<lambda>(_, super0).
     if \<not> ignoreRdfType \<and> \<not> isInstanceOf dataset resource (schema ''Person'')
     then Returned (Inl (unexpectedRdfType resource (schema ''Person'')))
     else
     returnIfLeft (Inr (maybeValue lib (toPrimitive (toDate lib) ''Date'') dataset resource
                         (schema ''birthDate'')))
     (\<lambda>birthDate.
     returnIfLeft (Inr (maybeValue lib (toPrimitive (toString lib) ''string'') dataset resource
                         (schema ''familyName'')))
     (\<lambda>familyName.
     returnIfLeft (Inr (maybeValue lib (\<lambda>_ _ v. Inr v) dataset resource (schema ''gender'')))
     (\<lambda>gender.
     returnIfLeft (Inr (maybeValue lib (toPrimitive (toString lib) ''string'') dataset resource
                         (schema ''givenName'')))
     (\<lambda>givenName.
     andThen (mapOutcome (hasOccupationFromRdf lib dataset resource)
                (valuesOf lib dataset resource (schema ''hasOccupation'')))
     (\<lambda>decoded.
     returnIfLeft (Inr (concat decoded))
     (\<lambda>hasOccupation.
     let identifier = resource in
     andThen (mapOutcome (imageFromRdf lib dataset resource)
                (valuesOf lib dataset resource (schema ''image'')))
     (\<lambda>decoded.
     returnIfLeft (Inr (concat decoded))
     (\<lambda>images.
     returnIfLeft (Inr (arrayValues lib toIri dataset resource (schema ''memberOf'')))
     (\<lambda>memberOf.
     Returned (Inr (Thing.extend super0
       (Person.fields birthDate familyName gender givenName hasOccupation identifier
          images memberOf)))))))))))))"

definition Person_fromRdf ::
  "Library \<Rightarrow> bool \<Rightarrow> Dataset \<Rightarrow> NamedNode \<Rightarrow> (ValueError + Person) Outcome" where
  "Person_fromRdf lib ignoreRdfType dataset resource =
     mapRight (\<lambda>properties. properties)
       (Person_propertiesFromRdf lib ignoreRdfType dataset resource)"

section \<open>JSON values and schemas\<close>

text \<open>
  A JSON value; an object is the list of its keys and values in insertion order. The
  input of \<^verbatim>\<open>fromJson\<close>, typed \<^verbatim>\<open>unknown\<close>, ranges over these values (a number may be
  any JavaScript number).
\<close>

datatype Json =
    JNull
  | JBoolean bool
  | JNumber number
  | JString string
  | JArray "Json list"
  | JObject "(string \<times> Json) list"

text \<open>\<^verbatim>\<open>object[key]\<close>, undefined when the key is missing.\<close>

fun field :: "Json \<Rightarrow> string \<Rightarrow> Json option" where
  "field (JObject kvs) k = map_of kvs k"
| "field j k = None"

text \<open>
  Reading a property whose type the schema has established; on values of another
  shape, which the schema has excluded, the result is left unspecified.
\<close>

definition get :: "Json \<Rightarrow> string \<Rightarrow> Json" where
  "get j k = the (field j k)"

fun asString :: "Json \<Rightarrow> string" where
  "asString (JString s) = s"

fun asNumber :: "Json \<Rightarrow> number" where
  "asNumber (JNumber n) = n"

fun asArray :: "Json \<Rightarrow> Json list" where
  "asArray (JArray xs) = xs"

subsection \<open>Date strings\<close>

text \<open>
  \<^verbatim>\<open>string.replace(/T.*$/, "")\<close>: the leftmost \<^verbatim>\<open>T\<close> that is followed by no line terminator
  up to the end of the string is removed together with what follows it.
\<close>

definition lineTerminator :: "char \<Rightarrow> bool" where
  "lineTerminator c = (c = CHR 0x0A \<or> c = CHR 0x0D)"

fun replaceTimeSuffix :: "string \<Rightarrow> string" where
  "replaceTimeSuffix [] = []"
| "replaceTimeSuffix (c # cs) =
     (if c = CHR ''T'' \<and> list_all (\<lambda>x. \<not> lineTerminator x) cs then []
      else c # replaceTimeSuffix cs)"

text \<open>The digit a character writes, if any.\<close>

definition digitValue :: "char \<Rightarrow> int option" where
  "digitValue c = find (\<lambda>n. digit n = c) [0, 1, 2, 3, 4, 5, 6, 7, 8, 9]"

text \<open>The number written by a string of decimal digits, read from the left.\<close>

fun digitsValue :: "int \<Rightarrow> string \<Rightarrow> int option" where
  "digitsValue acc [] = Some acc"
| "digitsValue acc (c # cs) =
     (case digitValue c of
        None \<Rightarrow> None
      | Some v \<Rightarrow> digitsValue (acc * 10 + v) cs)"

text \<open>
  A string \<^verbatim>\<open>YYYY-MM-DD\<close> that names a day of the calendar: the strings the schema's
  \<^verbatim>\<open>date()\<close> check accepts.
\<close>

definition parseDateOnly :: "string \<Rightarrow> (int \<times> int \<times> int) option" where
  "parseDateOnly s =
     (if length s = 10 \<and> s ! 4 = CHR ''-'' \<and> s ! 7 = CHR ''-''
      then (case (digitsValue 0 (take 4 s), digitsValue 0 (take 2 (drop 5 s)),
                  digitsValue 0 (drop 8 s)) of
              (Some y, Some m, Some d) \<Rightarrow>
                if 1 \<le> m \<and> m \<le> 12 \<and> 1 \<le> d \<and> d \<le> daysInMonth y m
                then Some (y, m, d) else None
            | _ \<Rightarrow> None)
      else None)"

definition isDateString :: "string \<Rightarrow> bool" where
  "isDateString s = (parseDateOnly s \<noteq> None)"

text \<open>
  \<^verbatim>\<open>new Date(string)\<close> on a string of that form is midnight UTC of the day. On other
  strings, which reach the constructor nowhere in this code, JavaScript gives the
  \<^verbatim>\<open>Invalid Date\<close>; the result is left unspecified.
\<close>

definition newDate :: "string \<Rightarrow> Date" where
  "newDate s = (case the (parseDateOnly s) of (y, m, d) \<Rightarrow> Date y m d 0)"

subsection \<open>Schemas\<close>

text \<open>
  The schemas the code builds with the validation library: strings with checks,
  numbers, enumerations, literals, optional values, arrays, objects (which drop the keys
  they do not declare) and unions of objects discriminated by a literal-valued key.
\<close>

datatype StringCheck = Min nat | IsDate

datatype Schema =
    ZString "StringCheck list"
  | ZNumber
  | ZEnum "string list"
  | ZLiteral string
  | ZOptional Schema
  | ZArray Schema
  | ZObject "(string \<times> Schema) list"
  | ZDiscriminatedUnion string "Schema list"

fun checkString :: "StringCheck \<Rightarrow> string \<Rightarrow> bool" where
  "checkString (Min n) s = (n \<le> length s)"
| "checkString IsDate s = isDateString s"

fun isOptional :: "Schema \<Rightarrow> bool" where
  "isOptional (ZOptional s) = True"
| "isOptional s = False"

text \<open>The literal an option of a discriminated union declares for the discriminator.\<close>

fun discriminatorValue :: "string \<Rightarrow> Schema \<Rightarrow> string option" where
  "discriminatorValue d (ZObject shape) =
     (case map_of shape d of Some (ZLiteral l) \<Rightarrow> Some l | _ \<Rightarrow> None)"
| "discriminatorValue d s = None"

text \<open>
  The value passes the schema. A missing key passes an optional schema only; \<^verbatim>\<open>NaN\<close>
  is not a number for the library; a union is decided by the option that declares the
  value of the discriminator.
\<close>

fun validValue :: "Schema \<Rightarrow> Json \<Rightarrow> bool" where
  "validValue (ZString checks) j =
     (case j of JString s \<Rightarrow> list_all (\<lambda>c. checkString c s) checks | _ \<Rightarrow> False)"
| "validValue ZNumber j = (case j of JNumber n \<Rightarrow> n \<noteq> NaN | _ \<Rightarrow> False)"
| "validValue (ZEnum vs) j = (case j of JString s \<Rightarrow> s \<in> set vs | _ \<Rightarrow> False)"
| "validValue (ZLiteral l) j = (case j of JString s \<Rightarrow> s = l | _ \<Rightarrow> False)"
| "validValue (ZOptional s) j = validValue s j"
| "validValue (ZArray s) j =
     (case j of JArray xs \<Rightarrow> list_all (\<lambda>x. validValue s x) xs | _ \<Rightarrow> False)"
| "validValue (ZObject shape) j =
     (case j of
        JObject kvs \<Rightarrow>
          list_all (\<lambda>(k, s). case map_of kvs k of
                                 None \<Rightarrow> isOptional s
                               | Some v \<Rightarrow> validValue s v) shape
      | _ \<Rightarrow> False)"
| "validValue (ZDiscriminatedUnion d options) j =
     (case field j d of
        Some (JString l) \<Rightarrow>
          list_ex (\<lambda>option. discriminatorValue d option = Some l \<and> validValue option j)
            options
      | _ \<Rightarrow> False)"

text \<open>The data of a successful parse: the value with the undeclared keys dropped.\<close>

fun strip :: "Schema \<Rightarrow> Json \<Rightarrow> Json" where
  "strip (ZOptional s) j = strip s j"
| "strip (ZArray s) j = (case j of JArray xs \<Rightarrow> JArray (map (\<lambda>x. strip s x) xs) | _ \<Rightarrow> j)"
| "strip (ZObject shape) j =
     (case j of
        JObject kvs \<Rightarrow>
          JObject (concat (map (\<lambda>(k, s). case map_of kvs k of
                                             None \<Rightarrow> []
                                           | Some v \<Rightarrow> [(k, strip s v)]) shape))
      | _ \<Rightarrow> j)"
| "strip (ZDiscriminatedUnion d options) j =
     (case field j d of
        Some (JString l) \<Rightarrow>
          (case concat (map (\<lambda>option. if discriminatorValue d option = Some l
                                       then [strip option j] else []) options) of
             [] \<Rightarrow> j
           | x # _ \<Rightarrow> x)
      | _ \<Rightarrow> j)"
| "strip s j = j"

text \<open>The issues of a failed parse, each with the path of the offending value.\<close>

datatype PathElement = Key string | Index nat

datatype ZodIssue = ZodIssue (code: string) (path: "PathElement list")

datatype ZodError = ZodError (issues: "ZodIssue list")

fun checkCode :: "StringCheck \<Rightarrow> string" where
  "checkCode (Min n) = ''too_small''"
| "checkCode IsDate = ''invalid_string''"

text \<open>
  The code of the issue for a required key that is missing: the value is undefined,
  which a literal schema reports as a wrong literal and the other schemas as a wrong
  type.
\<close>

fun missingCode :: "Schema \<Rightarrow> string" where
  "missingCode (ZLiteral l) = ''invalid_literal''"
| "missingCode s = ''invalid_type''"

fun issuesOf :: "Schema \<Rightarrow> PathElement list \<Rightarrow> Json \<Rightarrow> ZodIssue list" where
  "issuesOf (ZString checks) p j =
     (case j of
        JString s \<Rightarrow> map (\<lambda>c. ZodIssue (checkCode c) p) (filter (\<lambda>c. \<not> checkString c s) checks)
      | _ \<Rightarrow> [ZodIssue ''invalid_type'' p])"
| "issuesOf ZNumber p j = (if validValue ZNumber j then [] else [ZodIssue ''invalid_type'' p])"
| "issuesOf (ZEnum vs) p j =
     (case j of
        JString s \<Rightarrow> (if s \<in> set vs then [] else [ZodIssue ''invalid_enum_value'' p])
      | _ \<Rightarrow> [ZodIssue ''invalid_type'' p])"
| "issuesOf (ZLiteral l) p j =
     (if validValue (ZLiteral l) j then [] else [ZodIssue ''invalid_literal'' p])"
| "issuesOf (ZOptional s) p j = issuesOf s p j"
| "issuesOf (ZArray s) p j =
     (case j of
        JArray xs \<Rightarrow>
          concat (map (\<lambda>(i, x). issuesOf s (p @ [Index i]) x) (enumerate 0 xs))
      | _ \<Rightarrow> [ZodIssue ''invalid_type'' p])"
| "issuesOf (ZObject shape) p j =
     (case j of
        JObject kvs \<Rightarrow>
          concat (map (\<lambda>(k, s). case map_of kvs k of
                                   None \<Rightarrow> (if isOptional s then []
                                            else [ZodIssue (missingCode s) (p @ [Key k])])
                                 | Some v \<Rightarrow> issuesOf s (p @ [Key k]) v) shape)
      | _ \<Rightarrow> [ZodIssue ''invalid_type'' p])"
| "issuesOf (ZDiscriminatedUnion d options) p j =
     (case j of
        JObject kvs \<Rightarrow>
          (case field j d of
             Some (JString l) \<Rightarrow>
               (if list_ex (\<lambda>option. discriminatorValue d option = Some l) options
                then concat (map (\<lambda>option. if discriminatorValue d option = Some l
                                             then issuesOf option p j else []) options)
                else [ZodIssue ''invalid_union_discriminator'' (p @ [Key d])])
           | _ \<Rightarrow> [ZodIssue ''invalid_union_discriminator'' (p @ [Key d])])
      | _ \<Rightarrow> [ZodIssue ''invalid_type'' p])"

text \<open>\<^verbatim>\<open>schema.safeParse(json)\<close>: the data, or the error with the issues.\<close>

definition safeParse :: "Schema \<Rightarrow> Json \<Rightarrow> ZodError + Json" where
  "safeParse s json =
     (if validValue s json then Inr (strip s json) else Inl (ZodError (issuesOf s [] json)))"

text \<open>
  \<^verbatim>\<open>a.merge(b)\<close>: the keys of \<open>b\<close> replace those of \<open>a\<close> where they are, the others
  follow.
\<close>

fun merge :: "Schema \<Rightarrow> Schema \<Rightarrow> Schema" where
  "merge (ZObject a) (ZObject b) =
     ZObject (map (\<lambda>(k, s). (k, case map_of b k of Some s' \<Rightarrow> s' | None \<Rightarrow> s)) a
              @ filter (\<lambda>(k, s). map_of a k = None) b)"
| "merge a b = b"

section \<open>toJson\<close>

text \<open>
  \<^verbatim>\<open>JSON.parse(JSON.stringify({ ... }))\<close>: a property whose value is undefined is dropped,
  a number that is not finite becomes \<^verbatim>\<open>null\<close>. An object literal is given by its
  entries, an undefined value as \<open>None\<close>. The \<^verbatim>\<open>toJson\<close> of a class with dates, or with
  roles among its values, throws when the getter of the identifier or the
  \<^verbatim>\<open>toISOString\<close> of a date does.
\<close>

definition presentEntries :: "(string \<times> Json option) list \<Rightarrow> (string \<times> Json) list" where
  "presentEntries entries =
     concat (map (\<lambda>(k, v). case v of None \<Rightarrow> [] | Some j \<Rightarrow> [(k, j)]) entries)"

definition objectLiteral :: "(string \<times> Json option) list \<Rightarrow> Json" where
  "objectLiteral entries = JObject (presentEntries entries)"

text \<open>
  \<^verbatim>\<open>{ ...super.toJson(), key: value, ... }\<close>: the entries of the superclass followed by
  those the class adds (whose keys are new).
\<close>

fun spread :: "Json \<Rightarrow> (string \<times> Json option) list \<Rightarrow> Json" where
  "spread (JObject kvs) entries = JObject (kvs @ presentEntries entries)"
| "spread j entries = objectLiteral entries"

fun jsonNumber :: "number \<Rightarrow> Json" where
  "jsonNumber (Finite q) = JNumber (Finite q)"
| "jsonNumber n = JNull"

definition reference :: "NamedNode \<Rightarrow> Json" where
  "reference n = JObject [(''@id'', JString (iri n))]"

definition dateToJson :: "Date \<Rightarrow> Json Outcome" where
  "dateToJson d = andThen (toISOString d) (\<lambda>s. Returned (JString (replaceTimeSuffix s)))"

fun termToJson :: "Term \<Rightarrow> Json" where
  "termToJson (LiteralTerm v l d) =
     objectLiteral
       [(''@language'', if length l > 0 then Some (JString l) else None),
        (''@type'', if iri d \<noteq> ''http://www.w3.org/2001/XMLSchema#string''
                    then Some (JString (iri d)) else None),
        (''@value'', Some (JString v)),
        (''termType'', Some (JString ''Literal''))]"
| "termToJson (NamedNodeTerm n) =
     objectLiteral [(''@id'', Some (JString (iri n))), (''termType'', Some (JString ''NamedNode''))]"
| "termToJson (BlankNodeTerm b) =
     objectLiteral [(''@id'', Some (JString (''_:'' @ b))),
                 (''termType'', Some (JString ''BlankNode''))]"

definition Thing_toJson :: "NamedNode \<Rightarrow> string \<Rightarrow> 'a Thing_scheme \<Rightarrow> Json" where
  "Thing_toJson thisIdentifier thisType this =
     objectLiteral
       [(''description'', map_option JString (description this)),
        (''@id'', Some (JString (iri thisIdentifier))),
        (''identifiers'', Some (JArray (map JString (identifiers this)))),
        (''name'', map_option JString (name this)),
        (''sameAs'', Some (JArray (map reference (sameAs this)))),
        (''type'', Some (JString thisType)),
        (''url'', map_option reference (url this))]"

definition Role_toJson :: "Library \<Rightarrow> Role \<Rightarrow> Json Outcome" where
  "Role_toJson lib this =
     andThen (Role_identifier lib this) (\<lambda>thisIdentifier.
     andThen (mapOutcomeOption dateToJson (endDate this)) (\<lambda>endDate.
     andThen (mapOutcomeOption dateToJson (startDate this)) (\<lambda>startDate.
     Returned
       (spread (Thing_toJson thisIdentifier Role_type this)
          [(''endDate'', endDate),
           (''roleName'', map_option reference (roleName this)),
           (''startDate'', startDate)]))))"

definition Occupation_toJson :: "Occupation \<Rightarrow> Json" where
  "Occupation_toJson this = Thing_toJson (Occupation_identifier this) Occupation_type this"

definition GenderType_toJson :: "GenderType \<Rightarrow> Json" where
  "GenderType_toJson this = Thing_toJson (GenderType_identifier this) GenderType_type this"

definition Organization_toJson :: "Organization \<Rightarrow> Json" where
  "Organization_toJson this =
     spread (Thing_toJson (Organization_identifier this) Organization_type this)
       [(''members'', Some (JArray (map reference (members this)))),
        (''parentOrganizations'', Some (JArray (map reference (parentOrganizations this)))),
        (''subOrganizations'', Some (JArray (map reference (subOrganizations this))))]"

definition QuantitiveValue_toJson :: "QuantitiveValue \<Rightarrow> Json" where
  "QuantitiveValue_toJson this =
     spread (Thing_toJson (QuantitiveValue_identifier this) QuantitiveValue_type this)
       [(''value'', map_option jsonNumber (QuantitiveValue_value this))]"

definition CreativeWork_toJson :: "NamedNode \<Rightarrow> string \<Rightarrow> 'a CreativeWork_scheme \<Rightarrow> Json" where
  "CreativeWork_toJson thisIdentifier thisType this =
     spread (Thing_toJson thisIdentifier thisType this)
       [(''isBasedOn'', Some (JArray (map reference (isBasedOn this))))]"

definition MediaObject_toJson :: "NamedNode \<Rightarrow> string \<Rightarrow> 'a MediaObject_scheme \<Rightarrow> Json" where
  "MediaObject_toJson thisIdentifier thisType this =
     spread (CreativeWork_toJson thisIdentifier thisType this)
       [(''contentUrl'', map_option reference (contentUrl this)),
        (''encodingFormat'', map_option JString (encodingFormat this)),
        (''height'', map_option QuantitiveValue_toJson (height this)),
        (''width'', map_option QuantitiveValue_toJson (width this))]"

definition ImageObject_toJson :: "ImageObject \<Rightarrow> Json" where
  "ImageObject_toJson this =
     MediaObject_toJson (ImageObject_identifier this) ImageObject_type this"

fun OccupationOrRole_toJson :: "Library \<Rightarrow> OccupationOrRole \<Rightarrow> Json Outcome" where
  "OccupationOrRole_toJson lib (IsRole item) = Role_toJson lib item"
| "OccupationOrRole_toJson lib (IsOccupation item) = Returned (Occupation_toJson item)"

definition Person_toJson :: "Library \<Rightarrow> Person \<Rightarrow> Json Outcome" where
  "Person_toJson lib this =
     andThen (mapOutcomeOption dateToJson (birthDate this)) (\<lambda>birthDate.
     andThen (mapOutcome (OccupationOrRole_toJson lib) (hasOccupation this))
     (\<lambda>hasOccupation.
     Returned
       (spread (Thing_toJson (Person_identifier this) Person_type this)
          [(''birthDate'', birthDate),
           (''familyName'', map_option JString (familyName this)),
           (''gender'', map_option termToJson (gender this)),
           (''givenName'', map_option JString (givenName this)),
           (''hasOccupation'', Some (JArray hasOccupation)),
           (''images'', Some (JArray (map ImageObject_toJson (images this)))),
           (''memberOf'', Some (JArray (map reference (memberOf this))))])))"

section \<open>The schemas of the classes\<close>

definition referenceSchema :: Schema where
  "referenceSchema = ZObject [(''@id'', ZString [Min 1])]"

definition thingJsonZodSchema :: Schema where
  "thingJsonZodSchema =
     ZObject
       [(''description'', ZOptional (ZString [])),
        (''@id'', ZString [Min 1]),
        (''identifiers'', ZArray (ZString [])),
        (''name'', ZOptional (ZString [])),
        (''sameAs'', ZArray referenceSchema),
        (''type'', ZEnum [''GenderType'', ''ImageObject'', ''Occupation'', ''Organization'',
                          ''Person'', ''QuantitiveValue'', ''Role'']),
        (''url'', ZOptional referenceSchema)]"

definition intangibleJsonZodSchema :: Schema where
  "intangibleJsonZodSchema =
     merge thingJsonZodSchema
       (ZObject
          [(''@id'', ZString [Min 1]),
           (''type'', ZEnum [''GenderType'', ''Occupation'', ''QuantitiveValue'', ''Role''])])"

definition structuredValueJsonZodSchema :: Schema where
  "structuredValueJsonZodSchema =
     merge intangibleJsonZodSchema
       (ZObject [(''@id'', ZString [Min 1]), (''type'', ZLiteral ''QuantitiveValue'')])"

definition roleJsonZodSchema :: Schema where
  "roleJsonZodSchema =
     merge intangibleJsonZodSchema
       (ZObject
          [(''endDate'', ZOptional (ZString [IsDate])),
           (''@id'', ZString [Min 1]),
           (''roleName'', ZOptional referenceSchema),
           (''startDate'', ZOptional (ZString [IsDate])),
           (''type'', ZLiteral ''Role'')])"

definition occupationJsonZodSchema :: Schema where
  "occupationJsonZodSchema =
     merge intangibleJsonZodSchema
       (ZObject [(''@id'', ZString [Min 1]), (''type'', ZLiteral ''Occupation'')])"

definition organizationJsonZodSchema :: Schema where
  "organizationJsonZodSchema =
     merge thingJsonZodSchema
       (ZObject
          [(''@id'', ZString [Min 1]),
           (''members'', ZArray referenceSchema),
           (''parentOrganizations'', ZArray referenceSchema),
           (''subOrganizations'', ZArray referenceSchema),
           (''type'', ZLiteral ''Organization'')])"

definition quantitiveValueJsonZodSchema :: Schema where
  "quantitiveValueJsonZodSchema =
     merge structuredValueJsonZodSchema
       (ZObject
          [(''@id'', ZString [Min 1]),
           (''type'', ZLiteral ''QuantitiveValue''),
           (''value'', ZOptional ZNumber)])"

definition creativeWorkJsonZodSchema :: Schema where
  "creativeWorkJsonZodSchema =
     merge thingJsonZodSchema
       (ZObject
          [(''@id'', ZString [Min 1]),
           (''isBasedOn'', ZArray referenceSchema),
           (''type'', ZLiteral ''ImageObject'')])"

definition mediaObjectJsonZodSchema :: Schema where
  "mediaObjectJsonZodSchema =
     merge creativeWorkJsonZodSchema
       (ZObject
          [(''contentUrl'', ZOptional referenceSchema),
           (''encodingFormat'', ZOptional (ZString [])),
           (''height'', ZOptional quantitiveValueJsonZodSchema),
           (''@id'', ZString [Min 1]),
           (''type'', ZLiteral ''ImageObject''),
           (''width'', ZOptional quantitiveValueJsonZodSchema)])"

definition imageObjectJsonZodSchema :: Schema where
  "imageObjectJsonZodSchema =
     merge mediaObjectJsonZodSchema
       (ZObject [(''@id'', ZString [Min 1]), (''type'', ZLiteral ''ImageObject'')])"

definition enumerationJsonZodSchema :: Schema where
  "enumerationJsonZodSchema =
     merge intangibleJsonZodSchema
       (ZObject [(''@id'', ZString [Min 1]), (''type'', ZLiteral ''GenderType'')])"

definition genderTypeJsonZodSchema :: Schema where
  "genderTypeJsonZodSchema =
     merge enumerationJsonZodSchema
       (ZObject
          [(''@id'', ZEnum [''http://schema.org/Female'', ''http://schema.org/Male'']),
           (''type'', ZLiteral ''GenderType'')])"

definition genderJsonZodSchema :: Schema where
  "genderJsonZodSchema =
     ZDiscriminatedUnion ''termType''
       [ZObject [(''@id'', ZString [Min 1]), (''termType'', ZLiteral ''BlankNode'')],
        ZObject [(''@id'', ZString [Min 1]), (''termType'', ZLiteral ''NamedNode'')],
        ZObject [(''@language'', ZOptional (ZString [])),
                 (''@type'', ZOptional (ZString [])),
                 (''@value'', ZString []),
                 (''termType'', ZLiteral ''Literal'')]]"

definition hasOccupationJsonZodSchema :: Schema where
  "hasOccupationJsonZodSchema =
     ZDiscriminatedUnion ''type'' [occupationJsonZodSchema, roleJsonZodSchema]"

definition personJsonZodSchema :: Schema where
  "personJsonZodSchema =
     merge thingJsonZodSchema
       (ZObject
          [(''birthDate'', ZOptional (ZString [IsDate])),
           (''familyName'', ZOptional (ZString [])),
           (''gender'', ZOptional genderJsonZodSchema),
           (''givenName'', ZOptional (ZString [])),
           (''hasOccupation'', ZArray hasOccupationJsonZodSchema),
           (''@id'', ZString [Min 1]),
           (''images'', ZArray imageObjectJsonZodSchema),
           (''memberOf'', ZArray referenceSchema),
           (''type'', ZLiteral ''Person'')])"

section \<open>fromJson\<close>

definition namedNodeOfReference :: "Json \<Rightarrow> NamedNode" where
  "namedNodeOfReference item = NamedNode (asString (get item ''@id''))"

definition Thing_propertiesFromJson :: "Json \<Rightarrow> (ZodError + NamedNode \<times> Thing) Outcome" where
  "Thing_propertiesFromJson json =
     (case safeParse thingJsonZodSchema json of
        Inl error \<Rightarrow> Returned (Inl error)
      | Inr jsonObject \<Rightarrow>
          let description = map_option asString (field jsonObject ''description'');
              identifier = NamedNode (asString (get jsonObject ''@id''));
              identifiers = map asString (asArray (get jsonObject ''identifiers''));
              name = map_option asString (field jsonObject ''name'');
              sameAs = map namedNodeOfReference (asArray (get jsonObject ''sameAs''));
              url = map_option namedNodeOfReference (field jsonObject ''url'')
          in Returned (Inr (identifier,
               \<lparr> description = description, identifiers = identifiers, name = name,
                 sameAs = sameAs, url = url \<rparr>)))"

definition Intangible_propertiesFromJson ::
  "Json \<Rightarrow> (ZodError + NamedNode \<times> Thing) Outcome" where
  "Intangible_propertiesFromJson json =
     (case safeParse intangibleJsonZodSchema json of
        Inl error \<Rightarrow> Returned (Inl error)
      | Inr jsonObject \<Rightarrow>
          callThenReturnIfLeft (Thing_propertiesFromJson jsonObject)
          (\<lambda>(_, super0).
          let identifier = NamedNode (asString (get jsonObject ''@id''))
          in Returned (Inr (identifier, super0))))"

definition StructuredValue_propertiesFromJson ::
  "Json \<Rightarrow> (ZodError + NamedNode \<times> Thing) Outcome" where
  "StructuredValue_propertiesFromJson json =
     (case safeParse structuredValueJsonZodSchema json of
        Inl error \<Rightarrow> Returned (Inl error)
      | Inr jsonObject \<Rightarrow>
          callThenReturnIfLeft (Intangible_propertiesFromJson jsonObject)
          (\<lambda>(_, super0).
          let identifier = NamedNode (asString (get jsonObject ''@id''))
          in Returned (Inr (identifier, super0))))"

definition Enumeration_propertiesFromJson ::
  "Json \<Rightarrow> (ZodError + NamedNode \<times> Thing) Outcome" where
  "Enumeration_propertiesFromJson json =
     (case safeParse enumerationJsonZodSchema json of
        Inl error \<Rightarrow> Returned (Inl error)
      | Inr jsonObject \<Rightarrow>
          callThenReturnIfLeft (Intangible_propertiesFromJson jsonObject)
          (\<lambda>(_, super0).
          let identifier = NamedNode (asString (get jsonObject ''@id''))
          in Returned (Inr (identifier, super0))))"

definition Role_propertiesFromJson :: "Json \<Rightarrow> (ZodError + Role) Outcome" where
  "Role_propertiesFromJson json =
     (case safeParse roleJsonZodSchema json of
        Inl error \<Rightarrow> Returned (Inl error)
      | Inr jsonObject \<Rightarrow>
          callThenReturnIfLeft (Intangible_propertiesFromJson jsonObject)
          (\<lambda>(_, super0).
          let endDate = map_option (\<lambda>item. newDate (asString item))
                          (field jsonObject ''endDate'');
              identifier = NamedNode (asString (get jsonObject ''@id''));
              roleName = map_option namedNodeOfReference (field jsonObject ''roleName'');
              startDate = map_option (\<lambda>item. newDate (asString item))
                            (field jsonObject ''startDate'')
          in Returned (Inr (Thing.extend super0
               (Role.fields endDate (Some identifier) roleName startDate)))))"

definition Role_fromJson :: "Json \<Rightarrow> (ZodError + Role) Outcome" where
  "Role_fromJson json = mapRight (\<lambda>properties. properties) (Role_propertiesFromJson json)"

definition Occupation_propertiesFromJson :: "Json \<Rightarrow> (ZodError + Occupation) Outcome" where
  "Occupation_propertiesFromJson json =
     (case safeParse occupationJsonZodSchema json of
        Inl error \<Rightarrow> Returned (Inl error)
      | Inr jsonObject \<Rightarrow>
          callThenReturnIfLeft (Intangible_propertiesFromJson jsonObject)
          (\<lambda>(_, super0).
          let identifier = NamedNode (asString (get jsonObject ''@id''))
          in Returned (Inr (Thing.extend super0 (Occupation.fields identifier)))))"

definition Occupation_fromJson :: "Json \<Rightarrow> (ZodError + Occupation) Outcome" where
  "Occupation_fromJson json =
     mapRight (\<lambda>properties. properties) (Occupation_propertiesFromJson json)"

definition Organization_propertiesFromJson :: "Json \<Rightarrow> (ZodError + Organization) Outcome" where
  "Organization_propertiesFromJson json =
     (case safeParse organizationJsonZodSchema json of
        Inl error \<Rightarrow> Returned (Inl error)
      | Inr jsonObject \<Rightarrow>
          callThenReturnIfLeft (Thing_propertiesFromJson jsonObject)
          (\<lambda>(_, super0).
          let identifier = NamedNode (asString (get jsonObject ''@id''));
              members = map namedNodeOfReference (asArray (get jsonObject ''members''));
              parentOrganizations =
                map namedNodeOfReference (asArray (get jsonObject ''parentOrganizations''));
              subOrganizations =
                map namedNodeOfReference (asArray (get jsonObject ''subOrganizations''))
          in Returned (Inr (Thing.extend super0
               (Organization.fields identifier members parentOrganizations
                  subOrganizations)))))"

definition Organization_fromJson :: "Json \<Rightarrow> (ZodError + Organization) Outcome" where
  "Organization_fromJson json =
     mapRight (\<lambda>properties. properties) (Organization_propertiesFromJson json)"

definition QuantitiveValue_propertiesFromJson ::
  "Json \<Rightarrow> (ZodError + QuantitiveValue) Outcome" where
  "QuantitiveValue_propertiesFromJson json =
     (case safeParse quantitiveValueJsonZodSchema json of
        Inl error \<Rightarrow> Returned (Inl error)
      | Inr jsonObject \<Rightarrow>
          callThenReturnIfLeft (StructuredValue_propertiesFromJson jsonObject)
          (\<lambda>(_, super0).
          let identifier = NamedNode (asString (get jsonObject ''@id''));
              v = map_option asNumber (field jsonObject ''value'')
          in Returned (Inr (Thing.extend super0 (QuantitiveValue.fields identifier v)))))"

definition QuantitiveValue_fromJson :: "Json \<Rightarrow> (ZodError + QuantitiveValue) Outcome" where
  "QuantitiveValue_fromJson json =
     mapRight (\<lambda>properties. properties) (QuantitiveValue_propertiesFromJson json)"

definition CreativeWork_propertiesFromJson ::
  "Json \<Rightarrow> (ZodError + NamedNode \<times> CreativeWork) Outcome" where
  "CreativeWork_propertiesFromJson json =
     (case safeParse creativeWorkJsonZodSchema json of
        Inl error \<Rightarrow> Returned (Inl error)
      | Inr jsonObject \<Rightarrow>
          callThenReturnIfLeft (Thing_propertiesFromJson jsonObject)
          (\<lambda>(_, super0).
          let identifier = NamedNode (asString (get jsonObject ''@id''));
              isBasedOn = map namedNodeOfReference (asArray (get jsonObject ''isBasedOn''))
          in Returned (Inr (identifier,
               Thing.extend super0 (CreativeWork.fields isBasedOn)))))"

text \<open>
  A nested object is decoded by \<^verbatim>\<open>fromJson\<close> of its class and the result is taken out
  with \<^verbatim>\<open>unsafeCoerce\<close>, which throws on a \<^verbatim>\<open>Left\<close>.
\<close>

definition MediaObject_propertiesFromJson ::
  "Json \<Rightarrow> (ZodError + NamedNode \<times> MediaObject) Outcome" where
  "MediaObject_propertiesFromJson json =
     (case safeParse mediaObjectJsonZodSchema json of
        Inl error \<Rightarrow> Returned (Inl error)
      | Inr jsonObject \<Rightarrow>
          callThenReturnIfLeft (CreativeWork_propertiesFromJson jsonObject)
          (\<lambda>(_, super0).
          let contentUrl = map_option namedNodeOfReference (field jsonObject ''contentUrl'');
              encodingFormat = map_option asString (field jsonObject ''encodingFormat'')
          in
          andThen (mapOutcomeOption
                     (\<lambda>item. andThen (QuantitiveValue_fromJson item) unsafeCoerce)
                     (field jsonObject ''height''))
          (\<lambda>height.
          let identifier = NamedNode (asString (get jsonObject ''@id'')) in
          andThen (mapOutcomeOption
                     (\<lambda>item. andThen (QuantitiveValue_fromJson item) unsafeCoerce)
                     (field jsonObject ''width''))
          (\<lambda>width.
          Returned (Inr (identifier, CreativeWork.extend super0
            (MediaObject.fields contentUrl encodingFormat height width)))))))"

definition ImageObject_propertiesFromJson :: "Json \<Rightarrow> (ZodError + ImageObject) Outcome" where
  "ImageObject_propertiesFromJson json =
     (case safeParse imageObjectJsonZodSchema json of
        Inl error \<Rightarrow> Returned (Inl error)
      | Inr jsonObject \<Rightarrow>
          callThenReturnIfLeft (MediaObject_propertiesFromJson jsonObject)
          (\<lambda>(_, super0).
          let identifier = NamedNode (asString (get jsonObject ''@id''))
          in Returned (Inr (MediaObject.extend super0 (ImageObject.fields identifier)))))"

definition ImageObject_fromJson :: "Json \<Rightarrow> (ZodError + ImageObject) Outcome" where
  "ImageObject_fromJson json =
     mapRight (\<lambda>properties. properties) (ImageObject_propertiesFromJson json)"

definition GenderType_propertiesFromJson :: "Json \<Rightarrow> (ZodError + GenderType) Outcome" where
  "GenderType_propertiesFromJson json =
     (case safeParse genderTypeJsonZodSchema json of
        Inl error \<Rightarrow> Returned (Inl error)
      | Inr jsonObject \<Rightarrow>
          callThenReturnIfLeft (Enumeration_propertiesFromJson jsonObject)
          (\<lambda>(_, super0).
          let identifier = NamedNode (asString (get jsonObject ''@id''))
          in Returned (Inr (Thing.extend super0 (GenderType.fields identifier)))))"

definition GenderType_fromJson :: "Json \<Rightarrow> (ZodError + GenderType) Outcome" where
  "GenderType_fromJson json =
     mapRight (\<lambda>properties. properties) (GenderType_propertiesFromJson json)"

text \<open>
  The gender of a person is rebuilt by the data factory: a literal from its value and
  its language tag or else its datatype, a blank node from its label, which follows
  the two characters \<^verbatim>\<open>_:\<close>.
\<close>

definition genderFromJson :: "Library \<Rightarrow> Json \<Rightarrow> Term" where
  "genderFromJson lib item =
     (if asString (get item ''termType'') = ''Literal''
      then literal lib (asString (get item ''@value''))
             (case field item ''@language'' of
                Some l \<Rightarrow> Some (Language (asString l))
              | None \<Rightarrow>
                  (case field item ''@type'' of
                     Some t \<Rightarrow> Some (Datatype (NamedNode (asString t)))
                   | None \<Rightarrow> None))
      else if asString (get item ''termType'') = ''NamedNode''
      then NamedNodeTerm (NamedNode (asString (get item ''@id'')))
      else blankNode lib (drop 2 (asString (get item ''@id''))))"

text \<open>
  One element of \<^verbatim>\<open>hasOccupation\<close>: the decoder is chosen by the \<^verbatim>\<open>type\<close> of the
  element.
\<close>

definition hasOccupationFromJson :: "Json \<Rightarrow> OccupationOrRole Outcome" where
  "hasOccupationFromJson item =
     (if asString (get item ''type'') = ''Role''
      then andThen (andThen (Role_fromJson item) unsafeCoerce) (\<lambda>v. Returned (IsRole v))
      else andThen (andThen (Occupation_fromJson item) unsafeCoerce)
             (\<lambda>v. Returned (IsOccupation v)))"

definition Person_propertiesFromJson ::
  "Library \<Rightarrow> Json \<Rightarrow> (ZodError + Person) Outcome" where
  "Person_propertiesFromJson lib json =
     (case safeParse personJsonZodSchema json of
        Inl error \<Rightarrow> Returned (Inl error)
      | Inr jsonObject \<Rightarrow>
          callThenReturnIfLeft (Thing_propertiesFromJson jsonObject)
          (\<lambda>(_, super0).
          let birthDate = map_option (\<lambda>item. newDate (asString item))
                            (field jsonObject ''birthDate'');
              familyName = map_option asString (field jsonObject ''familyName'');
              gender = map_option (genderFromJson lib) (field jsonObject ''gender'');
              givenName = map_option asString (field jsonObject ''givenName'')
          in
          andThen (mapOutcome hasOccupationFromJson
                     (asArray (get jsonObject ''hasOccupation'')))
          (\<lambda>hasOccupation.
          let identifier = NamedNode (asString (get jsonObject ''@id'')) in
          andThen (mapOutcome (\<lambda>item. andThen (ImageObject_fromJson item) unsafeCoerce)
                     (asArray (get jsonObject ''images'')))
          (\<lambda>images.
          let memberOf = map namedNodeOfReference (asArray (get jsonObject ''memberOf''))
          in Returned (Inr (Thing.extend super0
               (Person.fields birthDate familyName gender givenName hasOccupation
                  identifier images memberOf)))))))"

definition Person_fromJson :: "Library \<Rightarrow> Json \<Rightarrow> (ZodError + Person) Outcome" where
  "Person_fromJson lib json =
     mapRight (\<lambda>properties. properties) (Person_propertiesFromJson lib json)"

section \<open>Further predicates and examples\<close>

text \<open>The \<^verbatim>\<open>rdf:type\<close> quads of a dataset, in the order of their insertion.\<close>

definition typeQuads :: "Dataset \<Rightarrow> Quad list" where
  "typeQuads dataset = filter (\<lambda>q. predicate q = rdf_type) dataset"

text \<open>
  The \<^verbatim>\<open>rdf:type\<close> quad of a class on a resource, which \<^verbatim>\<open>toRdf\<close> of the class adds
  unless the flag \<^verbatim>\<open>ignoreRdfType\<close> is true.
\<close>

definition ownTypeQuad :: "bool \<Rightarrow> NamedNode \<Rightarrow> string \<Rightarrow> Quad list" where
  "ownTypeQuad ignoreRdfType resource className =
     (if ignoreRdfType then []
      else [Quad resource rdf_type (NamedNodeTerm (schema className))])"

text \<open>
  The \<^verbatim>\<open>rdf:type\<close> quads of the nested objects of a value, whose \<^verbatim>\<open>toRdf\<close> is called
  without the flag: the height and the width of a media object, the occupations,
  roles and images of a person. The quad of a role is on the identifier its getter
  returns, which it does when the \<^verbatim>\<open>toRdf\<close> of the person returns.
\<close>

definition QuantitiveValue_typeQuad :: "QuantitiveValue \<Rightarrow> Quad list" where
  "QuantitiveValue_typeQuad item =
     ownTypeQuad False (QuantitiveValue_identifier item) ''QuantitativeValue''"

definition MediaObject_nestedTypeQuads :: "'a MediaObject_scheme \<Rightarrow> Quad list" where
  "MediaObject_nestedTypeQuads this =
     concat (map QuantitiveValue_typeQuad (maybeToList (height this)))
     @ concat (map QuantitiveValue_typeQuad (maybeToList (width this)))"

definition ImageObject_typeQuads :: "bool \<Rightarrow> ImageObject \<Rightarrow> Quad list" where
  "ImageObject_typeQuads ignoreRdfType this =
     MediaObject_nestedTypeQuads this
     @ ownTypeQuad ignoreRdfType (ImageObject_identifier this) ''ImageObject''"

fun OccupationOrRole_typeQuad :: "Library \<Rightarrow> OccupationOrRole \<Rightarrow> Quad list" where
  "OccupationOrRole_typeQuad lib (IsOccupation item) =
     ownTypeQuad False (Occupation_identifier item) ''Occupation''"
| "OccupationOrRole_typeQuad lib (IsRole item) =
     ownTypeQuad False (returned (Role_identifier lib item)) ''Role''"

definition Person_typeQuads :: "Library \<Rightarrow> bool \<Rightarrow> Person \<Rightarrow> Quad list" where
  "Person_typeQuads lib ignoreRdfType this =
     ownTypeQuad ignoreRdfType (Person_identifier this) ''Person''
     @ concat (map (OccupationOrRole_typeQuad lib) (hasOccupation this))
     @ concat (map (ImageObject_typeQuads False) (images this))"

text \<open>An image whose identifier is that of its height.\<close>

definition exampleImageObjectSameIdentifier :: ImageObject where
  "exampleImageObjectSameIdentifier =
     exampleImageObject \<lparr> ImageObject_identifier := NamedNode ''http://example.com/h'' \<rparr>"

definition exampleRoleWithIdentifier :: Role where
  "exampleRoleWithIdentifier =
     \<lparr> description = None, identifiers = [], name = Some ''Chair'', sameAs = [], url = None,
       endDate = None, Role__identifier = Some (NamedNode ''http://example.com/role''),
       roleName = Some (NamedNode ''http://example.com/chair''), startDate = None \<rparr>"

definition examplePersonWithRole :: Person where
  "examplePersonWithRole =
     \<lparr> description = None, identifiers = [], name = None, sameAs = [], url = None,
       birthDate = None, familyName = None, gender = None, givenName = None,
       hasOccupation = [IsRole exampleRoleWithIdentifier],
       Person_identifier = NamedNode ''http://example.com/person'',
       images = [], memberOf = [] \<rparr>"

subsection \<open>Schemas of a class and of its superclass\<close>

text \<open>
  The schemas the code builds declare each key of an object once, and the options of a
  union declare different values of the discriminator.
\<close>

fun wfSchema :: "Schema \<Rightarrow> bool" where
  "wfSchema (ZOptional s) = wfSchema s"
| "wfSchema (ZArray s) = wfSchema s"
| "wfSchema (ZObject shape) =
     (distinct (map fst shape) \<and> list_all (\<lambda>(k, s). wfSchema s) shape)"
| "wfSchema (ZDiscriminatedUnion d options) =
     (distinct (map (discriminatorValue d) options) \<and> list_all (\<lambda>option. wfSchema option) options)"
| "wfSchema s = True"

text \<open>
  A syntactic criterion for: every value that passes the first schema passes the second
  (a literal among the values of an enumeration, an enumeration inside another, an
  enumeration of strings that pass the checks, or the same schema).
\<close>

fun weaker :: "Schema \<Rightarrow> Schema \<Rightarrow> bool" where
  "weaker (ZLiteral l) (ZEnum vs) = (l \<in> set vs)"
| "weaker (ZEnum us) (ZEnum vs) = (set us \<subseteq> set vs)"
| "weaker (ZEnum us) (ZString checks) =
     list_all (\<lambda>u. list_all (\<lambda>c. checkString c u) checks) us"
| "weaker a b = (a = b)"

text \<open>
  The schema of a class against the schema of its superclass: every key of the second is
  a key of the first, with a schema that is the same or stricter.
\<close>

fun extends :: "Schema \<Rightarrow> Schema \<Rightarrow> bool" where
  "extends (ZObject a) (ZObject b) =
     (wfSchema (ZObject a)
      \<and> list_all (\<lambda>(k, sb). case map_of a k of None \<Rightarrow> False | Some sa \<Rightarrow> weaker sa sb) b)"
| "extends a b = False"

section \<open>The constraints of the schemas on the values of the classes\<close>

text \<open>
  A date that is midnight UTC of a day of the years 0 to 9999: the dates that
  \<^verbatim>\<open>toJson\<close> writes in full, as \<^verbatim>\<open>YYYY-MM-DD\<close>.
\<close>

definition dateOnly :: "Date \<Rightarrow> bool" where
  "dateOnly d = (validDate d \<and> 0 \<le> year d \<and> year d \<le> 9999 \<and> msOfDay d = 0)"


text \<open>
  The schemas ask \<^verbatim>\<open>min(1)\<close> of every \<^verbatim>\<open>@id\<close>: the IRI of an identifier and of a
  referenced named node is not empty.
\<close>

definition nonEmptyIri :: "NamedNode \<Rightarrow> bool" where
  "nonEmptyIri n = (iri n \<noteq> [])"

text \<open>
  The conditions under which the JSON of a value passes the schema of its class and
  is read back in full, class by class.
\<close>

definition Thing_jsonConstraints :: "NamedNode \<Rightarrow> 'a Thing_scheme \<Rightarrow> bool" where
  "Thing_jsonConstraints thisIdentifier this =
     (nonEmptyIri thisIdentifier \<and> list_all nonEmptyIri (sameAs this)
      \<and> optionally nonEmptyIri (url this))"

definition Role_jsonConstraints :: "Library \<Rightarrow> Role \<Rightarrow> bool" where
  "Role_jsonConstraints lib this =
     (optionally dateOnly (endDate this) \<and> optionally nonEmptyIri (roleName this)
      \<and> optionally dateOnly (startDate this)
      \<and> Thing_jsonConstraints (returned (Role_identifier lib this)) this)"

text \<open>
  \<^verbatim>\<open>JSON.stringify\<close> writes a number that is not finite as \<^verbatim>\<open>null\<close>, which the
  schema refuses.
\<close>

definition finiteNumber :: "number \<Rightarrow> bool" where
  "finiteNumber n = (case n of Finite q \<Rightarrow> True | _ \<Rightarrow> False)"

definition Occupation_jsonConstraints :: "Occupation \<Rightarrow> bool" where
  "Occupation_jsonConstraints this = Thing_jsonConstraints (Occupation_identifier this) this"

definition GenderType_jsonConstraints :: "GenderType \<Rightarrow> bool" where
  "GenderType_jsonConstraints this =
     (Thing_jsonConstraints (GenderType_identifier this) this
      \<and> iri (GenderType_identifier this)
          \<in> set [''http://schema.org/Female'', ''http://schema.org/Male''])"

definition Organization_jsonConstraints :: "Organization \<Rightarrow> bool" where
  "Organization_jsonConstraints this =
     (Thing_jsonConstraints (Organization_identifier this) this
      \<and> list_all nonEmptyIri (members this)
      \<and> list_all nonEmptyIri (parentOrganizations this)
      \<and> list_all nonEmptyIri (subOrganizations this))"

definition QuantitiveValue_jsonConstraints :: "QuantitiveValue \<Rightarrow> bool" where
  "QuantitiveValue_jsonConstraints this =
     (Thing_jsonConstraints (QuantitiveValue_identifier this) this
      \<and> optionally finiteNumber (QuantitiveValue_value this))"

definition ImageObject_jsonConstraints :: "ImageObject \<Rightarrow> bool" where
  "ImageObject_jsonConstraints this =
     (Thing_jsonConstraints (ImageObject_identifier this) this
      \<and> list_all nonEmptyIri (isBasedOn this)
      \<and> optionally nonEmptyIri (contentUrl this)
      \<and> optionally QuantitiveValue_jsonConstraints (height this)
      \<and> optionally QuantitiveValue_jsonConstraints (width this))"

text \<open>
  A term that the data factory gives back: the IRI of a named node is not empty; a
  blank node is the one the factory makes of its label; a literal is the one the
  factory makes of its value and its language tag or, without a tag, of its datatype
  (none for \<^verbatim>\<open>xsd:string\<close>).
\<close>

definition languageOrDatatypeOf :: "string \<Rightarrow> NamedNode \<Rightarrow> LanguageOrDatatype option" where
  "languageOrDatatypeOf l d =
     (if l \<noteq> [] then Some (Language l)
      else if iri d \<noteq> iri xsd_string then Some (Datatype d)
      else None)"

fun Term_jsonConstraints :: "Library \<Rightarrow> Term \<Rightarrow> bool" where
  "Term_jsonConstraints lib (NamedNodeTerm n) = nonEmptyIri n"
| "Term_jsonConstraints lib (BlankNodeTerm b) = (blankNode lib b = BlankNodeTerm b)"
| "Term_jsonConstraints lib (LiteralTerm v l d) =
     (literal lib v (languageOrDatatypeOf l d) = LiteralTerm v l d)"

fun OccupationOrRole_jsonConstraints :: "Library \<Rightarrow> OccupationOrRole \<Rightarrow> bool" where
  "OccupationOrRole_jsonConstraints lib (IsOccupation v) = Occupation_jsonConstraints v"
| "OccupationOrRole_jsonConstraints lib (IsRole v) = Role_jsonConstraints lib v"

definition Person_jsonConstraints :: "Library \<Rightarrow> Person \<Rightarrow> bool" where
  "Person_jsonConstraints lib this =
     (Thing_jsonConstraints (Person_identifier this) this
      \<and> optionally dateOnly (birthDate this)
      \<and> optionally (Term_jsonConstraints lib) (gender this)
      \<and> list_all (OccupationOrRole_jsonConstraints lib) (hasOccupation this)
      \<and> list_all ImageObject_jsonConstraints (images this)
      \<and> list_all nonEmptyIri (memberOf this))"

text \<open>
  What \<^verbatim>\<open>fromJson\<close> makes of the JSON of an element of \<^verbatim>\<open>hasOccupation\<close>: the
  occupation itself, or the role with the identifier its getter returns stored in it.
\<close>

fun OccupationOrRole_decoded :: "Library \<Rightarrow> OccupationOrRole \<Rightarrow> OccupationOrRole" where
  "OccupationOrRole_decoded lib (IsOccupation v) = IsOccupation v"
| "OccupationOrRole_decoded lib (IsRole v) =
     IsRole (v \<lparr> Role__identifier := Some (returned (Role_identifier lib v)) \<rparr>)"

subsection \<open>The JSON of values with valid dates\<close>

text \<open>
  What \<^verbatim>\<open>toJson\<close> returns when no \<^verbatim>\<open>toISOString\<close> throws: a date gives the part of its
  ISO string before the \<^verbatim>\<open>T\<close>, a role the object of its properties with the identifier
  its getter returns, a person the object of its properties with the JSON of its
  occupations and roles.
\<close>

definition dateJson :: "Date \<Rightarrow> Json" where
  "dateJson d = JString (replaceTimeSuffix (isoString d))"

definition Role_json :: "Library \<Rightarrow> Role \<Rightarrow> Json" where
  "Role_json lib this =
     spread (Thing_toJson (returned (Role_identifier lib this)) Role_type this)
       [(''endDate'', map_option dateJson (endDate this)),
        (''roleName'', map_option reference (roleName this)),
        (''startDate'', map_option dateJson (startDate this))]"

fun OccupationOrRole_json :: "Library \<Rightarrow> OccupationOrRole \<Rightarrow> Json" where
  "OccupationOrRole_json lib (IsRole item) = Role_json lib item"
| "OccupationOrRole_json lib (IsOccupation item) = Occupation_toJson item"

definition Person_json :: "Library \<Rightarrow> Person \<Rightarrow> Json" where
  "Person_json lib this =
     spread (Thing_toJson (Person_identifier this) Person_type this)
       [(''birthDate'', map_option dateJson (birthDate this)),
        (''familyName'', map_option JString (familyName this)),
        (''gender'', map_option termToJson (gender this)),
        (''givenName'', map_option JString (givenName this)),
        (''hasOccupation'',
           Some (JArray (map (OccupationOrRole_json lib) (hasOccupation this)))),
        (''images'', Some (JArray (map ImageObject_toJson (images this)))),
        (''memberOf'', Some (JArray (map reference (memberOf this))))]"

subsection \<open>Object literals against schemas\<close>

text \<open>
  The value an object literal gives to a key (none when the entry is missing or
  undefined), and the check of a schema on the value of a key.
\<close>

definition lookupEntry :: "(string \<times> Json option) list \<Rightarrow> string \<Rightarrow> Json option" where
  "lookupEntry entries k = (case map_of entries k of Some (Some j) \<Rightarrow> Some j | _ \<Rightarrow> None)"

definition fieldValid :: "Schema \<Rightarrow> Json option \<Rightarrow> bool" where
  "fieldValid s v = (case v of None \<Rightarrow> isOptional s | Some j \<Rightarrow> validValue s j)"

subsection \<open>Values outside the constraints\<close>

text \<open>
  A role whose end date is midnight of the first day of the year 10000, and one whose
  end date is midnight of the last day of the year before the year 0.
\<close>

definition exampleRoleYear10000 :: Role where
  "exampleRoleYear10000 =
     exampleRoleWithIdentifier \<lparr> endDate := Some (Date 10000 1 1 0) \<rparr>"

definition exampleRoleBeforeYear0 :: Role where
  "exampleRoleBeforeYear0 =
     exampleRoleWithIdentifier \<lparr> endDate := Some (Date (- 1) 12 31 0) \<rparr>"

text \<open>A quantitative value that is infinite, and an occupation with an empty IRI.\<close>

definition exampleQuantitiveValueInfinity :: QuantitiveValue where
  "exampleQuantitiveValueInfinity =
     exampleQuantitiveValue \<lparr> QuantitiveValue_value := Some PosInfinity \<rparr>"

definition exampleOccupationEmptyIri :: Occupation where
  "exampleOccupationEmptyIri =
     exampleOccupation \<lparr> Occupation_identifier := NamedNode [] \<rparr>"

text \<open>
  A person whose gender is a literal with a language tag in upper case, and one whose
  gender is a blank node with an empty label.
\<close>

definition examplePersonUpperCaseTag :: Person where
  "examplePersonUpperCaseTag =
     examplePersonWithRole
       \<lparr> gender := Some (LiteralTerm ''female'' ''EN'' rdf_langString) \<rparr>"

definition examplePersonEmptyLabel :: Person where
  "examplePersonEmptyLabel = examplePersonWithRole \<lparr> gender := Some (BlankNodeTerm []) \<rparr>"

subsection \<open>Values with dates that are days\<close>

definition exampleRoleOnADay :: Role where
  "exampleRoleOnADay =
     \<lparr> description = Some ''A role'', identifiers = [''r''], name = None, sameAs = [],
       url = Some (NamedNode ''http://example.com/u''),
       endDate = Some (Date 2020 1 1 0), Role__identifier = None,
       roleName = Some (NamedNode ''http://example.com/chair''),
       startDate = Some (Date 2019 12 31 0) \<rparr>"

definition examplePersonOnDays :: Person where
  "examplePersonOnDays =
     examplePerson \<lparr> hasOccupation := [IsRole exampleRoleOnADay, IsOccupation exampleOccupation,
                                       IsRole exampleRoleOnADay] \<rparr>"

section \<open>Properties of arrayEquals\<close>

lemma Equal_neq_Inl [simp]: "Inl u \<noteq> Equal" "Equal \<noteq> Inl u"
  by (simp_all add: Equal_def)

lemma EqualsResult_cases: "(r :: EqualsResult) = Equal \<or> (\<exists>u. r = Inl u)"
  by (cases r) (simp_all add: Equal_def)

lemma length_rightUnequals_le:
  "length (rightUnequals eq x ys acc) \<le> length acc + length ys"
proof (induction ys arbitrary: acc)
  case Nil
  show ?case by simp
next
  case (Cons y ys)
  show ?case
  proof (cases "fromBooleanEqualsResult (eq x y)")
    case (Inl u)
    with Cons.IH [of "acc @ [u]"] show ?thesis by simp
  next
    case (Inr v)
    then show ?thesis by simp
  qed
qed

lemma rightUnequals_all:
  "length (rightUnequals eq x ys acc) = length acc + length ys
     \<longleftrightarrow> (\<forall>y \<in> set ys. fromBooleanEqualsResult (eq x y) \<noteq> Equal)"
proof (induction ys arbitrary: acc)
  case Nil
  show ?case by simp
next
  case (Cons y ys)
  show ?case
  proof (cases "fromBooleanEqualsResult (eq x y)")
    case (Inl u)
    with Cons.IH [of "acc @ [u]"] show ?thesis by simp
  next
    case (Inr v)
    then have "fromBooleanEqualsResult (eq x y) = Equal"
      by (simp add: Equal_def)
    moreover have "length (rightUnequals eq x (y # ys) acc) = length acc"
      using Inr by simp
    ultimately show ?thesis by simp
  qed
qed

lemma leftLoop_Equal:
  "leftLoop eq xs ys i = Equal
     \<longleftrightarrow> (\<forall>x \<in> set xs. \<exists>y \<in> set ys. fromBooleanEqualsResult (eq x y) = Equal)"
proof (induction xs arbitrary: i)
  case Nil
  show ?case by simp
next
  case (Cons x xs)
  show ?case
    using rightUnequals_all [of eq x ys "[]"] Cons.IH [of "i + 1"]
    by (auto simp: Let_def)
qed

lemma arrayEquals_Equal_iff:
  "arrayEquals eq l r = Equal
     \<longleftrightarrow> length l = length r
        \<and> (\<forall>x \<in> set l. \<exists>y \<in> set r. fromBooleanEqualsResult (eq x y) = Equal)"
  by (simp add: arrayEquals_def leftLoop_Equal)

text \<open>
  C10. \<^verbatim>\<open>arrayEquals(l, r, eq)\<close> is \<^verbatim>\<open>Equal\<close> exactly when the two arrays have the
  same length and every element of \<open>l\<close> is eq-equal to at least one element of \<open>r\<close>;
  hence replacing the right array by a permutation of it never changes whether the
  result is \<^verbatim>\<open>Equal\<close>. The comparison is by membership, not by position.
\<close>

theorem arrayEquals_order_insensitive:
  "(arrayEquals eq l r = Equal
      \<longleftrightarrow> length l = length r
         \<and> (\<forall>x \<in> set l. \<exists>y \<in> set r. fromBooleanEqualsResult (eq x y) = Equal))
   \<and> (mset r' = mset r
        \<longrightarrow> (arrayEquals eq l r' = Equal \<longleftrightarrow> arrayEquals eq l r = Equal))"
proof -
  have "arrayEquals eq l r' = Equal \<longleftrightarrow> arrayEquals eq l r = Equal" if "mset r' = mset r"
  proof -
    from that have "set r' = set r" "length r' = length r"
      by (metis mset_eq_setD, metis mset_eq_length)
    then show ?thesis by (simp add: arrayEquals_Equal_iff)
  qed
  then show ?thesis by (simp add: arrayEquals_Equal_iff)
qed

text \<open>
  The relation is not symmetric on arrays with duplicates: \<open>[1, 1]\<close> against \<open>[1, 2]\<close> is
  \<^verbatim>\<open>Equal\<close>, the other way round it is not; and the right array may be permuted.
\<close>

theorem arrayEquals_order_insensitive_witness:
  "arrayEquals (\<lambda>a b. Boolean (a = b)) [1, 1 :: nat] [1, 2] = Equal
   \<and> arrayEquals (\<lambda>a b. Boolean (a = b)) [1, 2 :: nat] [1, 1] \<noteq> Equal
   \<and> arrayEquals (\<lambda>a b. Boolean (a = b)) [1, 1 :: nat] [2, 1] = Equal"
  using arrayEquals_order_insensitive
    [of "\<lambda>a b. Boolean (a = b)" "[1, 1 :: nat]" "[1, 2]" "[2, 1]"]
    arrayEquals_order_insensitive
    [of "\<lambda>a b. Boolean (a = b)" "[1, 2 :: nat]" "[1, 1]" "[1, 1]"]
  by simp

section \<open>The update calls of hash\<close>

lemma thrown_update [simp]: "thrown (update hasher m) = thrown hasher"
  by (simp add: update_def)

lemma thrown_throw [simp]: "thrown (throw hasher)"
  by (simp add: throw_def)

lemma throw_thrown: "thrown hasher \<Longrightarrow> throw hasher = hasher"
  by (cases hasher) (simp add: throw_def)

lemma update_thrown: "thrown hasher \<Longrightarrow> update hasher m = hasher"
  by (simp add: update_def)

lemma feed_thrown: "thrown hasher \<Longrightarrow> feed hasher calls = hasher"
  by (induction hasher calls rule: feed.induct) (simp_all add: update_thrown throw_thrown)

lemma feed_append: "feed hasher (a @ b) = feed (feed hasher a) b"
  by (induction hasher a rule: feed.induct) (simp_all add: feed_thrown)

lemma thrown_feed: "thrown (feed hasher calls) = (thrown hasher \<or> Threw \<in> set calls)"
  by (induction hasher calls rule: feed.induct) auto

lemma feed_Returned:
  "\<not> thrown hasher \<Longrightarrow> feed hasher (map Returned xs) = Hasher (received hasher @ xs) False"
proof (induction xs arbitrary: hasher)
  case Nil
  then show ?case by (cases hasher) simp
next
  case (Cons x xs)
  have "\<not> thrown (update hasher x)" using Cons.prems by simp
  then have "feed (update hasher x) (map Returned xs)
      = Hasher (received (update hasher x) @ xs) False"
    by (rule Cons.IH)
  then show ?case using Cons.prems by (simp add: update_def)
qed

lemma ifJust_feed:
  assumes "\<And>v h. f v h = feed h (g v)"
  shows "ifJust m f hasher = feed hasher (ofMaybe g m)"
  by (cases m) (simp_all add: ifJust_def ofMaybe_def assms)

lemma forOf_feed:
  assumes "\<And>v h. f v h = feed h (g v)"
  shows "forOf xs f hasher = feed hasher (ofArray g xs)"
proof (induction xs arbitrary: hasher)
  case Nil
  show ?case by (simp add: forOf_def ofArray_def)
next
  case (Cons x xs)
  have "forOf (x # xs) f hasher = forOf xs f (f x hasher)"
    by (simp add: forOf_def)
  also have "\<dots> = feed (feed hasher (g x)) (ofArray g xs)"
    by (simp add: Cons.IH assms)
  also have "\<dots> = feed hasher (ofArray g (x # xs))"
    by (simp add: feed_append ofArray_def)
  finally show ?case .
qed

lemma updateString_feed: "updateString v hasher = feed hasher (stringMessages v)"
  by (simp add: updateString_def stringMessages_def)

lemma updateNamedNode_feed: "updateNamedNode v hasher = feed hasher (namedNodeMessages v)"
  by (simp add: updateNamedNode_def namedNodeMessages_def)

lemma updateTerm_feed: "updateTerm v hasher = feed hasher (termMessages v)"
  by (cases v) (simp_all add: updateTerm_def)

lemma updateDate_feed: "updateDate v hasher = feed hasher (dateMessages v)"
  by (cases "toISOString v") (simp_all add: updateDate_def dateMessages_def)

lemmas update_feed =
  ifJust_feed [where f = updateString and g = stringMessages, OF updateString_feed]
  ifJust_feed [where f = updateNamedNode and g = namedNodeMessages, OF updateNamedNode_feed]
  ifJust_feed [where f = updateTerm and g = termMessages, OF updateTerm_feed]
  ifJust_feed [where f = updateDate and g = dateMessages, OF updateDate_feed]
  forOf_feed [where f = updateString and g = stringMessages, OF updateString_feed]
  forOf_feed [where f = updateNamedNode and g = namedNodeMessages, OF updateNamedNode_feed]
  updateString_feed

lemma Thing_hash_feed: "Thing_hash this hasher = feed hasher (Thing_messages this)"
  by (simp add: Thing_hash_def Thing_messages_def update_feed feed_append)

lemma Role_hash_feed: "Role_hash this hasher = feed hasher (Role_messages this)"
  by (simp add: Role_hash_def Role_messages_def Thing_hash_feed update_feed feed_append)

lemma Occupation_hash_feed:
  "Occupation_hash this hasher = feed hasher (Occupation_messages this)"
  by (simp add: Occupation_hash_def Occupation_messages_def Thing_hash_feed update_feed
      feed_append)

lemma Organization_hash_feed:
  "Organization_hash this hasher = feed hasher (Organization_messages this)"
  by (simp add: Organization_hash_def Organization_messages_def Thing_hash_feed update_feed
      feed_append)

lemma GenderType_hash_feed:
  "GenderType_hash this hasher = feed hasher (GenderType_messages this)"
  by (simp add: GenderType_hash_def GenderType_messages_def Thing_hash_feed update_feed
      feed_append)

lemma QuantitiveValue_hash_feed:
  "QuantitiveValue_hash lib this hasher = feed hasher (QuantitiveValue_messages lib this)"
proof -
  have "ifJust (QuantitiveValue_value this) (\<lambda>v. updateString (Number_toString lib v)) h
      = feed h (ofMaybe (\<lambda>v. stringMessages (Number_toString lib v))
                  (QuantitiveValue_value this))" for h
    by (rule ifJust_feed) (rule updateString_feed)
  then show ?thesis
    by (simp add: QuantitiveValue_hash_def QuantitiveValue_messages_def Thing_hash_feed
        update_feed feed_append)
qed

lemma ImageObject_hash_feed:
  "ImageObject_hash lib this hasher = feed hasher (ImageObject_messages lib this)"
proof -
  have "ifJust m (QuantitiveValue_hash lib) h
      = feed h (ofMaybe (QuantitiveValue_messages lib) m)" for m h
    by (rule ifJust_feed) (rule QuantitiveValue_hash_feed)
  then show ?thesis
    by (simp add: ImageObject_hash_def MediaObject_hash_def CreativeWork_hash_def
        ImageObject_messages_def Thing_hash_feed update_feed feed_append)
qed

lemma OccupationOrRole_hash_feed:
  "OccupationOrRole_hash item hasher = feed hasher (OccupationOrRole_messages item)"
  by (cases item) (simp_all add: Occupation_hash_feed Role_hash_feed)

lemma Person_hash_feed:
  "Person_hash lib this hasher = feed hasher (Person_messages lib this)"
proof -
  have "forOf xs OccupationOrRole_hash h = feed h (ofArray OccupationOrRole_messages xs)"
    for xs h
    by (rule forOf_feed) (rule OccupationOrRole_hash_feed)
  moreover have "forOf ys (ImageObject_hash lib) h
      = feed h (ofArray (ImageObject_messages lib) ys)" for ys h
    by (rule forOf_feed) (rule ImageObject_hash_feed)
  ultimately show ?thesis
    by (simp add: Person_hash_def Person_messages_def Thing_hash_feed update_feed
        feed_append)
qed

text \<open>
  C5. For each class, \<^verbatim>\<open>hash\<close> passes to the caller's hasher, whatever it has received
  before, the messages of the properties of the value in the order of their
  declaration, as \<open>Role_messages\<close>, \<open>Person_messages\<close> and the others write them out; a
  date that is the \<^verbatim>\<open>Invalid Date\<close> ends the calls where its message would come. The
  calls depend on nothing but the values of these properties: two roles that agree on
  them feed fresh hashers the same calls, whatever identifier they store.
\<close>

theorem hash_stable:
  "Role_hash role hasher = feed hasher (Role_messages role)
   \<and> Occupation_hash occupation hasher = feed hasher (Occupation_messages occupation)
   \<and> Organization_hash organization hasher
       = feed hasher (Organization_messages organization)
   \<and> GenderType_hash genderType hasher = feed hasher (GenderType_messages genderType)
   \<and> QuantitiveValue_hash lib quantitiveValue hasher
       = feed hasher (QuantitiveValue_messages lib quantitiveValue)
   \<and> ImageObject_hash lib imageObject hasher
       = feed hasher (ImageObject_messages lib imageObject)
   \<and> Person_hash lib person hasher = feed hasher (Person_messages lib person)
   \<and> (sameRoleProperties role role' \<longrightarrow> Role_hash role create = Role_hash role' create)"
proof -
  have "Role_messages role = Role_messages role'" if "sameRoleProperties role role'"
    using that
    by (simp add: sameRoleProperties_def sameThingFields_def Role_messages_def
        Thing_messages_def)
  then show ?thesis
    by (simp add: Role_hash_feed Occupation_hash_feed Organization_hash_feed
        GenderType_hash_feed QuantitiveValue_hash_feed ImageObject_hash_feed
        Person_hash_feed)
qed

theorem hash_stable_witness:
  "Role_hash exampleRole create
     = Role_hash (exampleRole\<lparr>Role__identifier := Some (NamedNode ''http://example.com/r'')\<rparr>)
         create
   \<and> Person_hash exampleLibrary examplePerson create
     = Hasher
         [''A person'', ''a'', ''a'', ''NamedNode'', ''http://example.com/same'',
          ''NamedNode'', ''http://example.com/same'', ''1990-02-28T00:00:00.000Z'',
          ''Doe'', ''Literal'', ''female'', ''2020-01-01T12:00:00.000Z'',
          ''An occupation'', ''http://example.com/o'', ''2020-01-01T12:00:00.000Z'',
          ''http://example.com/p'', ''NamedNode'', ''http://example.com/original'',
          ''NamedNode'', ''http://example.com/i.png'', ''image/png'', ''height'',
          ''http://example.com/h'', ''finite'', ''http://example.com/i'',
          ''NamedNode'', ''http://example.com/original'', ''NamedNode'',
          ''http://example.com/i.png'', ''image/png'', ''height'',
          ''http://example.com/h'', ''finite'', ''http://example.com/i'']
         False
   \<and> Role_hash exampleRoleInvalidDate (Hasher [''x''] False)
     = Hasher [''x'', ''A role''] True"
proof -
  have same: "sameRoleProperties exampleRole
      (exampleRole\<lparr>Role__identifier := Some (NamedNode ''http://example.com/r'')\<rparr>)"
    by (simp add: sameRoleProperties_def sameThingFields_def)
  have "Role_hash exampleRole create
     = Role_hash (exampleRole\<lparr>Role__identifier := Some (NamedNode ''http://example.com/r'')\<rparr>)
         create"
    using same
      hash_stable [where role = exampleRole
        and role' = "exampleRole\<lparr>Role__identifier := Some (NamedNode ''http://example.com/r'')\<rparr>"]
    by blast
  moreover have "Person_hash exampleLibrary examplePerson create
      = feed create (Person_messages exampleLibrary examplePerson)"
    using hash_stable [where lib = exampleLibrary and person = examplePerson
        and hasher = create]
    by blast
  moreover have "Role_hash exampleRoleInvalidDate (Hasher [''x''] False)
      = feed (Hasher [''x''] False) (Role_messages exampleRoleInvalidDate)"
    using hash_stable [where role = exampleRoleInvalidDate and hasher = "Hasher [''x''] False"]
    by blast
  moreover have "feed create (Person_messages exampleLibrary examplePerson)
     = Hasher
         [''A person'', ''a'', ''a'', ''NamedNode'', ''http://example.com/same'',
          ''NamedNode'', ''http://example.com/same'', ''1990-02-28T00:00:00.000Z'',
          ''Doe'', ''Literal'', ''female'', ''2020-01-01T12:00:00.000Z'',
          ''An occupation'', ''http://example.com/o'', ''2020-01-01T12:00:00.000Z'',
          ''http://example.com/p'', ''NamedNode'', ''http://example.com/original'',
          ''NamedNode'', ''http://example.com/i.png'', ''image/png'', ''height'',
          ''http://example.com/h'', ''finite'', ''http://example.com/i'',
          ''NamedNode'', ''http://example.com/original'', ''NamedNode'',
          ''http://example.com/i.png'', ''image/png'', ''height'',
          ''http://example.com/h'', ''finite'', ''http://example.com/i'']
         False"
    by code_simp
  moreover have "feed (Hasher [''x''] False) (Role_messages exampleRoleInvalidDate)
      = Hasher [''x'', ''A role''] True"
    by code_simp
  ultimately show ?thesis by (simp only: simp_thms)
qed

section \<open>The identifier of a role without stored identifier\<close>

lemma ofMaybe_stringMessages: "ofMaybe stringMessages m = map Returned (maybeToList m)"
  by (cases m) (simp_all add: ofMaybe_def maybeToList_def stringMessages_def)

lemma ofArray_stringMessages: "ofArray stringMessages xs = map Returned xs"
  by (induction xs) (simp_all add: ofArray_def stringMessages_def)

lemma ofArray_namedNodeMessages:
  "ofArray namedNodeMessages xs = map Returned (concat (map namedNodeStrings xs))"
  by (induction xs) (simp_all add: ofArray_def namedNodeMessages_def namedNodeStrings_def)

lemma ofMaybe_namedNodeMessages:
  "ofMaybe namedNodeMessages m
     = map Returned (concat (map namedNodeStrings (maybeToList m)))"
  by (cases m)
    (simp_all add: ofMaybe_def maybeToList_def namedNodeMessages_def namedNodeStrings_def)

lemma ofMaybe_dateMessages:
  "optionally validDate m
     \<Longrightarrow> ofMaybe dateMessages m = map Returned (map isoString (maybeToList m))"
  by (cases m)
    (simp_all add: ofMaybe_def maybeToList_def dateMessages_def toISOString_def
      optionally_def)

lemma Role_messages_Returned:
  assumes "Role_validDates this"
  shows "Role_messages this
    = map Returned
        (maybeToList (description this) @ identifiers this @ maybeToList (name this)
         @ concat (map namedNodeStrings (sameAs this))
         @ concat (map namedNodeStrings (maybeToList (url this)))
         @ map isoString (maybeToList (endDate this))
         @ concat (map namedNodeStrings (maybeToList (roleName this)))
         @ map isoString (maybeToList (startDate this)))"
  using assms
  by (simp add: Role_messages_def Thing_messages_def Role_validDates_def
      ofMaybe_stringMessages ofArray_stringMessages ofArray_namedNodeMessages
      ofMaybe_namedNodeMessages ofMaybe_dateMessages)

lemma Role_hash_valid:
  assumes "Role_validDates this"
  shows "\<exists>messages. Role_hash this create = Hasher messages False"
proof -
  obtain xs where "Role_messages this = map Returned xs"
    using Role_messages_Returned [OF assms] by blast
  then have "Role_hash this create = Hasher (received create @ xs) False"
    by (simp add: Role_hash_feed feed_Returned create_def)
  then show ?thesis by blast
qed

lemma Role_identifier_returns:
  assumes "Role_validDates this"
  shows "\<exists>i. Role_identifier lib this = Returned i"
proof (cases "Role__identifier this")
  case None
  obtain messages where "Role_hash this create = Hasher messages False"
    using Role_hash_valid [OF assms] by blast
  then show ?thesis using None by (simp add: Role_identifier_def)
next
  case (Some i)
  then show ?thesis by (simp add: Role_identifier_def)
qed

lemma Role_identifier_stored:
  "Role_identifier lib (this\<lparr>Role__identifier := Some i\<rparr>) = Returned i"
  by (simp add: Role_identifier_def)

text \<open>
  C4, as stated, fails: a role constructed without identifier whose end date is the
  \<^verbatim>\<open>Invalid Date\<close>, which the constructor accepts, has no identifier to return: the
  getter throws the \<^verbatim>\<open>RangeError\<close> of \<^verbatim>\<open>toISOString\<close>.
\<close>

theorem Role_identifier_throws_on_Invalid_Date:
  "param_identifier exampleRoleParametersInvalidDate = None
   \<and> Role_identifier exampleLibrary (Role_new exampleRoleParametersInvalidDate) = Threw"
  by code_simp

text \<open>
  C4, amended. Two roles constructed without an identifier parameter from the same
  property values (in whatever shapes the parameters give them), no date of which is
  the \<^verbatim>\<open>Invalid Date\<close>, have the same identifier: the getter returns for both the
  named node \<^verbatim>\<open>urn:shaclmate:object:Role:<digest>\<close>, where the digest is that of the
  messages of the property values in the order of \<^verbatim>\<open>hash\<close>.
\<close>

theorem Role_identifier_deterministic:
  assumes "param_identifier p1 = None" and "param_identifier p2 = None"
    and "sameRoleParameters p1 p2"
    and "optionally validDate (fromOrMaybe (param_endDate p1))"
    and "optionally validDate (fromOrMaybe (param_startDate p1))"
  shows "Role_identifier lib (Role_new p1)
      = Returned (NamedNode (''urn:shaclmate:object:Role:''
                             @ sha256_hex lib (Role_parameterMessages p1)))
    \<and> Role_identifier lib (Role_new p2) = Role_identifier lib (Role_new p1)"
proof -
  have new: "Role_new p2 = Role_new p1"
    using assms(1-3) by (simp add: Role_new_def sameRoleParameters_def)
  have "Role_validDates (Role_new p1)"
    using assms(4,5) by (simp add: Role_validDates_def Role_new_def)
  then have "Role_messages (Role_new p1) = map Returned (Role_parameterMessages p1)"
    by (simp add: Role_messages_Returned Role_parameterMessages_def Role_new_def)
  then have "Role_hash (Role_new p1) create = Hasher (Role_parameterMessages p1) False"
    by (simp add: Role_hash_feed feed_Returned create_def)
  then show ?thesis
    using assms(1) new by (simp add: Role_identifier_def Role_new_def Role_type_def)
qed

theorem Role_identifier_deterministic_witness:
  "Role_identifier exampleLibrary (Role_new exampleRoleParameters1)
     = Returned (NamedNode (''urn:shaclmate:object:Role:''
          @ ''A role'' @ ''NamedNode'' @ ''http://example.com/u''
          @ ''2020-01-01T00:00:00.000Z''))
   \<and> Role_identifier exampleLibrary (Role_new exampleRoleParameters2)
     = Role_identifier exampleLibrary (Role_new exampleRoleParameters1)
   \<and> exampleRoleParameters1 \<noteq> exampleRoleParameters2"
proof -
  have "sameRoleParameters exampleRoleParameters1 exampleRoleParameters2"
    by (simp add: sameRoleParameters_def exampleRoleParameters1_def
        exampleRoleParameters2_def)
  moreover have "optionally validDate (fromOrMaybe (param_endDate exampleRoleParameters1))"
    by code_simp
  moreover have
    "optionally validDate (fromOrMaybe (param_startDate exampleRoleParameters1))"
    by code_simp
  moreover have "sha256_hex exampleLibrary (Role_parameterMessages exampleRoleParameters1)
      = ''A role'' @ ''NamedNode'' @ ''http://example.com/u'' @ ''2020-01-01T00:00:00.000Z''"
    by code_simp
  moreover have "exampleRoleParameters1 \<noteq> exampleRoleParameters2"
    by (simp add: exampleRoleParameters1_def exampleRoleParameters2_def)
  ultimately show ?thesis
    using Role_identifier_deterministic [of exampleRoleParameters1 exampleRoleParameters2
        exampleLibrary]
    by (simp add: exampleRoleParameters1_def exampleRoleParameters2_def)
qed

section \<open>Reflexivity of equals\<close>

lemma chain_Equal [simp]: "chain Equal f = f ()"
  by (simp add: chain_def Equal_def)

lemma chainAll_Nil [simp]: "chainAll r [] = r"
  by (simp add: chainAll_def)

lemma chainAll_Cons [simp]: "chainAll r (f # fs) = chainAll (chain r f) fs"
  by (simp add: chainAll_def)

lemma property_Equal [simp]: "property n Equal = Equal"
  by (simp add: property_def mapLeft_def Equal_def)

lemma chainOutcome_Equal [simp]: "chainOutcome Equal f = f ()"
  by (simp add: chainOutcome_def Equal_def)

lemma maybeEquals_refl:
  "(\<And>x. m = Some x \<Longrightarrow> fromBooleanEqualsResult (eq x x) = Equal)
     \<Longrightarrow> maybeEquals eq m m = Equal"
  by (cases m) (simp_all add: maybeEquals_def)

lemma arrayEquals_refl:
  "(\<And>x. x \<in> set xs \<Longrightarrow> fromBooleanEqualsResult (eq x x) = Equal)
     \<Longrightarrow> arrayEquals eq xs xs = Equal"
  by (auto simp: arrayEquals_Equal_iff)

lemma stringEquals_refl [simp]: "fromBooleanEqualsResult (stringEquals x x) = Equal"
  by (simp add: stringEquals_def strictEquals_def)

lemma namedNodeEquals_refl [simp]: "fromBooleanEqualsResult (namedNodeEquals x x) = Equal"
  by (simp add: namedNodeEquals_def booleanEquals_def NamedNode_equals_def)

lemma Term_equals_refl [simp]: "Term_equals x x"
  by (cases x) (simp_all add: NamedNode_equals_def)

lemma termEquals_refl [simp]: "fromBooleanEqualsResult (termEquals x x) = Equal"
  by (simp add: termEquals_def booleanEquals_def)

lemma dateEqualsResult_refl:
  "validDate x \<Longrightarrow> fromBooleanEqualsResult (dateEqualsResult x x) = Equal"
  by (simp add: dateEqualsResult_def dateEquals_def getTime_def number_strictly_equal_def)

lemma maybeEquals_date_refl:
  "optionally validDate m \<Longrightarrow> maybeEquals dateEqualsResult m m = Equal"
  by (rule maybeEquals_refl) (simp add: optionally_def dateEqualsResult_refl)

lemma numberEquals_refl: "x \<noteq> NaN \<Longrightarrow> fromBooleanEqualsResult (numberEquals x x) = Equal"
  by (simp add: numberEquals_def strictEquals_def number_strictly_equal_def)

lemma Thing_equals_refl [simp]: "Thing_equals i t x i t x = Equal"
  by (simp add: Thing_equals_def maybeEquals_refl arrayEquals_refl booleanEquals_def
      NamedNode_equals_def strictEquals_def)

lemma Role_equals_refl:
  assumes "Role_validDates x"
  shows "Role_equals lib x x = Returned Equal"
proof -
  obtain i where "Role_identifier lib x = Returned i"
    using Role_identifier_returns [OF assms] by blast
  then show ?thesis
    using assms
    by (simp add: Role_equals_def Role_validDates_def maybeEquals_refl
        maybeEquals_date_refl)
qed

lemma Occupation_equals_refl [simp]: "Occupation_equals x x = Equal"
  by (simp add: Occupation_equals_def)

lemma GenderType_equals_refl [simp]: "GenderType_equals x x = Equal"
  by (simp add: GenderType_equals_def)

lemma Organization_equals_refl [simp]: "Organization_equals x x = Equal"
  by (simp add: Organization_equals_def arrayEquals_refl)

lemma QuantitiveValue_equals_refl:
  "QuantitiveValue_value x \<noteq> Some NaN \<Longrightarrow> QuantitiveValue_equals x x = Equal"
proof -
  assume h: "QuantitiveValue_value x \<noteq> Some NaN"
  have "maybeEquals numberEquals (QuantitiveValue_value x) (QuantitiveValue_value x) = Equal"
    using h by (intro maybeEquals_refl numberEquals_refl) auto
  then show ?thesis by (simp add: QuantitiveValue_equals_def)
qed

lemma CreativeWork_equals_refl [simp]: "CreativeWork_equals i t x i t x = Equal"
  by (simp add: CreativeWork_equals_def arrayEquals_refl)

lemma MediaObject_equals_refl:
  "notNaN (height x) \<Longrightarrow> notNaN (width x) \<Longrightarrow> MediaObject_equals i t x i t x = Equal"
proof -
  assume h: "notNaN (height x)" and w: "notNaN (width x)"
  have "maybeEquals (\<lambda>left right. Result (QuantitiveValue_equals left right))
          (height x) (height x) = Equal"
    using h by (intro maybeEquals_refl) (simp add: notNaN_def QuantitiveValue_equals_refl)
  moreover have "maybeEquals (\<lambda>left right. Result (QuantitiveValue_equals left right))
          (width x) (width x) = Equal"
    using w by (intro maybeEquals_refl) (simp add: notNaN_def QuantitiveValue_equals_refl)
  ultimately show ?thesis
    by (simp add: MediaObject_equals_def maybeEquals_refl)
qed

lemma ImageObject_equals_refl:
  "notNaN (height x) \<Longrightarrow> notNaN (width x) \<Longrightarrow> ImageObject_equals x x = Equal"
  by (simp add: ImageObject_equals_def MediaObject_equals_refl)

text \<open>
  When no comparison of elements throws, \<^verbatim>\<open>arrayEquals\<close> returns what it returns for
  the results of the comparisons.
\<close>

lemma rightUnequalsOutcome_returns:
  assumes "\<And>y. y \<in> set ys \<Longrightarrow> eq x y = Returned (f x y)"
  shows "rightUnequalsOutcome eq x ys acc = Returned (rightUnequals f x ys acc)"
  using assms
proof (induction ys arbitrary: acc)
  case Nil
  show ?case by simp
next
  case (Cons y ys)
  have "eq x y = Returned (f x y)" by (rule Cons.prems) simp
  moreover have "rightUnequalsOutcome eq x ys acc' = Returned (rightUnequals f x ys acc')"
    for acc'
    by (rule Cons.IH) (simp add: Cons.prems)
  ultimately show ?case by (simp split: sum.splits)
qed

lemma leftLoopOutcome_returns:
  assumes "\<And>x y. x \<in> set xs \<Longrightarrow> y \<in> set ys \<Longrightarrow> eq x y = Returned (f x y)"
  shows "leftLoopOutcome eq xs ys i = Returned (leftLoop f xs ys i)"
  using assms
proof (induction xs arbitrary: i)
  case Nil
  show ?case by simp
next
  case (Cons x xs)
  have "rightUnequalsOutcome eq x ys [] = Returned (rightUnequals f x ys [])"
    by (rule rightUnequalsOutcome_returns) (simp add: Cons.prems)
  moreover have "leftLoopOutcome eq xs ys i' = Returned (leftLoop f xs ys i')" for i'
    by (rule Cons.IH) (simp add: Cons.prems)
  ultimately show ?case by (simp add: Let_def)
qed

lemma arrayEqualsOutcome_returns:
  assumes "\<And>x y. x \<in> set xs \<Longrightarrow> y \<in> set ys \<Longrightarrow> eq x y = Returned (f x y)"
  shows "arrayEqualsOutcome eq xs ys = Returned (arrayEquals f xs ys)"
  using leftLoopOutcome_returns [of xs ys eq f 0, OF assms]
  by (simp add: arrayEqualsOutcome_def arrayEquals_def)

lemma Role_equals_returns:
  assumes "Role_validDates x" and "Role_validDates y"
  shows "\<exists>r. Role_equals lib x y = Returned r"
proof -
  obtain i where "Role_identifier lib x = Returned i"
    using Role_identifier_returns [OF assms(1)] by blast
  moreover obtain j where "Role_identifier lib y = Returned j"
    using Role_identifier_returns [OF assms(2)] by blast
  ultimately show ?thesis
    by (simp add: Role_equals_def chainOutcome_def split: sum.splits)
qed

lemma OccupationOrRole_equals_returns:
  assumes "OccupationOrRole_validDates x" and "OccupationOrRole_validDates y"
  shows "OccupationOrRole_equals lib x y
    = Returned (returned (OccupationOrRole_equals lib x y))"
proof (cases x)
  case (IsOccupation a)
  then show ?thesis by (cases y) simp_all
next
  case x: (IsRole a)
  show ?thesis
  proof (cases y)
    case (IsOccupation b)
    then show ?thesis using x by simp
  next
    case (IsRole b)
    obtain r where "Role_equals lib a b = Returned r"
      using Role_equals_returns [of a b lib] assms x IsRole by auto
    then show ?thesis using x IsRole by simp
  qed
qed

lemma OccupationOrRole_equals_refl:
  assumes "OccupationOrRole_validDates x"
  shows "OccupationOrRole_equals lib x x = Returned (Result Equal)"
  using assms by (cases x) (simp_all add: Role_equals_refl)

lemma hasOccupation_equals_refl:
  assumes "list_all OccupationOrRole_validDates xs"
  shows "arrayEqualsOutcome (OccupationOrRole_equals lib) xs xs = Returned Equal"
proof -
  have valid: "OccupationOrRole_validDates x" if "x \<in> set xs" for x
    using assms that by (simp add: list_all_iff)
  have "arrayEqualsOutcome (OccupationOrRole_equals lib) xs xs
      = Returned (arrayEquals (\<lambda>x y. returned (OccupationOrRole_equals lib x y)) xs xs)"
    by (rule arrayEqualsOutcome_returns) (rule OccupationOrRole_equals_returns; simp add: valid)
  moreover have "arrayEquals (\<lambda>x y. returned (OccupationOrRole_equals lib x y)) xs xs = Equal"
    by (rule arrayEquals_refl) (simp add: OccupationOrRole_equals_refl valid)
  ultimately show ?thesis by simp
qed

lemma Person_equals_refl:
  assumes "\<And>i. i \<in> set (images x) \<Longrightarrow> notNaN (height i) \<and> notNaN (width i)"
    and "Person_validDates x"
  shows "Person_equals lib x x = Returned Equal"
  using assms
  by (simp add: Person_equals_def Person_validDates_def maybeEquals_refl
      maybeEquals_date_refl arrayEquals_refl ImageObject_equals_refl
      hasOccupation_equals_refl)

text \<open>
  C3, as stated, fails: a \<^verbatim>\<open>QuantitiveValue\<close> whose value is \<^verbatim>\<open>NaN\<close> is not equal to
  itself, because \<^verbatim>\<open>strictEquals\<close> compares numbers with \<^verbatim>\<open>===\<close>. The same holds of a
  date whose time value is \<^verbatim>\<open>NaN\<close>: a role with a stored identifier whose end date is
  the \<^verbatim>\<open>Invalid Date\<close> is unequal to itself, and without a stored identifier
  \<^verbatim>\<open>equals\<close> throws, because the getter of the identifier does.
\<close>

theorem equals_not_reflexive_on_NaN:
  "QuantitiveValue_equals exampleQuantitiveValueNaN exampleQuantitiveValueNaN
     = Inl (Property ''value'' BooleanEquals)
   \<and> Role_equals exampleLibrary exampleRoleInvalidDate exampleRoleInvalidDate
     = Returned (Inl (Property ''endDate'' BooleanEquals))
   \<and> Role_equals exampleLibrary (Role_new exampleRoleParametersInvalidDate)
       (Role_new exampleRoleParametersInvalidDate)
     = Threw"
  by code_simp

text \<open>
  C3, amended. \<^verbatim>\<open>x.equals(x)\<close> is \<^verbatim>\<open>Equal\<close> for every value of every class, with
  optional, array-valued (duplicates included) and nested properties, provided no
  numeric value in it (the value of a \<^verbatim>\<open>QuantitiveValue\<close>, also as the height or width
  of an image) is \<^verbatim>\<open>NaN\<close> and no date in it (of a role, also among the occupations of
  a person, or the birth date of a person) is the \<^verbatim>\<open>Invalid Date\<close>.
\<close>

theorem equals_reflexive:
  "(Role_validDates role \<longrightarrow> Role_equals lib role role = Returned Equal)
   \<and> Occupation_equals occupation occupation = Equal
   \<and> Organization_equals organization organization = Equal
   \<and> GenderType_equals genderType genderType = Equal
   \<and> (QuantitiveValue_value quantitiveValue \<noteq> Some NaN
        \<longrightarrow> QuantitiveValue_equals quantitiveValue quantitiveValue = Equal)
   \<and> (notNaN (height imageObject) \<and> notNaN (width imageObject)
        \<longrightarrow> ImageObject_equals imageObject imageObject = Equal)
   \<and> ((\<forall>i \<in> set (images person). notNaN (height i) \<and> notNaN (width i))
        \<and> Person_validDates person
        \<longrightarrow> Person_equals lib person person = Returned Equal)"
  by (simp add: Role_equals_refl QuantitiveValue_equals_refl ImageObject_equals_refl
      Person_equals_refl)

theorem equals_reflexive_witness:
  "Person_equals exampleLibrary examplePerson examplePerson = Returned Equal
   \<and> ImageObject_equals exampleImageObject exampleImageObject = Equal
   \<and> QuantitiveValue_equals exampleQuantitiveValue exampleQuantitiveValue = Equal
   \<and> Role_equals exampleLibrary exampleRole exampleRole = Returned Equal"
proof -
  have "Role_validDates exampleRole" by code_simp
  moreover have "Person_validDates examplePerson" by code_simp
  ultimately show ?thesis
    using equals_reflexive [of exampleRole exampleLibrary exampleOccupation
        exampleOrganization exampleGenderType exampleQuantitiveValue exampleImageObject
        examplePerson]
    by (simp add: examplePerson_def exampleImageObject_def exampleQuantitiveValue_def
        notNaN_def)
qed

section \<open>The rdf:type quads that toRdf adds\<close>

lemma schema_neq_rdf_type [simp]: "schema n \<noteq> rdf_type" "rdf_type \<noteq> schema n"
  by (simp_all add: schema_def rdf_type_def)

lemma schema_eq [simp]: "schema a = schema b \<longleftrightarrow> a = b"
  by (simp add: schema_def)

lemma andThen_Returned_iff:
  "andThen call k = Returned y \<longleftrightarrow> (\<exists>x. call = Returned x \<and> k x = Returned y)"
  by (cases call) simp_all

lemma typeQuads_append [simp]: "typeQuads (a @ b) = typeQuads a @ typeQuads b"
  by (simp add: typeQuads_def)

lemma typeQuads_add_other [simp]: "typeQuads (add r (schema n) vs ds) = typeQuads ds"
  by (simp add: typeQuads_def add_def)

lemma typeQuads_add_type [simp]:
  "typeQuads (if \<not> b then add r rdf_type [NamedNodeTerm (schema c)] ds else ds)
     = typeQuads ds @ ownTypeQuad b r c"
  by (simp add: typeQuads_def add_def ownTypeQuad_def)

lemma typeQuads_ownTypeQuad [simp]: "typeQuads (ownTypeQuad b r c) = ownTypeQuad b r c"
  by (simp add: typeQuads_def ownTypeQuad_def)

lemma fst_Thing_toRdf [simp]: "fst (Thing_toRdf i t b ds) = i"
  by (simp add: Thing_toRdf_def Let_def)

lemma typeQuads_Thing_toRdf [simp]:
  "typeQuads (snd (Thing_toRdf i t b ds)) = typeQuads ds"
  by (simp add: Thing_toRdf_def Let_def)

lemma fst_Intangible_toRdf [simp]: "fst (Intangible_toRdf i t b ds) = i"
  by (simp add: Intangible_toRdf_def)

lemma typeQuads_Intangible_toRdf [simp]:
  "typeQuads (snd (Intangible_toRdf i t b ds)) = typeQuads ds"
  by (simp add: Intangible_toRdf_def)

lemma fst_StructuredValue_toRdf [simp]: "fst (StructuredValue_toRdf i t b ds) = i"
  by (simp add: StructuredValue_toRdf_def)

lemma typeQuads_StructuredValue_toRdf [simp]:
  "typeQuads (snd (StructuredValue_toRdf i t b ds)) = typeQuads ds"
  by (simp add: StructuredValue_toRdf_def)

lemma fst_Enumeration_toRdf [simp]: "fst (Enumeration_toRdf i t b ds) = i"
  by (simp add: Enumeration_toRdf_def)

lemma typeQuads_Enumeration_toRdf [simp]:
  "typeQuads (snd (Enumeration_toRdf i t b ds)) = typeQuads ds"
  by (simp add: Enumeration_toRdf_def)

lemma fst_CreativeWork_toRdf [simp]: "fst (CreativeWork_toRdf i t b ds) = i"
  by (simp add: CreativeWork_toRdf_def Let_def split_beta)

lemma typeQuads_CreativeWork_toRdf [simp]:
  "typeQuads (snd (CreativeWork_toRdf i t b ds)) = typeQuads ds"
  by (simp add: CreativeWork_toRdf_def Let_def split_beta)

lemma Role_toRdf_Returned:
  assumes "Role_toRdf lib x b ds = Returned (r, ds')"
  shows "Role_identifier lib x = Returned r
    \<and> typeQuads ds' = typeQuads ds @ ownTypeQuad b r ''Role''"
  using assms
  by (auto simp: Role_toRdf_def andThen_Returned_iff Let_def split_beta)

lemma fst_Occupation_toRdf [simp]: "fst (Occupation_toRdf x b ds) = Occupation_identifier x"
  by (simp add: Occupation_toRdf_def Let_def split_beta)

lemma typeQuads_Occupation_toRdf:
  "typeQuads (snd (Occupation_toRdf x b ds))
     = typeQuads ds @ ownTypeQuad b (Occupation_identifier x) ''Occupation''"
  by (simp add: Occupation_toRdf_def Let_def split_beta)

lemma fst_Organization_toRdf [simp]:
  "fst (Organization_toRdf x b ds) = Organization_identifier x"
  by (simp add: Organization_toRdf_def Let_def split_beta)

lemma typeQuads_Organization_toRdf:
  "typeQuads (snd (Organization_toRdf x b ds))
     = typeQuads ds @ ownTypeQuad b (Organization_identifier x) ''Organization''"
  by (simp add: Organization_toRdf_def Let_def split_beta)

lemma fst_GenderType_toRdf [simp]: "fst (GenderType_toRdf x b ds) = GenderType_identifier x"
  by (simp add: GenderType_toRdf_def Let_def split_beta)

lemma typeQuads_GenderType_toRdf:
  "typeQuads (snd (GenderType_toRdf x b ds))
     = typeQuads ds @ ownTypeQuad b (GenderType_identifier x) ''GenderType''"
  by (simp add: GenderType_toRdf_def Let_def split_beta)

lemma fst_QuantitiveValue_toRdf [simp]:
  "fst (QuantitiveValue_toRdf lib x b ds) = QuantitiveValue_identifier x"
  by (simp add: QuantitiveValue_toRdf_def Let_def split_beta)

lemma typeQuads_QuantitiveValue_toRdf:
  "typeQuads (snd (QuantitiveValue_toRdf lib x b ds))
     = typeQuads ds @ ownTypeQuad b (QuantitiveValue_identifier x) ''QuantitativeValue''"
  by (simp add: QuantitiveValue_toRdf_def Let_def split_beta)

lemma typeQuads_toRdfAll:
  assumes "\<And>item ds. typeQuads (snd (f item ds)) = typeQuads ds @ g item"
  shows "typeQuads (snd (toRdfAll f items ds)) = typeQuads ds @ concat (map g items)"
  by (induction items arbitrary: ds) (simp_all add: Let_def split_beta assms)

lemma typeQuads_toRdfMaybe:
  assumes "\<And>item ds. typeQuads (snd (f item ds)) = typeQuads ds @ g item"
  shows "typeQuads (snd (toRdfMaybe f m ds))
    = typeQuads ds @ concat (map g (maybeToList m))"
  by (simp add: toRdfMaybe_def typeQuads_toRdfAll [where g = g] assms)

lemma typeQuads_toRdfAllOutcome:
  assumes "\<And>item ds r ds'. f item ds = Returned (r, ds')
             \<Longrightarrow> typeQuads ds' = typeQuads ds @ g item"
    and "toRdfAllOutcome f items ds = Returned (rs, ds')"
  shows "typeQuads ds' = typeQuads ds @ concat (map g items)"
  using assms(2)
proof (induction items arbitrary: ds rs ds')
  case Nil
  then show ?case by simp
next
  case (Cons item items)
  from Cons.prems obtain r ds1 rs1 where
    first: "f item ds = Returned (r, ds1)"
    and rest: "toRdfAllOutcome f items ds1 = Returned (rs1, ds')"
    by (auto simp: andThen_Returned_iff)
  have "typeQuads ds1 = typeQuads ds @ g item" by (rule assms(1) [OF first])
  moreover have "typeQuads ds' = typeQuads ds1 @ concat (map g items)"
    by (rule Cons.IH [OF rest])
  ultimately show ?case by simp
qed

lemma fst_MediaObject_toRdf [simp]: "fst (MediaObject_toRdf lib i x b ds) = i"
  by (simp add: MediaObject_toRdf_def Let_def split_beta)

lemma typeQuads_nested_QuantitiveValue:
  "typeQuads (snd (toRdfMaybe (\<lambda>v. QuantitiveValue_toRdf lib v False) m ds))
     = typeQuads ds @ concat (map QuantitiveValue_typeQuad (maybeToList m))"
  by (rule typeQuads_toRdfMaybe)
    (simp add: typeQuads_QuantitiveValue_toRdf QuantitiveValue_typeQuad_def)

lemma typeQuads_MediaObject_toRdf:
  "typeQuads (snd (MediaObject_toRdf lib i x b ds))
     = typeQuads ds @ MediaObject_nestedTypeQuads x"
  by (simp add: MediaObject_toRdf_def Let_def split_beta typeQuads_nested_QuantitiveValue
      MediaObject_nestedTypeQuads_def)

lemma fst_ImageObject_toRdf [simp]:
  "fst (ImageObject_toRdf lib x b ds) = ImageObject_identifier x"
  by (simp add: ImageObject_toRdf_def Let_def split_beta)

lemma typeQuads_ImageObject_toRdf:
  "typeQuads (snd (ImageObject_toRdf lib x b ds)) = typeQuads ds @ ImageObject_typeQuads b x"
  by (simp add: ImageObject_toRdf_def Let_def split_beta typeQuads_MediaObject_toRdf
      ImageObject_typeQuads_def)

lemma typeQuads_OccupationOrRole_toRdf:
  assumes "OccupationOrRole_toRdf lib x ds = Returned (r, ds')"
  shows "typeQuads ds' = typeQuads ds @ OccupationOrRole_typeQuad lib x"
proof (cases x)
  case (IsOccupation item)
  then have "ds' = snd (Occupation_toRdf item False ds)" using assms by auto
  then show ?thesis using IsOccupation by (simp add: typeQuads_Occupation_toRdf)
next
  case (IsRole item)
  then have "Role_toRdf lib item False ds = Returned (r, ds')" using assms by simp
  from Role_toRdf_Returned [OF this] show ?thesis using IsRole by simp
qed

lemma Person_toRdf_Returned:
  assumes "Person_toRdf lib x b ds = Returned (r, ds')"
  shows "r = Person_identifier x \<and> typeQuads ds' = typeQuads ds @ Person_typeQuads lib b x"
proof -
  let ?ds1 = "snd (Thing_toRdf (Person_identifier x) x True ds)"
  let ?ds2 = "if \<not> b then add (Person_identifier x) rdf_type [NamedNodeTerm (schema ''Person'')]
                           ?ds1 else ?ds1"
  from assms obtain ds3 os ds4 where
    occupations: "toRdfAllOutcome (OccupationOrRole_toRdf lib) (hasOccupation x) ds3
      = Returned (os, ds4)"
    and ds3: "typeQuads ds3 = typeQuads ?ds2"
    and r: "r = Person_identifier x"
    and ds': "typeQuads ds'
      = typeQuads (snd (toRdfAll (\<lambda>item. ImageObject_toRdf lib item False) (images x)
                          (add (Person_identifier x) (schema ''hasOccupation'')
                             (map NamedNodeTerm os) ds4)))"
    by (auto simp: Person_toRdf_def andThen_Returned_iff Let_def split_beta)
  have "typeQuads ds4
      = typeQuads ds3 @ concat (map (OccupationOrRole_typeQuad lib) (hasOccupation x))"
    using typeQuads_OccupationOrRole_toRdf occupations
    by (rule typeQuads_toRdfAllOutcome)
  moreover have "typeQuads (snd (toRdfAll (\<lambda>item. ImageObject_toRdf lib item False)
                                  (images x) ds5))
      = typeQuads ds5 @ concat (map (ImageObject_typeQuads False) (images x))" for ds5
    by (rule typeQuads_toRdfAll) (rule typeQuads_ImageObject_toRdf)
  ultimately show ?thesis
    using r ds3 ds' by (simp add: Person_typeQuads_def)
qed

lemma count_typeQuads:
  "predicate q = rdf_type \<Longrightarrow> count_list (typeQuads ds) q = count_list ds q"
  by (induction ds) (auto simp: typeQuads_def)

lemma count_ownTypeQuad:
  "count_list (ownTypeQuad b r c) (Quad r' rdf_type (NamedNodeTerm (schema c')))
     = (if \<not> b \<and> r = r' \<and> c = c' then 1 else 0)"
  by (simp add: ownTypeQuad_def)

lemma count_concat_zero:
  assumes "\<And>x. x \<in> set xs \<Longrightarrow> count_list (f x) q = 0"
  shows "count_list (concat (map f xs)) q = 0"
  using assms by (induction xs) simp_all

lemma count_added:
  assumes "typeQuads ds' = typeQuads ds @ added" and "predicate q = rdf_type"
  shows "count_list ds' q = count_list ds q + count_list added q"
proof -
  have "count_list ds' q = count_list (typeQuads ds') q"
    by (simp add: count_typeQuads assms(2))
  also have "\<dots> = count_list (typeQuads ds) q + count_list added q"
    by (simp add: assms(1))
  finally show ?thesis by (simp add: count_typeQuads assms(2))
qed

lemma count_MediaObject_nestedTypeQuads:
  "c \<noteq> ''QuantitativeValue''
     \<Longrightarrow> count_list (MediaObject_nestedTypeQuads x) (Quad r rdf_type (NamedNodeTerm (schema c)))
         = 0"
  by (simp add: MediaObject_nestedTypeQuads_def count_concat_zero QuantitiveValue_typeQuad_def
      count_ownTypeQuad)

lemma count_ImageObject_typeQuads:
  "count_list (ImageObject_typeQuads b x)
       (Quad (ImageObject_identifier x) rdf_type (NamedNodeTerm (schema ''ImageObject'')))
     = (if b then 0 else 1)"
  by (simp add: ImageObject_typeQuads_def count_MediaObject_nestedTypeQuads count_ownTypeQuad)

lemma count_Person_typeQuads:
  "count_list (Person_typeQuads lib b x)
       (Quad (Person_identifier x) rdf_type (NamedNodeTerm (schema ''Person'')))
     = (if b then 0 else 1)"
proof -
  have "count_list (OccupationOrRole_typeQuad lib item)
      (Quad (Person_identifier x) rdf_type (NamedNodeTerm (schema ''Person''))) = 0" for item
    by (cases item) (simp_all add: count_ownTypeQuad)
  moreover have "count_list (ImageObject_typeQuads False item)
      (Quad (Person_identifier x) rdf_type (NamedNodeTerm (schema ''Person''))) = 0" for item
    by (simp add: ImageObject_typeQuads_def count_MediaObject_nestedTypeQuads
        count_ownTypeQuad)
  ultimately show ?thesis
    by (simp add: Person_typeQuads_def count_concat_zero count_ownTypeQuad)
qed

text \<open>
  C7, as stated, fails: with \<^verbatim>\<open>ignoreRdfType\<close> true, \<^verbatim>\<open>toRdf\<close> still adds the
  \<^verbatim>\<open>rdf:type\<close> quads of the nested objects, whose \<^verbatim>\<open>toRdf\<close> it calls without the flag:
  that of the role of a person, that of the height of an image, the latter on the
  produced resource itself when the image and its height have the same identifier.
\<close>

theorem toRdf_with_ignoreRdfType_adds_nested_rdf_types:
  "(case Person_toRdf exampleLibrary examplePersonWithRole True [] of
      Returned (resource, dataset) \<Rightarrow>
        typeQuads dataset
          = [Quad (NamedNode ''http://example.com/role'') rdf_type
               (NamedNodeTerm (schema ''Role''))]
    | Threw \<Rightarrow> False)
   \<and> typeQuads (snd (ImageObject_toRdf exampleLibrary exampleImageObject True []))
     = [Quad (NamedNode ''http://example.com/h'') rdf_type
          (NamedNodeTerm (schema ''QuantitativeValue''))]
   \<and> fst (ImageObject_toRdf exampleLibrary exampleImageObjectSameIdentifier True [])
     = NamedNode ''http://example.com/h''
   \<and> typeQuads (snd (ImageObject_toRdf exampleLibrary exampleImageObjectSameIdentifier True []))
     = [Quad (NamedNode ''http://example.com/h'') rdf_type
          (NamedNodeTerm (schema ''QuantitativeValue''))]"
  by code_simp

text \<open>
  C7, amended. The \<^verbatim>\<open>rdf:type\<close> quads that the \<^verbatim>\<open>toRdf\<close> of a concrete class adds to
  the dataset are, in this order of insertion: the quad
  \<^verbatim>\<open>(identifier, rdf:type, class)\<close> of the class's schema.org class on the produced
  resource, once when \<^verbatim>\<open>ignoreRdfType\<close> is false and not at all when it is true, and
  the \<^verbatim>\<open>rdf:type\<close> quads of the nested objects, whatever the flag: for an image those
  of its height and width (before its own), for a person those of its occupations,
  roles and images (after its own). No other \<^verbatim>\<open>rdf:type\<close> quad is added, so the own
  quad is counted once more with the flag false and as often as before with the flag
  true. The \<^verbatim>\<open>toRdf\<close> of a superclass, which the subclass calls with
  \<^verbatim>\<open>ignoreRdfType: true\<close> and which does not read the flag, adds no \<^verbatim>\<open>rdf:type\<close> quad
  (that of \<^verbatim>\<open>MediaObject\<close>: those of its height and width only). For \<^verbatim>\<open>Role\<close> and
  \<^verbatim>\<open>Person\<close> this is said of the calls that return.
\<close>

theorem toRdf_adds_own_rdf_type_once:
  "(Role_toRdf lib role b ds = Returned (r, ds')
      \<longrightarrow> Role_identifier lib role = Returned r
        \<and> typeQuads ds' = typeQuads ds @ ownTypeQuad b r ''Role''
        \<and> count_list ds' (Quad r rdf_type (NamedNodeTerm (schema ''Role'')))
            = count_list ds (Quad r rdf_type (NamedNodeTerm (schema ''Role'')))
              + (if b then 0 else 1))
   \<and> fst (Occupation_toRdf occupation b ds) = Occupation_identifier occupation
   \<and> typeQuads (snd (Occupation_toRdf occupation b ds))
       = typeQuads ds @ ownTypeQuad b (Occupation_identifier occupation) ''Occupation''
   \<and> count_list (snd (Occupation_toRdf occupation b ds))
       (Quad (Occupation_identifier occupation) rdf_type
          (NamedNodeTerm (schema ''Occupation'')))
     = count_list ds
         (Quad (Occupation_identifier occupation) rdf_type
            (NamedNodeTerm (schema ''Occupation'')))
       + (if b then 0 else 1)
   \<and> fst (Organization_toRdf organization b ds) = Organization_identifier organization
   \<and> typeQuads (snd (Organization_toRdf organization b ds))
       = typeQuads ds @ ownTypeQuad b (Organization_identifier organization) ''Organization''
   \<and> count_list (snd (Organization_toRdf organization b ds))
       (Quad (Organization_identifier organization) rdf_type
          (NamedNodeTerm (schema ''Organization'')))
     = count_list ds
         (Quad (Organization_identifier organization) rdf_type
            (NamedNodeTerm (schema ''Organization'')))
       + (if b then 0 else 1)
   \<and> fst (GenderType_toRdf genderType b ds) = GenderType_identifier genderType
   \<and> typeQuads (snd (GenderType_toRdf genderType b ds))
       = typeQuads ds @ ownTypeQuad b (GenderType_identifier genderType) ''GenderType''
   \<and> count_list (snd (GenderType_toRdf genderType b ds))
       (Quad (GenderType_identifier genderType) rdf_type
          (NamedNodeTerm (schema ''GenderType'')))
     = count_list ds
         (Quad (GenderType_identifier genderType) rdf_type
            (NamedNodeTerm (schema ''GenderType'')))
       + (if b then 0 else 1)
   \<and> fst (QuantitiveValue_toRdf lib quantitiveValue b ds)
       = QuantitiveValue_identifier quantitiveValue
   \<and> typeQuads (snd (QuantitiveValue_toRdf lib quantitiveValue b ds))
       = typeQuads ds
         @ ownTypeQuad b (QuantitiveValue_identifier quantitiveValue) ''QuantitativeValue''
   \<and> count_list (snd (QuantitiveValue_toRdf lib quantitiveValue b ds))
       (Quad (QuantitiveValue_identifier quantitiveValue) rdf_type
          (NamedNodeTerm (schema ''QuantitativeValue'')))
     = count_list ds
         (Quad (QuantitiveValue_identifier quantitiveValue) rdf_type
            (NamedNodeTerm (schema ''QuantitativeValue'')))
       + (if b then 0 else 1)
   \<and> fst (ImageObject_toRdf lib imageObject b ds) = ImageObject_identifier imageObject
   \<and> typeQuads (snd (ImageObject_toRdf lib imageObject b ds))
       = typeQuads ds @ ImageObject_typeQuads b imageObject
   \<and> count_list (snd (ImageObject_toRdf lib imageObject b ds))
       (Quad (ImageObject_identifier imageObject) rdf_type
          (NamedNodeTerm (schema ''ImageObject'')))
     = count_list ds
         (Quad (ImageObject_identifier imageObject) rdf_type
            (NamedNodeTerm (schema ''ImageObject'')))
       + (if b then 0 else 1)
   \<and> (Person_toRdf lib person b ds = Returned (p, ds'')
      \<longrightarrow> p = Person_identifier person
        \<and> typeQuads ds'' = typeQuads ds @ Person_typeQuads lib b person
        \<and> count_list ds'' (Quad p rdf_type (NamedNodeTerm (schema ''Person'')))
            = count_list ds (Quad p rdf_type (NamedNodeTerm (schema ''Person'')))
              + (if b then 0 else 1))
   \<and> Thing_toRdf i thing b ds = Thing_toRdf i thing True ds
   \<and> Intangible_toRdf i thing b ds = Intangible_toRdf i thing True ds
   \<and> StructuredValue_toRdf i thing b ds = StructuredValue_toRdf i thing True ds
   \<and> Enumeration_toRdf i thing b ds = Enumeration_toRdf i thing True ds
   \<and> CreativeWork_toRdf i creativeWork b ds = CreativeWork_toRdf i creativeWork True ds
   \<and> MediaObject_toRdf lib i mediaObject b ds = MediaObject_toRdf lib i mediaObject True ds
   \<and> typeQuads (snd (Thing_toRdf i thing b ds)) = typeQuads ds
   \<and> typeQuads (snd (Intangible_toRdf i thing b ds)) = typeQuads ds
   \<and> typeQuads (snd (StructuredValue_toRdf i thing b ds)) = typeQuads ds
   \<and> typeQuads (snd (Enumeration_toRdf i thing b ds)) = typeQuads ds
   \<and> typeQuads (snd (CreativeWork_toRdf i creativeWork b ds)) = typeQuads ds
   \<and> typeQuads (snd (MediaObject_toRdf lib i mediaObject b ds))
       = typeQuads ds @ MediaObject_nestedTypeQuads mediaObject"
proof -
  have role: "Role_identifier lib role = Returned r
        \<and> typeQuads ds' = typeQuads ds @ ownTypeQuad b r ''Role''
        \<and> count_list ds' (Quad r rdf_type (NamedNodeTerm (schema ''Role'')))
            = count_list ds (Quad r rdf_type (NamedNodeTerm (schema ''Role'')))
              + (if b then 0 else 1)"
    if run: "Role_toRdf lib role b ds = Returned (r, ds')"
  proof -
    note added = Role_toRdf_Returned [OF run]
    have "count_list ds' (Quad r rdf_type (NamedNodeTerm (schema ''Role'')))
        = count_list ds (Quad r rdf_type (NamedNodeTerm (schema ''Role'')))
          + count_list (ownTypeQuad b r ''Role'')
              (Quad r rdf_type (NamedNodeTerm (schema ''Role'')))"
      using added by (intro count_added) simp_all
    then show ?thesis using added by (simp add: count_ownTypeQuad)
  qed
  have person: "p = Person_identifier person
        \<and> typeQuads ds'' = typeQuads ds @ Person_typeQuads lib b person
        \<and> count_list ds'' (Quad p rdf_type (NamedNodeTerm (schema ''Person'')))
            = count_list ds (Quad p rdf_type (NamedNodeTerm (schema ''Person'')))
              + (if b then 0 else 1)"
    if run: "Person_toRdf lib person b ds = Returned (p, ds'')"
  proof -
    note added = Person_toRdf_Returned [OF run]
    have "count_list ds'' (Quad p rdf_type (NamedNodeTerm (schema ''Person'')))
        = count_list ds (Quad p rdf_type (NamedNodeTerm (schema ''Person'')))
          + count_list (Person_typeQuads lib b person)
              (Quad p rdf_type (NamedNodeTerm (schema ''Person'')))"
      using added by (intro count_added) simp_all
    then show ?thesis using added by (simp add: count_Person_typeQuads)
  qed
  have occupation:
    "count_list (snd (Occupation_toRdf occupation b ds))
       (Quad (Occupation_identifier occupation) rdf_type
          (NamedNodeTerm (schema ''Occupation'')))
     = count_list ds
         (Quad (Occupation_identifier occupation) rdf_type
            (NamedNodeTerm (schema ''Occupation'')))
       + (if b then 0 else 1)"
    by (simp add: count_added [OF typeQuads_Occupation_toRdf] count_ownTypeQuad)
  have organization:
    "count_list (snd (Organization_toRdf organization b ds))
       (Quad (Organization_identifier organization) rdf_type
          (NamedNodeTerm (schema ''Organization'')))
     = count_list ds
         (Quad (Organization_identifier organization) rdf_type
            (NamedNodeTerm (schema ''Organization'')))
       + (if b then 0 else 1)"
    by (simp add: count_added [OF typeQuads_Organization_toRdf] count_ownTypeQuad)
  have genderType:
    "count_list (snd (GenderType_toRdf genderType b ds))
       (Quad (GenderType_identifier genderType) rdf_type
          (NamedNodeTerm (schema ''GenderType'')))
     = count_list ds
         (Quad (GenderType_identifier genderType) rdf_type
            (NamedNodeTerm (schema ''GenderType'')))
       + (if b then 0 else 1)"
    by (simp add: count_added [OF typeQuads_GenderType_toRdf] count_ownTypeQuad)
  have quantitiveValue:
    "count_list (snd (QuantitiveValue_toRdf lib quantitiveValue b ds))
       (Quad (QuantitiveValue_identifier quantitiveValue) rdf_type
          (NamedNodeTerm (schema ''QuantitativeValue'')))
     = count_list ds
         (Quad (QuantitiveValue_identifier quantitiveValue) rdf_type
            (NamedNodeTerm (schema ''QuantitativeValue'')))
       + (if b then 0 else 1)"
    by (simp add: count_added [OF typeQuads_QuantitiveValue_toRdf] count_ownTypeQuad)
  have imageObject:
    "count_list (snd (ImageObject_toRdf lib imageObject b ds))
       (Quad (ImageObject_identifier imageObject) rdf_type
          (NamedNodeTerm (schema ''ImageObject'')))
     = count_list ds
         (Quad (ImageObject_identifier imageObject) rdf_type
            (NamedNodeTerm (schema ''ImageObject'')))
       + (if b then 0 else 1)"
    by (simp add: count_added [OF typeQuads_ImageObject_toRdf] count_ImageObject_typeQuads)
  have flags:
    "Thing_toRdf i thing b ds = Thing_toRdf i thing True ds"
    "Intangible_toRdf i thing b ds = Intangible_toRdf i thing True ds"
    "StructuredValue_toRdf i thing b ds = StructuredValue_toRdf i thing True ds"
    "Enumeration_toRdf i thing b ds = Enumeration_toRdf i thing True ds"
    "CreativeWork_toRdf i creativeWork b ds = CreativeWork_toRdf i creativeWork True ds"
    "MediaObject_toRdf lib i mediaObject b ds = MediaObject_toRdf lib i mediaObject True ds"
    by (simp_all add: Thing_toRdf_def Intangible_toRdf_def StructuredValue_toRdf_def
        Enumeration_toRdf_def CreativeWork_toRdf_def MediaObject_toRdf_def)
  show ?thesis
    by (intro conjI impI role person occupation organization genderType quantitiveValue
        imageObject flags fst_Occupation_toRdf fst_Organization_toRdf fst_GenderType_toRdf
        fst_QuantitiveValue_toRdf fst_ImageObject_toRdf typeQuads_Occupation_toRdf
        typeQuads_Organization_toRdf typeQuads_GenderType_toRdf
        typeQuads_QuantitiveValue_toRdf typeQuads_ImageObject_toRdf
        typeQuads_Thing_toRdf typeQuads_Intangible_toRdf typeQuads_StructuredValue_toRdf
        typeQuads_Enumeration_toRdf typeQuads_CreativeWork_toRdf
        typeQuads_MediaObject_toRdf)
qed

theorem toRdf_adds_own_rdf_type_once_witness:
  "typeQuads (snd (returned (Person_toRdf exampleLibrary examplePersonWithRole False [])))
     = [Quad (NamedNode ''http://example.com/person'') rdf_type
          (NamedNodeTerm (schema ''Person'')),
        Quad (NamedNode ''http://example.com/role'') rdf_type
          (NamedNodeTerm (schema ''Role''))]
   \<and> typeQuads (snd (returned (Person_toRdf exampleLibrary examplePersonWithRole True [])))
     = [Quad (NamedNode ''http://example.com/role'') rdf_type
          (NamedNodeTerm (schema ''Role''))]
   \<and> count_list (snd (returned (Person_toRdf exampleLibrary examplePersonWithRole False [])))
       (Quad (NamedNode ''http://example.com/person'') rdf_type
          (NamedNodeTerm (schema ''Person'')))
     = 1
   \<and> typeQuads (snd (returned (Role_toRdf exampleLibrary exampleRole False [])))
     = [Quad (NamedNode ''urn:shaclmate:object:Role:2020-01-01T12:00:00.000Z'') rdf_type
          (NamedNodeTerm (schema ''Role''))]"
proof -
  have run: "Person_toRdf exampleLibrary examplePersonWithRole flag []
      = Returned (fst (returned (Person_toRdf exampleLibrary examplePersonWithRole flag [])),
                  snd (returned (Person_toRdf exampleLibrary examplePersonWithRole flag [])))"
    for flag
    by (cases flag) (simp, code_simp, simp, code_simp)
  have role: "Role_toRdf exampleLibrary exampleRole False []
      = Returned (fst (returned (Role_toRdf exampleLibrary exampleRole False [])),
                  snd (returned (Role_toRdf exampleLibrary exampleRole False [])))"
    by code_simp
  have getter: "Role_identifier exampleLibrary exampleRole
      = Returned (NamedNode ''urn:shaclmate:object:Role:2020-01-01T12:00:00.000Z'')"
    by code_simp
  have quads: "Person_typeQuads exampleLibrary False examplePersonWithRole
      = [Quad (NamedNode ''http://example.com/person'') rdf_type
           (NamedNodeTerm (schema ''Person'')),
         Quad (NamedNode ''http://example.com/role'') rdf_type
           (NamedNodeTerm (schema ''Role''))]"
    "Person_typeQuads exampleLibrary True examplePersonWithRole
      = [Quad (NamedNode ''http://example.com/role'') rdf_type
           (NamedNodeTerm (schema ''Role''))]"
    by code_simp+
  have pid: "Person_identifier examplePersonWithRole = NamedNode ''http://example.com/person''"
    by (simp add: examplePersonWithRole_def)
  note false = toRdf_adds_own_rdf_type_once
    [where lib = exampleLibrary and person = examplePersonWithRole and b = False
      and ds = "[]" and role = exampleRole
      and p = "fst (returned (Person_toRdf exampleLibrary examplePersonWithRole False []))"
      and ds'' = "snd (returned (Person_toRdf exampleLibrary examplePersonWithRole False []))"
      and r = "fst (returned (Role_toRdf exampleLibrary exampleRole False []))"
      and ds' = "snd (returned (Role_toRdf exampleLibrary exampleRole False []))"]
  note true = toRdf_adds_own_rdf_type_once
    [where lib = exampleLibrary and person = examplePersonWithRole and b = True
      and ds = "[]"
      and p = "fst (returned (Person_toRdf exampleLibrary examplePersonWithRole True []))"
      and ds'' = "snd (returned (Person_toRdf exampleLibrary examplePersonWithRole True []))"]
  have "typeQuads (snd (returned (Person_toRdf exampleLibrary examplePersonWithRole False [])))
      = typeQuads [] @ Person_typeQuads exampleLibrary False examplePersonWithRole"
    using false run [of False] by blast
  moreover have
    "typeQuads (snd (returned (Person_toRdf exampleLibrary examplePersonWithRole True [])))
      = typeQuads [] @ Person_typeQuads exampleLibrary True examplePersonWithRole"
    using true run [of True] by blast
  moreover have
    "fst (returned (Person_toRdf exampleLibrary examplePersonWithRole False []))
       = Person_identifier examplePersonWithRole
     \<and> count_list (snd (returned (Person_toRdf exampleLibrary examplePersonWithRole False [])))
         (Quad (fst (returned (Person_toRdf exampleLibrary examplePersonWithRole False [])))
            rdf_type (NamedNodeTerm (schema ''Person'')))
       = count_list []
           (Quad (fst (returned (Person_toRdf exampleLibrary examplePersonWithRole False [])))
              rdf_type (NamedNodeTerm (schema ''Person'')))
         + (if False then 0 else 1)"
    using false run [of False] by blast
  moreover have
    "Role_identifier exampleLibrary exampleRole
       = Returned (fst (returned (Role_toRdf exampleLibrary exampleRole False [])))
     \<and> typeQuads (snd (returned (Role_toRdf exampleLibrary exampleRole False [])))
       = typeQuads []
         @ ownTypeQuad False (fst (returned (Role_toRdf exampleLibrary exampleRole False [])))
             ''Role''"
    using false role by blast
  ultimately show ?thesis
    using quads pid getter by (auto simp: typeQuads_def ownTypeQuad_def)
qed

section \<open>The decoder of hasOccupation from RDF\<close>

lemma returnIfLeft_Inr [simp]: "returnIfLeft (Inr x) rest = rest x"
  by (simp add: returnIfLeft_def)

lemma returnIfLeft_Inl [simp]: "returnIfLeft (Inl e) rest = Returned (Inl e)"
  by (simp add: returnIfLeft_def)

lemma callThenReturnIfLeft_Returned [simp]:
  "callThenReturnIfLeft (Returned e) rest = returnIfLeft e rest"
  by (simp add: callThenReturnIfLeft_def)

lemma mapRight_Returned [simp]: "mapRight f (Returned e) = Returned (map_sum id f e)"
  by (simp add: mapRight_def)

lemma Thing_propertiesFromRdf_returns:
  "\<exists>t. Thing_propertiesFromRdf lib b ds r = Returned (Inr (r, t))"
  by (simp add: Thing_propertiesFromRdf_def)

lemma Intangible_propertiesFromRdf_returns:
  "\<exists>t. Intangible_propertiesFromRdf lib b ds r = Returned (Inr (r, t))"
  using Thing_propertiesFromRdf_returns [of lib True ds r]
  by (auto simp: Intangible_propertiesFromRdf_def)

text \<open>
  With \<^verbatim>\<open>ignoreRdfType: true\<close> the decoder of \<^verbatim>\<open>Occupation\<close> returns a \<^verbatim>\<open>Right\<close> on every
  named resource, so a named node among the values of \<^verbatim>\<open>hasOccupation\<close> is always
  decoded as an occupation and the decoder of \<^verbatim>\<open>Role\<close> is not consulted.
\<close>

lemma Occupation_fromRdf_ignoring_type_succeeds:
  "\<exists>v. Occupation_fromRdf lib True ds r = Returned (Inr v)"
  using Intangible_propertiesFromRdf_returns [of lib True ds r]
  by (auto simp: Occupation_fromRdf_def Occupation_propertiesFromRdf_def)

lemma hasOccupationFromRdf_named_node:
  "\<exists>v. hasOccupationFromRdf lib ds r (NamedNodeTerm n) = Returned [IsOccupation v]"
  using Occupation_fromRdf_ignoring_type_succeeds [of lib ds n]
  by (auto simp: hasOccupationFromRdf_def occupationAttempt_def head_def chain_def
      toNamedResource_def chainCall_def altLazy_def toMaybe_def maybeToList_def)

text \<open>
  C1, at a person whose \<^verbatim>\<open>hasOccupation\<close> holds a role: \<^verbatim>\<open>fromRdf(toRdf(x))\<close> succeeds, but
  the role comes back as an occupation and the result is not equal to \<open>x\<close>.
\<close>

theorem Person_rdf_round_trip_turns_Role_into_Occupation:
  "(case Person_toRdf exampleLibrary examplePersonWithRole False [] of
      Returned (resource, dataset) \<Rightarrow>
        (case Person_fromRdf exampleLibrary False dataset resource of
           Returned (Inr decoded) \<Rightarrow>
             Some (map OccupationOrRole_type (hasOccupation decoded),
                   Person_equals exampleLibrary decoded examplePersonWithRole,
                   Person_equals exampleLibrary examplePersonWithRole decoded)
         | _ \<Rightarrow> None)
    | Threw \<Rightarrow> None)
   = Some ([''Occupation''],
           Returned (Inl (Property ''hasOccupation''
                            (ArrayElement 0 [Property ''type'' BooleanEquals]))),
           Returned (Inl (Property ''hasOccupation''
                            (ArrayElement 0 [Property ''type'' BooleanEquals]))))"
  by code_simp

section \<open>The order of the decoders of hasOccupation\<close>

lemma hasOccupationFromRdf_order:
  "hasOccupationFromRdf lib ds r item =
     (case occupationAttempt lib ds r item of
        Threw \<Rightarrow> Threw
      | Returned (Inr v) \<Rightarrow> Returned [v]
      | Returned (Inl e) \<Rightarrow>
          (case roleAttempt lib ds r item of
             Threw \<Rightarrow> Threw
           | Returned (Inr w) \<Rightarrow> Returned [w]
           | Returned (Inl e') \<Rightarrow> Returned []))"
  by (cases "occupationAttempt lib ds r item"; cases "roleAttempt lib ds r item")
     (auto simp: hasOccupationFromRdf_def altLazy_def toMaybe_def maybeToList_def
      split: Outcome.splits sum.splits)

lemma hasOccupationFromJson_dispatch:
  "hasOccupationFromJson item =
     (if asString (get item ''type'') = ''Role''
      then (case Role_fromJson item of
              Returned (Inr v) \<Rightarrow> Returned (IsRole v) | _ \<Rightarrow> Threw)
      else (case Occupation_fromJson item of
              Returned (Inr v) \<Rightarrow> Returned (IsOccupation v) | _ \<Rightarrow> Threw))"
  by (simp add: hasOccupationFromJson_def split: Outcome.splits sum.splits)

lemma Person_fromRdf_hasOccupation:
  assumes "Person_fromRdf lib b ds r = Returned (Inr p)"
  shows "\<exists>xs. mapOutcome (hasOccupationFromRdf lib ds r) (valuesOf lib ds r (schema ''hasOccupation''))
            = Returned xs \<and> hasOccupation p = concat xs"
  using assms Thing_propertiesFromRdf_returns [of lib True ds r]
  by (auto simp: Person_fromRdf_def Person_propertiesFromRdf_def mapRight_def
      andThen_Returned_iff Thing.defs Person.defs split: if_splits sum.splits)

lemma Person_fromJson_hasOccupation:
  assumes "Person_fromJson lib j = Returned (Inr p)"
  shows "mapOutcome hasOccupationFromJson
           (asArray (get (strip personJsonZodSchema j) ''hasOccupation''))
         = Returned (hasOccupation p)"
  using assms
  by (auto simp: Person_fromJson_def Person_propertiesFromJson_def mapRight_def safeParse_def
      callThenReturnIfLeft_def returnIfLeft_def
      andThen_Returned_iff Thing.defs Person.defs Let_def split: if_splits sum.splits)


text \<open>
  C8. Each value of \<^verbatim>\<open>hasOccupation\<close> is decoded from RDF by the decoder of
  \<^verbatim>\<open>Occupation\<close> first; the decoder of \<^verbatim>\<open>Role\<close> is consulted only when the first returned
  a \<^verbatim>\<open>Left\<close>, and the first \<^verbatim>\<open>Right\<close> is the result (none, when both fail). The
  property of a decoded person is made of these results, in the order of the values.
  From JSON the decoder is chosen by the \<^verbatim>\<open>type\<close> of the element: that of \<^verbatim>\<open>Role\<close> when it
  is \<^verbatim>\<open>"Role"\<close>, that of \<^verbatim>\<open>Occupation\<close> otherwise, and the property of a decoded person
  is the list of these results.
\<close>

theorem hasOccupation_decoders_in_preference_order:
  "hasOccupationFromRdf lib ds r item =
     (case occupationAttempt lib ds r item of
        Threw \<Rightarrow> Threw
      | Returned (Inr v) \<Rightarrow> Returned [v]
      | Returned (Inl e) \<Rightarrow>
          (case roleAttempt lib ds r item of
             Threw \<Rightarrow> Threw
           | Returned (Inr w) \<Rightarrow> Returned [w]
           | Returned (Inl e') \<Rightarrow> Returned []))
   \<and> (Person_fromRdf lib b ds r = Returned (Inr p) \<longrightarrow>
        (\<exists>xs. mapOutcome (hasOccupationFromRdf lib ds r)
                (valuesOf lib ds r (schema ''hasOccupation'')) = Returned xs
              \<and> hasOccupation p = concat xs))
   \<and> hasOccupationFromJson element =
       (if asString (get element ''type'') = ''Role''
        then (case Role_fromJson element of
                Returned (Inr v) \<Rightarrow> Returned (IsRole v) | _ \<Rightarrow> Threw)
        else (case Occupation_fromJson element of
                Returned (Inr v) \<Rightarrow> Returned (IsOccupation v) | _ \<Rightarrow> Threw))
   \<and> (Person_fromJson lib json = Returned (Inr q) \<longrightarrow>
        mapOutcome hasOccupationFromJson
          (asArray (get (strip personJsonZodSchema json) ''hasOccupation''))
        = Returned (hasOccupation q))"
  using hasOccupationFromRdf_order [of lib ds r item]
    Person_fromRdf_hasOccupation [of lib b ds r p]
    hasOccupationFromJson_dispatch [of element]
    Person_fromJson_hasOccupation [of lib json q]
  by blast

theorem hasOccupation_decoders_in_preference_order_witness:
  "Person_fromRdf exampleLibrary False
       (snd (returned (Person_toRdf exampleLibrary examplePersonWithRole False [])))
       (NamedNode ''http://example.com/person'')
     = Returned (Inr (examplePersonWithRole
         \<lparr> hasOccupation :=
             [IsOccupation
                \<lparr> description = None, identifiers = [], name = Some ''Chair'', sameAs = [],
                  url = None,
                  Occupation_identifier = NamedNode ''http://example.com/role'' \<rparr>] \<rparr>))
   \<and> (\<exists>xs. mapOutcome
               (hasOccupationFromRdf exampleLibrary
                  (snd (returned (Person_toRdf exampleLibrary examplePersonWithRole False [])))
                  (NamedNode ''http://example.com/person''))
               (valuesOf exampleLibrary
                  (snd (returned (Person_toRdf exampleLibrary examplePersonWithRole False [])))
                  (NamedNode ''http://example.com/person'') (schema ''hasOccupation''))
             = Returned xs
           \<and> [IsOccupation
                \<lparr> description = None, identifiers = [], name = Some ''Chair'', sameAs = [],
                  url = None,
                  Occupation_identifier = NamedNode ''http://example.com/role'' \<rparr>]
             = concat xs)
   \<and> Person_fromJson exampleLibrary
         (returned (Person_toJson exampleLibrary examplePersonWithRole))
     = Returned (Inr examplePersonWithRole)
   \<and> mapOutcome hasOccupationFromJson
        (asArray (get (strip personJsonZodSchema
                         (returned (Person_toJson exampleLibrary examplePersonWithRole)))
                    ''hasOccupation''))
     = Returned [IsRole exampleRoleWithIdentifier]"
proof -
  let ?ds = "snd (returned (Person_toRdf exampleLibrary examplePersonWithRole False []))"
  let ?r = "NamedNode ''http://example.com/person''"
  let ?p = "examplePersonWithRole
         \<lparr> hasOccupation :=
             [IsOccupation
                \<lparr> description = None, identifiers = [], name = Some ''Chair'', sameAs = [],
                  url = None,
                  Occupation_identifier = NamedNode ''http://example.com/role'' \<rparr>] \<rparr>"
  have rdf: "Person_fromRdf exampleLibrary False ?ds ?r = Returned (Inr ?p)"
    by code_simp
  have json: "Person_fromJson exampleLibrary
                (returned (Person_toJson exampleLibrary examplePersonWithRole))
                = Returned (Inr examplePersonWithRole)"
    by code_simp
  have p: "hasOccupation ?p = [IsOccupation
                \<lparr> description = None, identifiers = [], name = Some ''Chair'', sameAs = [],
                  url = None,
                  Occupation_identifier = NamedNode ''http://example.com/role'' \<rparr>]"
    by simp
  have q: "hasOccupation examplePersonWithRole = [IsRole exampleRoleWithIdentifier]"
    by (simp add: examplePersonWithRole_def)
  from hasOccupation_decoders_in_preference_order
         [of exampleLibrary ?ds ?r "NamedNodeTerm ?r" False ?p JNull
             "returned (Person_toJson exampleLibrary examplePersonWithRole)"
             examplePersonWithRole]
       rdf json p q
  show ?thesis by simp
qed

section \<open>The decoders never throw\<close>

lemma safeParse_valid: "validValue s j \<Longrightarrow> safeParse s j = Inr (strip s j)"
  by (simp add: safeParse_def)

lemma safeParse_invalid:
  "\<not> validValue s j \<Longrightarrow> safeParse s j = Inl (ZodError (issuesOf s [] j))"
  by (simp add: safeParse_def)

lemma map_of_stripped:
  assumes "distinct (map fst shape)"
  shows "map_of (concat (map (\<lambda>(k, s). case map_of kvs k of
                                         None \<Rightarrow> []
                                       | Some v \<Rightarrow> [(k, strip s v)]) shape)) k
       = (case map_of shape k of None \<Rightarrow> None | Some s \<Rightarrow> map_option (strip s) (map_of kvs k))"
  using assms
proof (induction shape)
  case Nil
  show ?case by simp
next
  case (Cons e shape)
  obtain k' s' where e: "e = (k', s')" by (cases e)
  from Cons.prems e have notin: "k' \<notin> fst ` set shape" and dist: "distinct (map fst shape)"
    by auto
  from notin have none: "map_of shape k' = None"
    by (simp add: map_of_eq_None_iff)
  show ?case
  proof (cases "k = k'")
    case True
    with Cons.IH [OF dist] none e show ?thesis
      by (cases "map_of kvs k'") simp_all
  next
    case False
    with Cons.IH [OF dist] e show ?thesis
      by (cases "map_of kvs k'") simp_all
  qed
qed

lemma concat_unique:
  "distinct (map f xs) \<Longrightarrow> x \<in> set xs \<Longrightarrow> f x = a
     \<Longrightarrow> concat (map (\<lambda>option. if f option = a then [g option] else []) xs) = [g x]"
proof (induction xs)
  case Nil
  then show ?case by simp
next
  case (Cons y ys)
  show ?case
  proof (cases "x = y")
    case True
    from Cons.prems True have "f y \<notin> f ` set ys" and a: "a = f y"
      by auto
    then have "\<forall>z \<in> set ys. f z \<noteq> a"
      by (metis imageI)
    then have "concat (map (\<lambda>option. if f option = a then [g option] else []) ys) = []"
      by (induction ys) auto
    with True Cons.prems show ?thesis by simp
  next
    case False
    with Cons.prems have "x \<in> set ys" "f y \<noteq> a" "distinct (map f ys)"
      by auto
    with Cons.IH Cons.prems show ?thesis by simp
  qed
qed

lemma validValue_ZObject_JObject:
  "validValue (ZObject shape) j \<Longrightarrow> \<exists>kvs. j = JObject kvs"
  by (cases j) simp_all

lemma validValue_field:
  "validValue (ZObject shape) j \<Longrightarrow> (k, s) \<in> set shape
     \<Longrightarrow> (case field j k of None \<Rightarrow> isOptional s | Some v \<Rightarrow> validValue s v)"
  by (cases j) (auto simp: list_all_iff)

lemma strip_valid: "wfSchema s \<Longrightarrow> validValue s v \<Longrightarrow> validValue s (strip s v)"
proof (induction s arbitrary: v)
  case (ZString checks)
  then show ?case by simp
next
  case ZNumber
  then show ?case by simp
next
  case (ZEnum vs)
  then show ?case by simp
next
  case (ZLiteral l)
  then show ?case by simp
next
  case (ZOptional s)
  then show ?case by simp
next
  case (ZArray s)
  then show ?case by (cases v) (auto simp: list_all_iff)
next
  case (ZObject shape)
  from ZObject.prems obtain kvs where v: "v = JObject kvs"
    using validValue_ZObject_JObject by blast
  from ZObject.prems have dist: "distinct (map fst shape)" by simp
  let ?kvs' = "concat (map (\<lambda>(k, s). case map_of kvs k of
                                         None \<Rightarrow> []
                                       | Some v \<Rightarrow> [(k, strip s v)]) shape)"
  have "case map_of ?kvs' k of None \<Rightarrow> isOptional s | Some x \<Rightarrow> validValue s x"
    if ks: "(k, s) \<in> set shape" for k s
  proof -
    from dist ks have m: "map_of shape k = Some s" by simp
    from ZObject.prems ks have wf: "wfSchema s" by (auto simp: list_all_iff)
    from ZObject.prems(2) ks v
    have old: "case map_of kvs k of None \<Rightarrow> isOptional s | Some x \<Rightarrow> validValue s x"
      by (auto simp: list_all_iff)
    have ih: "validValue s x \<Longrightarrow> validValue s (strip s x)" for x
      using ZObject.IH [of "(k, s)" s x] ks wf by simp
    from old ih show ?thesis
      by (cases "map_of kvs k") (simp_all add: map_of_stripped [OF dist] m)
  qed
  then show ?case
    using v by (auto simp: list_all_iff)
next
  case (ZDiscriminatedUnion d options)
  from ZDiscriminatedUnion.prems(2) obtain l where l: "field v d = Some (JString l)"
    by (auto split: option.splits Json.splits)
  with ZDiscriminatedUnion.prems(2) obtain option where
    option: "option \<in> set options" "discriminatorValue d option = Some l" "validValue option v"
    by (auto simp: list_ex_iff)
  from ZDiscriminatedUnion.prems(1) have dist: "distinct (map (discriminatorValue d) options)"
    and wf: "wfSchema option" using option(1) by (auto simp: list_all_iff)
  have s: "strip (ZDiscriminatedUnion d options) v = strip option v"
    using l concat_unique [OF dist option(1) option(2), of "\<lambda>option. strip option v"]
    by simp
  from option(2) obtain shape where shape: "option = ZObject shape"
      and lit: "map_of shape d = Some (ZLiteral l)"
    by (cases option) (auto split: option.splits Schema.splits)
  from option(3) shape obtain kvs where v: "v = JObject kvs"
    using validValue_ZObject_JObject by blast
  from wf shape have distk: "distinct (map fst shape)" by simp
  have f: "field (strip option v) d = Some (JString l)"
    using l v shape lit by (simp add: map_of_stripped [OF distk])
  have "validValue option (strip option v)"
    using ZDiscriminatedUnion.IH [OF option(1) wf option(3)] .
  with f option show ?case
    unfolding s by (auto simp: list_ex_iff)
qed


lemma weaker_valid_neq:
  "sa \<noteq> sb \<Longrightarrow> weaker sa sb \<Longrightarrow> validValue sa v \<Longrightarrow> validValue sb (strip sa v)"
  by (induction sa sb rule: weaker.induct)
     (auto simp: list_all_iff split: Json.splits)

lemma weaker_valid:
  "wfSchema sa \<Longrightarrow> weaker sa sb \<Longrightarrow> validValue sa v \<Longrightarrow> validValue sb (strip sa v)"
  by (cases "sa = sb") (simp_all add: strip_valid weaker_valid_neq)

lemma weaker_optional: "weaker sa sb \<Longrightarrow> isOptional sa \<Longrightarrow> isOptional sb"
  by (induction sa sb rule: weaker.induct) auto

lemma extends_valid:
  assumes "extends a b" "validValue a j"
  shows "validValue b (strip a j)"
proof -
  from assms(1) obtain A B where a: "a = ZObject A" and b: "b = ZObject B"
    by (cases a; cases b) simp_all
  from assms(2) a obtain kvs where j: "j = JObject kvs"
    using validValue_ZObject_JObject by blast
  from assms(1) a b have dist: "distinct (map fst A)" by simp
  let ?kvs' = "concat (map (\<lambda>(k, s). case map_of kvs k of
                                         None \<Rightarrow> []
                                       | Some v \<Rightarrow> [(k, strip s v)]) A)"
  have "case map_of ?kvs' k of None \<Rightarrow> isOptional sb | Some x \<Rightarrow> validValue sb x"
    if ks: "(k, sb) \<in> set B" for k sb
  proof -
    from assms(1) a b ks obtain sa where sa: "map_of A k = Some sa" and w: "weaker sa sb"
      by (auto simp: list_all_iff split: option.splits)
    from sa have mem: "(k, sa) \<in> set A" by (rule map_of_SomeD)
    with assms(1) a b have wf: "wfSchema sa" by (auto simp: list_all_iff)
    from assms(2) a j mem
    have old: "case map_of kvs k of None \<Rightarrow> isOptional sa | Some x \<Rightarrow> validValue sa x"
      by (auto simp: list_all_iff)
    show ?thesis
      using old weaker_valid [OF wf w] weaker_optional [OF w]
      by (cases "map_of kvs k") (simp_all add: map_of_stripped [OF dist] sa)
  qed
  then show ?thesis
    using a b j by (auto simp: list_all_iff)
qed

lemma extends_intangible_thing: "extends intangibleJsonZodSchema thingJsonZodSchema"
  by code_simp

lemma extends_structuredValue_intangible:
  "extends structuredValueJsonZodSchema intangibleJsonZodSchema"
  by code_simp

lemma extends_enumeration_intangible:
  "extends enumerationJsonZodSchema intangibleJsonZodSchema"
  by code_simp

lemma extends_role_intangible: "extends roleJsonZodSchema intangibleJsonZodSchema"
  by code_simp

lemma extends_occupation_intangible: "extends occupationJsonZodSchema intangibleJsonZodSchema"
  by code_simp

lemma extends_organization_thing: "extends organizationJsonZodSchema thingJsonZodSchema"
  by code_simp

lemma extends_quantitiveValue_structuredValue:
  "extends quantitiveValueJsonZodSchema structuredValueJsonZodSchema"
  by code_simp

lemma extends_creativeWork_thing: "extends creativeWorkJsonZodSchema thingJsonZodSchema"
  by code_simp

lemma extends_mediaObject_creativeWork:
  "extends mediaObjectJsonZodSchema creativeWorkJsonZodSchema"
  by code_simp

lemma extends_imageObject_mediaObject:
  "extends imageObjectJsonZodSchema mediaObjectJsonZodSchema"
  by code_simp

lemma extends_genderType_enumeration:
  "extends genderTypeJsonZodSchema enumerationJsonZodSchema"
  by code_simp

lemma extends_person_thing: "extends personJsonZodSchema thingJsonZodSchema"
  by code_simp

lemma Thing_json_valid:
  "validValue thingJsonZodSchema j \<Longrightarrow> \<exists>r. Thing_propertiesFromJson j = Returned (Inr r)"
  by (simp add: Thing_propertiesFromJson_def safeParse_valid Let_def)

lemma Intangible_json_valid:
  assumes "validValue intangibleJsonZodSchema j"
  shows "\<exists>r. Intangible_propertiesFromJson j = Returned (Inr r)"
proof -
  obtain r where "Thing_propertiesFromJson (strip intangibleJsonZodSchema j) = Returned (Inr r)"
    using Thing_json_valid [OF extends_valid [OF extends_intangible_thing assms]] by blast
  then show ?thesis
    using assms
    by (cases r) (simp add: Intangible_propertiesFromJson_def safeParse_valid Let_def)
qed

lemma StructuredValue_json_valid:
  assumes "validValue structuredValueJsonZodSchema j"
  shows "\<exists>r. StructuredValue_propertiesFromJson j = Returned (Inr r)"
proof -
  obtain r where
    "Intangible_propertiesFromJson (strip structuredValueJsonZodSchema j) = Returned (Inr r)"
    using Intangible_json_valid [OF extends_valid [OF extends_structuredValue_intangible assms]]
    by blast
  then show ?thesis
    using assms
    by (cases r) (simp add: StructuredValue_propertiesFromJson_def safeParse_valid Let_def)
qed

lemma Enumeration_json_valid:
  assumes "validValue enumerationJsonZodSchema j"
  shows "\<exists>r. Enumeration_propertiesFromJson j = Returned (Inr r)"
proof -
  obtain r where
    "Intangible_propertiesFromJson (strip enumerationJsonZodSchema j) = Returned (Inr r)"
    using Intangible_json_valid [OF extends_valid [OF extends_enumeration_intangible assms]]
    by blast
  then show ?thesis
    using assms
    by (cases r) (simp add: Enumeration_propertiesFromJson_def safeParse_valid Let_def)
qed

lemma Role_json_valid:
  assumes "validValue roleJsonZodSchema j"
  shows "\<exists>r. Role_fromJson j = Returned (Inr r)"
proof -
  obtain r where
    "Intangible_propertiesFromJson (strip roleJsonZodSchema j) = Returned (Inr r)"
    using Intangible_json_valid [OF extends_valid [OF extends_role_intangible assms]]
    by blast
  then show ?thesis
    using assms
    by (cases r)
       (simp add: Role_fromJson_def Role_propertiesFromJson_def safeParse_valid Let_def)
qed

lemma Occupation_json_valid:
  assumes "validValue occupationJsonZodSchema j"
  shows "\<exists>r. Occupation_fromJson j = Returned (Inr r)"
proof -
  obtain r where
    "Intangible_propertiesFromJson (strip occupationJsonZodSchema j) = Returned (Inr r)"
    using Intangible_json_valid [OF extends_valid [OF extends_occupation_intangible assms]]
    by blast
  then show ?thesis
    using assms
    by (cases r)
       (simp add: Occupation_fromJson_def Occupation_propertiesFromJson_def safeParse_valid
          Let_def)
qed

lemma Organization_json_valid:
  assumes "validValue organizationJsonZodSchema j"
  shows "\<exists>r. Organization_fromJson j = Returned (Inr r)"
proof -
  obtain r where
    "Thing_propertiesFromJson (strip organizationJsonZodSchema j) = Returned (Inr r)"
    using Thing_json_valid [OF extends_valid [OF extends_organization_thing assms]]
    by blast
  then show ?thesis
    using assms
    by (cases r)
       (simp add: Organization_fromJson_def Organization_propertiesFromJson_def
          safeParse_valid Let_def)
qed

lemma QuantitiveValue_json_valid:
  assumes "validValue quantitiveValueJsonZodSchema j"
  shows "\<exists>r. QuantitiveValue_fromJson j = Returned (Inr r)"
proof -
  obtain r where
    "StructuredValue_propertiesFromJson (strip quantitiveValueJsonZodSchema j)
       = Returned (Inr r)"
    using StructuredValue_json_valid [OF extends_valid [OF extends_quantitiveValue_structuredValue assms]]
    by blast
  then show ?thesis
    using assms
    by (cases r)
       (simp add: QuantitiveValue_fromJson_def QuantitiveValue_propertiesFromJson_def
          safeParse_valid Let_def)
qed

lemma GenderType_json_valid:
  assumes "validValue genderTypeJsonZodSchema j"
  shows "\<exists>r. GenderType_fromJson j = Returned (Inr r)"
proof -
  obtain r where
    "Enumeration_propertiesFromJson (strip genderTypeJsonZodSchema j) = Returned (Inr r)"
    using Enumeration_json_valid [OF extends_valid [OF extends_genderType_enumeration assms]]
    by blast
  then show ?thesis
    using assms
    by (cases r)
       (simp add: GenderType_fromJson_def GenderType_propertiesFromJson_def
          safeParse_valid Let_def)
qed

lemma CreativeWork_json_valid:
  assumes "validValue creativeWorkJsonZodSchema j"
  shows "\<exists>r. CreativeWork_propertiesFromJson j = Returned (Inr r)"
proof -
  obtain r where
    "Thing_propertiesFromJson (strip creativeWorkJsonZodSchema j) = Returned (Inr r)"
    using Thing_json_valid [OF extends_valid [OF extends_creativeWork_thing assms]]
    by blast
  then show ?thesis
    using assms
    by (cases r)
       (simp add: CreativeWork_propertiesFromJson_def safeParse_valid Let_def)
qed

lemma mediaObjectSchema:
  "mediaObjectJsonZodSchema = ZObject
     [(''description'', ZOptional (ZString [])),
      (''@id'', ZString [Min 1]),
      (''identifiers'', ZArray (ZString [])),
      (''name'', ZOptional (ZString [])),
      (''sameAs'', ZArray referenceSchema),
      (''type'', ZLiteral ''ImageObject''),
      (''url'', ZOptional referenceSchema),
      (''isBasedOn'', ZArray referenceSchema),
      (''contentUrl'', ZOptional referenceSchema),
      (''encodingFormat'', ZOptional (ZString [])),
      (''height'', ZOptional quantitiveValueJsonZodSchema),
      (''width'', ZOptional quantitiveValueJsonZodSchema)]"
  by (simp add: mediaObjectJsonZodSchema_def creativeWorkJsonZodSchema_def
      thingJsonZodSchema_def)

lemma wfSchema_mediaObject: "wfSchema mediaObjectJsonZodSchema"
  by code_simp

lemma validValue_field_of:
  "validValue s j \<Longrightarrow> s = ZObject shape \<Longrightarrow> (k, t) \<in> set shape
     \<Longrightarrow> (case field j k of None \<Rightarrow> isOptional t | Some v \<Rightarrow> validValue t v)"
  using validValue_field by blast

lemma nested_QuantitiveValue:
  assumes "case field j k of None \<Rightarrow> True | Some v \<Rightarrow> validValue quantitiveValueJsonZodSchema v"
  shows "\<exists>h. mapOutcomeOption (\<lambda>item. andThen (QuantitiveValue_fromJson item) unsafeCoerce)
               (field j k) = Returned h"
proof (cases "field j k")
  case None
  then show ?thesis by simp
next
  case (Some v)
  with assms obtain r where "QuantitiveValue_fromJson v = Returned (Inr r)"
    using QuantitiveValue_json_valid by fastforce
  with Some show ?thesis by simp
qed

lemma MediaObject_json_valid:
  assumes "validValue mediaObjectJsonZodSchema j"
  shows "\<exists>r. MediaObject_propertiesFromJson j = Returned (Inr r)"
proof -
  let ?o = "strip mediaObjectJsonZodSchema j"
  obtain r where r: "CreativeWork_propertiesFromJson ?o = Returned (Inr r)"
    using CreativeWork_json_valid [OF extends_valid [OF extends_mediaObject_creativeWork assms]]
    by blast
  have valid: "validValue mediaObjectJsonZodSchema ?o"
    using strip_valid [OF wfSchema_mediaObject assms] .
  have "case field ?o ''height'' of None \<Rightarrow> True
        | Some v \<Rightarrow> validValue quantitiveValueJsonZodSchema v"
    using validValue_field_of [OF valid mediaObjectSchema,
        of "''height''" "ZOptional quantitiveValueJsonZodSchema"]
    by (simp split: option.splits)
  then obtain h where h: "mapOutcomeOption
      (\<lambda>item. andThen (QuantitiveValue_fromJson item) unsafeCoerce) (field ?o ''height'')
      = Returned h"
    using nested_QuantitiveValue by blast
  have "case field ?o ''width'' of None \<Rightarrow> True
        | Some v \<Rightarrow> validValue quantitiveValueJsonZodSchema v"
    using validValue_field_of [OF valid mediaObjectSchema,
        of "''width''" "ZOptional quantitiveValueJsonZodSchema"]
    by (simp split: option.splits)
  then obtain w where w: "mapOutcomeOption
      (\<lambda>item. andThen (QuantitiveValue_fromJson item) unsafeCoerce) (field ?o ''width'')
      = Returned w"
    using nested_QuantitiveValue by blast
  show ?thesis
    using assms r h w
    by (cases r)
       (simp add: MediaObject_propertiesFromJson_def safeParse_valid Let_def)
qed

lemma ImageObject_json_valid:
  assumes "validValue imageObjectJsonZodSchema j"
  shows "\<exists>r. ImageObject_fromJson j = Returned (Inr r)"
proof -
  obtain r where
    "MediaObject_propertiesFromJson (strip imageObjectJsonZodSchema j) = Returned (Inr r)"
    using MediaObject_json_valid [OF extends_valid [OF extends_imageObject_mediaObject assms]]
    by blast
  then show ?thesis
    using assms
    by (cases r)
       (simp add: ImageObject_fromJson_def ImageObject_propertiesFromJson_def
          safeParse_valid Let_def)
qed

lemma mapOutcome_returns:
  "(\<And>x. x \<in> set xs \<Longrightarrow> \<exists>y. f x = Returned y) \<Longrightarrow> \<exists>ys. mapOutcome f xs = Returned ys"
proof (induction xs)
  case Nil
  show ?case by simp
next
  case (Cons x xs)
  from Cons.prems obtain y where y: "f x = Returned y" by auto
  from Cons obtain ys where "mapOutcome f xs = Returned ys" by auto
  with y show ?case by simp
qed

lemma personSchema:
  "personJsonZodSchema = ZObject
     [(''description'', ZOptional (ZString [])),
      (''@id'', ZString [Min 1]),
      (''identifiers'', ZArray (ZString [])),
      (''name'', ZOptional (ZString [])),
      (''sameAs'', ZArray referenceSchema),
      (''type'', ZLiteral ''Person''),
      (''url'', ZOptional referenceSchema),
      (''birthDate'', ZOptional (ZString [IsDate])),
      (''familyName'', ZOptional (ZString [])),
      (''gender'', ZOptional genderJsonZodSchema),
      (''givenName'', ZOptional (ZString [])),
      (''hasOccupation'', ZArray hasOccupationJsonZodSchema),
      (''images'', ZArray imageObjectJsonZodSchema),
      (''memberOf'', ZArray referenceSchema)]"
  by (simp add: personJsonZodSchema_def thingJsonZodSchema_def)

lemma wfSchema_person: "wfSchema personJsonZodSchema"
  by code_simp

lemma discriminator_occupation:
  "discriminatorValue ''type'' occupationJsonZodSchema = Some ''Occupation''"
  by code_simp

lemma discriminator_role: "discriminatorValue ''type'' roleJsonZodSchema = Some ''Role''"
  by code_simp

lemma hasOccupationFromJson_valid:
  assumes "validValue hasOccupationJsonZodSchema item"
  shows "\<exists>v. hasOccupationFromJson item = Returned v"
proof -
  from assms obtain l where l: "field item ''type'' = Some (JString l)"
    by (auto simp: hasOccupationJsonZodSchema_def split: option.splits Json.splits)
  with assms have
    "(l = ''Occupation'' \<and> validValue occupationJsonZodSchema item)
     \<or> (l = ''Role'' \<and> validValue roleJsonZodSchema item)"
    by (auto simp: hasOccupationJsonZodSchema_def discriminator_occupation
        discriminator_role)
  then show ?thesis
  proof
    assume a: "l = ''Occupation'' \<and> validValue occupationJsonZodSchema item"
    then obtain r where "Occupation_fromJson item = Returned (Inr r)"
      using Occupation_json_valid by blast
    with a l show ?thesis
      by (simp add: hasOccupationFromJson_def get_def)
  next
    assume a: "l = ''Role'' \<and> validValue roleJsonZodSchema item"
    then obtain r where "Role_fromJson item = Returned (Inr r)"
      using Role_json_valid by blast
    with a l show ?thesis
      by (simp add: hasOccupationFromJson_def get_def)
  qed
qed

lemma required_array:
  assumes "validValue t j" "t = ZObject shape" "(k, ZArray s) \<in> set shape"
  shows "\<exists>xs. get j k = JArray xs \<and> list_all (validValue s) xs"
proof -
  from validValue_field_of [OF assms] obtain v where "field j k = Some v" "validValue (ZArray s) v"
    by (auto split: option.splits)
  then show ?thesis
    by (cases v) (simp_all add: get_def)
qed

lemma Person_json_valid:
  assumes "validValue personJsonZodSchema j"
  shows "\<exists>r. Person_fromJson lib j = Returned (Inr r)"
proof -
  let ?o = "strip personJsonZodSchema j"
  obtain r where r: "Thing_propertiesFromJson ?o = Returned (Inr r)"
    using Thing_json_valid [OF extends_valid [OF extends_person_thing assms]]
    by blast
  have valid: "validValue personJsonZodSchema ?o"
    using strip_valid [OF wfSchema_person assms] .
  obtain os where os: "get ?o ''hasOccupation'' = JArray os"
      "list_all (validValue hasOccupationJsonZodSchema) os"
    using required_array [OF valid personSchema, of "''hasOccupation''"
        hasOccupationJsonZodSchema]
    by auto
  then obtain occupations where
    occupations: "mapOutcome hasOccupationFromJson os = Returned occupations"
    using mapOutcome_returns [of os hasOccupationFromJson] hasOccupationFromJson_valid
    by (auto simp: list_all_iff)
  obtain elements where elements: "get ?o ''images'' = JArray elements"
      "list_all (validValue imageObjectJsonZodSchema) elements"
    using required_array [OF valid personSchema, of "''images''"
        imageObjectJsonZodSchema]
    by auto
  have "\<exists>y. andThen (ImageObject_fromJson x) unsafeCoerce = Returned y" if "x \<in> set elements" for x
  proof -
    from that elements obtain i where "ImageObject_fromJson x = Returned (Inr i)"
      using ImageObject_json_valid by (auto simp: list_all_iff)
    then show ?thesis by simp
  qed
  then obtain images where
    images: "mapOutcome (\<lambda>item. andThen (ImageObject_fromJson item) unsafeCoerce) elements
               = Returned images"
    using mapOutcome_returns [of elements "\<lambda>item. andThen (ImageObject_fromJson item) unsafeCoerce"]
    by auto
  show ?thesis
    using assms r os(1) occupations elements(1) images
    by (cases r)
       (simp add: Person_fromJson_def Person_propertiesFromJson_def safeParse_valid Let_def)
qed

lemma Role_json_invalid:
  "\<not> validValue roleJsonZodSchema j
     \<Longrightarrow> Role_fromJson j = Returned (Inl (ZodError (issuesOf roleJsonZodSchema [] j)))"
  by (simp add: Role_fromJson_def Role_propertiesFromJson_def safeParse_invalid)

lemma Occupation_json_invalid:
  "\<not> validValue occupationJsonZodSchema j
     \<Longrightarrow> Occupation_fromJson j
           = Returned (Inl (ZodError (issuesOf occupationJsonZodSchema [] j)))"
  by (simp add: Occupation_fromJson_def Occupation_propertiesFromJson_def safeParse_invalid)

lemma Organization_json_invalid:
  "\<not> validValue organizationJsonZodSchema j
     \<Longrightarrow> Organization_fromJson j
           = Returned (Inl (ZodError (issuesOf organizationJsonZodSchema [] j)))"
  by (simp add: Organization_fromJson_def Organization_propertiesFromJson_def
      safeParse_invalid)

lemma QuantitiveValue_json_invalid:
  "\<not> validValue quantitiveValueJsonZodSchema j
     \<Longrightarrow> QuantitiveValue_fromJson j
           = Returned (Inl (ZodError (issuesOf quantitiveValueJsonZodSchema [] j)))"
  by (simp add: QuantitiveValue_fromJson_def QuantitiveValue_propertiesFromJson_def
      safeParse_invalid)

lemma ImageObject_json_invalid:
  "\<not> validValue imageObjectJsonZodSchema j
     \<Longrightarrow> ImageObject_fromJson j
           = Returned (Inl (ZodError (issuesOf imageObjectJsonZodSchema [] j)))"
  by (simp add: ImageObject_fromJson_def ImageObject_propertiesFromJson_def
      safeParse_invalid)

lemma GenderType_json_invalid:
  "\<not> validValue genderTypeJsonZodSchema j
     \<Longrightarrow> GenderType_fromJson j
           = Returned (Inl (ZodError (issuesOf genderTypeJsonZodSchema [] j)))"
  by (simp add: GenderType_fromJson_def GenderType_propertiesFromJson_def
      safeParse_invalid)

lemma Person_json_invalid:
  "\<not> validValue personJsonZodSchema j
     \<Longrightarrow> Person_fromJson lib j = Returned (Inl (ZodError (issuesOf personJsonZodSchema [] j)))"
  by (simp add: Person_fromJson_def Person_propertiesFromJson_def safeParse_invalid)

lemma StructuredValue_propertiesFromRdf_returns:
  "\<exists>t. StructuredValue_propertiesFromRdf lib b ds r = Returned (Inr (r, t))"
  using Intangible_propertiesFromRdf_returns [of lib True ds r]
  by (auto simp: StructuredValue_propertiesFromRdf_def)

lemma Enumeration_propertiesFromRdf_returns:
  "\<exists>t. Enumeration_propertiesFromRdf lib b ds r = Returned (Inr (r, t))"
  using Intangible_propertiesFromRdf_returns [of lib True ds r]
  by (auto simp: Enumeration_propertiesFromRdf_def)

lemma Role_fromRdf_returns: "\<exists>e. Role_fromRdf lib b ds r = Returned e"
  using Intangible_propertiesFromRdf_returns [of lib True ds r]
  by (auto simp: Role_fromRdf_def Role_propertiesFromRdf_def)

lemma Occupation_fromRdf_returns: "\<exists>e. Occupation_fromRdf lib b ds r = Returned e"
  using Intangible_propertiesFromRdf_returns [of lib True ds r]
  by (auto simp: Occupation_fromRdf_def Occupation_propertiesFromRdf_def)

lemma Organization_fromRdf_returns: "\<exists>e. Organization_fromRdf lib b ds r = Returned e"
  using Thing_propertiesFromRdf_returns [of lib True ds r]
  by (auto simp: Organization_fromRdf_def Organization_propertiesFromRdf_def)

lemma QuantitiveValue_fromRdf_returns: "\<exists>e. QuantitiveValue_fromRdf lib b ds r = Returned e"
  using StructuredValue_propertiesFromRdf_returns [of lib True ds r]
  by (auto simp: QuantitiveValue_fromRdf_def QuantitiveValue_propertiesFromRdf_def)

lemma GenderType_fromRdf_returns: "\<exists>e. GenderType_fromRdf lib b ds r = Returned e"
  using Enumeration_propertiesFromRdf_returns [of lib True ds r]
  by (auto simp: GenderType_fromRdf_def GenderType_propertiesFromRdf_def)

lemma CreativeWork_propertiesFromRdf_returns:
  "\<exists>t. CreativeWork_propertiesFromRdf lib b ds r = Returned (Inr (r, t))"
  using Thing_propertiesFromRdf_returns [of lib True ds r]
  by (auto simp: CreativeWork_propertiesFromRdf_def)

lemma chainCall_returns:
  "(\<And>r. \<exists>e. f r = Returned e) \<Longrightarrow> \<exists>e. chainCall x f = Returned e"
  by (cases x) (simp_all add: chainCall_def)

lemma MediaObject_propertiesFromRdf_returns:
  "\<exists>e. MediaObject_propertiesFromRdf lib b ds r = Returned e"
proof -
  obtain t where t: "CreativeWork_propertiesFromRdf lib True ds r = Returned (Inr (r, t))"
    using CreativeWork_propertiesFromRdf_returns by blast
  obtain h where h: "chainCall
          (chain (head r (schema ''height'') (valuesOf lib ds r (schema ''height'')))
             (toNamedResource r (schema ''height'')))
          (\<lambda>r. QuantitiveValue_fromRdf lib True ds r) = Returned h"
    using chainCall_returns [of "\<lambda>r. QuantitiveValue_fromRdf lib True ds r"]
      QuantitiveValue_fromRdf_returns by blast
  obtain w where w: "chainCall
          (chain (head r (schema ''width'') (valuesOf lib ds r (schema ''width'')))
             (toNamedResource r (schema ''width'')))
          (\<lambda>r. QuantitiveValue_fromRdf lib True ds r) = Returned w"
    using chainCall_returns [of "\<lambda>r. QuantitiveValue_fromRdf lib True ds r"]
      QuantitiveValue_fromRdf_returns by blast
  show ?thesis
    by (simp add: MediaObject_propertiesFromRdf_def t h w)
qed

lemma ImageObject_fromRdf_returns: "\<exists>e. ImageObject_fromRdf lib b ds r = Returned e"
proof -
  obtain e where e: "MediaObject_propertiesFromRdf lib True ds r = Returned e"
    using MediaObject_propertiesFromRdf_returns by blast
  show ?thesis
    by (cases e) (auto simp: ImageObject_fromRdf_def ImageObject_propertiesFromRdf_def e)
qed

lemma hasOccupationFromRdf_returns: "\<exists>e. hasOccupationFromRdf lib ds r item = Returned e"
proof -
  obtain a0 where "chainCall
          (chain (head r (schema ''hasOccupation'') [item])
             (toNamedResource r (schema ''hasOccupation'')))
          (\<lambda>r. Occupation_fromRdf lib True ds r) = Returned a0"
    using chainCall_returns [of "\<lambda>r. Occupation_fromRdf lib True ds r"]
      Occupation_fromRdf_returns by blast
  then obtain a where a: "occupationAttempt lib ds r item = Returned a"
    by (simp add: occupationAttempt_def)
  obtain c0 where "chainCall
          (chain (head r (schema ''hasOccupation'') [item])
             (toNamedResource r (schema ''hasOccupation'')))
          (\<lambda>r. Role_fromRdf lib True ds r) = Returned c0"
    using chainCall_returns [of "\<lambda>r. Role_fromRdf lib True ds r"]
      Role_fromRdf_returns by blast
  then obtain c where c: "roleAttempt lib ds r item = Returned c"
    by (simp add: roleAttempt_def)
  show ?thesis
    by (cases a) (simp_all add: hasOccupationFromRdf_def a c altLazy_def)
qed

lemma imageFromRdf_returns: "\<exists>e. imageFromRdf lib ds r item = Returned e"
proof -
  obtain a where a: "chainCall
          (chain (head r (schema ''image'') [item]) (toNamedResource r (schema ''image'')))
          (\<lambda>r. ImageObject_fromRdf lib True ds r) = Returned a"
    using chainCall_returns [of "\<lambda>r. ImageObject_fromRdf lib True ds r"]
      ImageObject_fromRdf_returns by blast
  show ?thesis
    by (simp add: imageFromRdf_def a)
qed

lemma Person_fromRdf_returns: "\<exists>e. Person_fromRdf lib b ds r = Returned e"
proof -
  obtain t where t: "Thing_propertiesFromRdf lib True ds r = Returned (Inr (r, t))"
    using Thing_propertiesFromRdf_returns by blast
  obtain os where os: "mapOutcome (hasOccupationFromRdf lib ds r)
                (valuesOf lib ds r (schema ''hasOccupation'')) = Returned os"
    using mapOutcome_returns [of _ "hasOccupationFromRdf lib ds r"]
      hasOccupationFromRdf_returns by blast
  obtain imgs where imgs: "mapOutcome (imageFromRdf lib ds r)
                (valuesOf lib ds r (schema ''image'')) = Returned imgs"
    using mapOutcome_returns [of _ "imageFromRdf lib ds r"]
      imageFromRdf_returns by blast
  show ?thesis
    by (simp add: Person_fromRdf_def Person_propertiesFromRdf_def t os imgs)
qed

text \<open>
  C6. No decoder of a concrete class throws. On every JSON value \<^verbatim>\<open>fromJson\<close> returns: a
  \<^verbatim>\<open>Left\<close> with the error of the schema (a \<^verbatim>\<open>ZodError\<close> with the issues of the value), or a
  \<^verbatim>\<open>Right\<close>; the nested \<^verbatim>\<open>unsafeCoerce\<close> calls (the height and width of an image, the
  occupations, roles and images of a person) are only reached on values that passed the
  schema of the enclosing class and never meet a \<^verbatim>\<open>Left\<close>. On every dataset and named
  resource \<^verbatim>\<open>fromRdf\<close> returns an either whose \<^verbatim>\<open>Left\<close> holds a value error of the
  resource.
\<close>

theorem decoders_never_throw:
  "(Role_fromJson json = Returned (Inl (ZodError (issuesOf roleJsonZodSchema [] json)))
      \<or> (\<exists>x. Role_fromJson json = Returned (Inr x)))
   \<and> (Occupation_fromJson json
        = Returned (Inl (ZodError (issuesOf occupationJsonZodSchema [] json)))
      \<or> (\<exists>x. Occupation_fromJson json = Returned (Inr x)))
   \<and> (Organization_fromJson json
        = Returned (Inl (ZodError (issuesOf organizationJsonZodSchema [] json)))
      \<or> (\<exists>x. Organization_fromJson json = Returned (Inr x)))
   \<and> (QuantitiveValue_fromJson json
        = Returned (Inl (ZodError (issuesOf quantitiveValueJsonZodSchema [] json)))
      \<or> (\<exists>x. QuantitiveValue_fromJson json = Returned (Inr x)))
   \<and> (ImageObject_fromJson json
        = Returned (Inl (ZodError (issuesOf imageObjectJsonZodSchema [] json)))
      \<or> (\<exists>x. ImageObject_fromJson json = Returned (Inr x)))
   \<and> (GenderType_fromJson json
        = Returned (Inl (ZodError (issuesOf genderTypeJsonZodSchema [] json)))
      \<or> (\<exists>x. GenderType_fromJson json = Returned (Inr x)))
   \<and> (Person_fromJson lib json
        = Returned (Inl (ZodError (issuesOf personJsonZodSchema [] json)))
      \<or> (\<exists>x. Person_fromJson lib json = Returned (Inr x)))
   \<and> (\<exists>e. Role_fromRdf lib ignoreRdfType dataset resource = Returned e)
   \<and> (\<exists>e. Occupation_fromRdf lib ignoreRdfType dataset resource = Returned e)
   \<and> (\<exists>e. Organization_fromRdf lib ignoreRdfType dataset resource = Returned e)
   \<and> (\<exists>e. QuantitiveValue_fromRdf lib ignoreRdfType dataset resource = Returned e)
   \<and> (\<exists>e. ImageObject_fromRdf lib ignoreRdfType dataset resource = Returned e)
   \<and> (\<exists>e. GenderType_fromRdf lib ignoreRdfType dataset resource = Returned e)
   \<and> (\<exists>e. Person_fromRdf lib ignoreRdfType dataset resource = Returned e)"
proof -
  have Role: "Role_fromJson json = Returned (Inl (ZodError (issuesOf roleJsonZodSchema [] json)))
      \<or> (\<exists>x. Role_fromJson json = Returned (Inr x))"
    using Role_json_valid Role_json_invalid by blast
  have Occupation: "Occupation_fromJson json
        = Returned (Inl (ZodError (issuesOf occupationJsonZodSchema [] json)))
      \<or> (\<exists>x. Occupation_fromJson json = Returned (Inr x))"
    using Occupation_json_valid Occupation_json_invalid by blast
  have Organization: "Organization_fromJson json
        = Returned (Inl (ZodError (issuesOf organizationJsonZodSchema [] json)))
      \<or> (\<exists>x. Organization_fromJson json = Returned (Inr x))"
    using Organization_json_valid Organization_json_invalid by blast
  have QuantitiveValue: "QuantitiveValue_fromJson json
        = Returned (Inl (ZodError (issuesOf quantitiveValueJsonZodSchema [] json)))
      \<or> (\<exists>x. QuantitiveValue_fromJson json = Returned (Inr x))"
    using QuantitiveValue_json_valid QuantitiveValue_json_invalid by blast
  have ImageObject: "ImageObject_fromJson json
        = Returned (Inl (ZodError (issuesOf imageObjectJsonZodSchema [] json)))
      \<or> (\<exists>x. ImageObject_fromJson json = Returned (Inr x))"
    using ImageObject_json_valid ImageObject_json_invalid by blast
  have GenderType: "GenderType_fromJson json
        = Returned (Inl (ZodError (issuesOf genderTypeJsonZodSchema [] json)))
      \<or> (\<exists>x. GenderType_fromJson json = Returned (Inr x))"
    using GenderType_json_valid GenderType_json_invalid by blast
  have Person: "Person_fromJson lib json
        = Returned (Inl (ZodError (issuesOf personJsonZodSchema [] json)))
      \<or> (\<exists>x. Person_fromJson lib json = Returned (Inr x))"
    using Person_json_valid Person_json_invalid by blast
  show ?thesis
    by (intro conjI Role Occupation Organization QuantitiveValue ImageObject GenderType
        Person Role_fromRdf_returns Occupation_fromRdf_returns Organization_fromRdf_returns
        QuantitiveValue_fromRdf_returns ImageObject_fromRdf_returns
        GenderType_fromRdf_returns Person_fromRdf_returns)
qed

section \<open>Dates written to JSON and read back\<close>

lemma digit_cases:
  assumes "0 \<le> n" "n < 10"
  shows "n \<in> set [0, 1, 2, 3, 4, 5, 6, 7, 8, 9 :: int]"
proof -
  from assms have "n \<in> {0..9}" by simp
  also have "{0..9} = set [0..(9::int)]" by simp
  also have "[0..(9::int)] = [0, 1, 2, 3, 4, 5, 6, 7, 8, 9]" by code_simp
  finally show ?thesis .
qed

lemma digitValue_digit: "0 \<le> n \<Longrightarrow> n < 10 \<Longrightarrow> digitValue (digit n) = Some n"
  using digit_cases [of n] by (auto simp: digitValue_def digit_def)

lemma digit_not_special:
  "0 \<le> n \<Longrightarrow> n < 10 \<Longrightarrow> digit n \<noteq> CHR ''T'' \<and> digit n \<noteq> CHR ''-''"
  using digit_cases [of n] by (auto simp: digit_def)

lemma digitsValue_append:
  "digitsValue acc (xs @ ys) = (case digitsValue acc xs of None \<Rightarrow> None | Some v \<Rightarrow> digitsValue v ys)"
  by (induction xs arbitrary: acc) (auto split: option.splits)

lemma digitsValue_decimal:
  "0 \<le> n \<Longrightarrow> digitsValue acc (decimal k n) = Some (acc * 10 ^ k + n mod 10 ^ k)"
proof (induction k arbitrary: n acc)
  case 0
  then show ?case by simp
next
  case (Suc k)
  have d: "digitValue (digit (n mod 10)) = Some (n mod 10)"
    by (rule digitValue_digit) simp_all
  have "0 \<le> n div 10" using Suc.prems by simp
  from Suc.IH [OF this, of acc]
  have "digitsValue acc (decimal (Suc k) n)
      = Some ((acc * 10 ^ k + (n div 10) mod 10 ^ k) * 10 + n mod 10)"
    by (simp add: digitsValue_append d)
  moreover have "(n div 10) mod 10 ^ k * 10 + n mod 10 = n mod 10 ^ Suc k"
  proof -
    have "n mod (10 * 10 ^ k) = 10 * (n div 10 mod 10 ^ k) + n mod 10"
      by (rule zmod_zmult2_eq) simp
    then show ?thesis by simp
  qed
  ultimately show ?case by (simp add: algebra_simps)
qed

lemma length_decimal [simp]: "length (decimal k n) = k"
  by (induction k arbitrary: n) simp_all

lemma decimal_chars:
  "c \<in> set (decimal k n) \<Longrightarrow> c \<noteq> CHR ''T'' \<and> c \<noteq> CHR ''-''"
proof (induction k arbitrary: n)
  case 0
  then show ?case by simp
next
  case (Suc k)
  have "digit (n mod 10) \<noteq> CHR ''T'' \<and> digit (n mod 10) \<noteq> CHR ''-''"
    by (rule digit_not_special) simp_all
  with Suc show ?case by auto
qed

lemma replaceTimeSuffix_append:
  "CHR ''T'' \<notin> set a \<Longrightarrow> list_all (\<lambda>x. \<not> lineTerminator x) b
     \<Longrightarrow> replaceTimeSuffix (a @ CHR ''T'' # b) = a"
  by (induction a) auto

lemma no_lineTerminator_decimal: "list_all (\<lambda>x. \<not> lineTerminator x) (decimal k n)"
proof (induction k arbitrary: n)
  case 0
  show ?case by simp
next
  case (Suc k)
  have "0 \<le> n mod 10" "n mod 10 < 10" by simp_all
  from digit_cases [OF this] have "\<not> lineTerminator (digit (n mod 10))"
    by (auto simp: digit_def lineTerminator_def)
  with Suc show ?case by simp
qed

lemma dateString:
  assumes "0 \<le> year d" "year d \<le> 9999"
  shows "replaceTimeSuffix (isoString d)
     = decimal 4 (year d) @ ''-'' @ decimal 2 (month d) @ ''-'' @ decimal 2 (day d)"
proof -
  let ?a = "decimal 4 (year d) @ ''-'' @ decimal 2 (month d) @ ''-'' @ decimal 2 (day d)"
  let ?b = "decimal 2 (msOfDay d div 3600000) @ '':'' @ decimal 2 (msOfDay d div 60000 mod 60)
     @ '':'' @ decimal 2 (msOfDay d div 1000 mod 60) @ ''.'' @ decimal 3 (msOfDay d mod 1000)
     @ ''Z''"
  have iso: "isoString d = ?a @ CHR ''T'' # ?b"
    using assms by (simp add: isoString_def yearString_def)
  have a: "CHR ''T'' \<notin> set ?a"
    using decimal_chars by auto
  have b: "list_all (\<lambda>x. \<not> lineTerminator x) ?b"
    using no_lineTerminator_decimal by (simp add: lineTerminator_def)
  show ?thesis
    unfolding iso by (rule replaceTimeSuffix_append [OF a b])
qed

lemma parseDateOnly_dateString:
  assumes "dateOnly d"
  shows "parseDateOnly (replaceTimeSuffix (isoString d)) = Some (year d, month d, day d)"
proof -
  from assms have y: "0 \<le> year d" "year d \<le> 9999"
    and m: "1 \<le> month d" "month d \<le> 12"
    and dd: "1 \<le> day d" "day d \<le> daysInMonth (year d) (month d)"
    by (cases d; simp add: dateOnly_def)+
  let ?s = "decimal 4 (year d) @ ''-'' @ decimal 2 (month d) @ ''-'' @ decimal 2 (day d)"
  have s: "replaceTimeSuffix (isoString d) = ?s" using y by (rule dateString)
  have len: "length ?s = 10" by simp
  have n4: "?s ! 4 = CHR ''-''" by (simp add: nth_append)
  have n7: "?s ! 7 = CHR ''-''" by (simp add: nth_append)
  have t4: "take 4 ?s = decimal 4 (year d)" by simp
  have t2: "take 2 (drop 5 ?s) = decimal 2 (month d)" by simp
  have d8: "drop 8 ?s = decimal 2 (day d)" by simp
  have dm: "daysInMonth (year d) (month d) \<le> 31" by (simp add: daysInMonth_def)
  have vy: "digitsValue 0 (decimal 4 (year d)) = Some (year d)"
    using y by (simp add: digitsValue_decimal)
  have vm: "digitsValue 0 (decimal 2 (month d)) = Some (month d)"
    using m by (simp add: digitsValue_decimal)
  have vd: "digitsValue 0 (decimal 2 (day d)) = Some (day d)"
    using dd dm by (simp add: digitsValue_decimal)
  show ?thesis
    unfolding s parseDateOnly_def
    by (simp only: len n4 n7 t4 t2 d8 vy vm vd) (use m dd in simp)
qed

lemma newDate_dateJson:
  "dateOnly d \<Longrightarrow> newDate (asString (dateJson d)) = d"
  by (cases d) (simp_all add: newDate_def dateJson_def parseDateOnly_dateString dateOnly_def)

lemma isDateString_dateJson:
  "dateOnly d \<Longrightarrow> isDateString (asString (dateJson d))"
  by (simp add: isDateString_def dateJson_def parseDateOnly_dateString)

lemma dateOnly_valid: "dateOnly d \<Longrightarrow> validDate d"
  by (simp add: dateOnly_def)

lemma optionally_dateOnly_validDate: "optionally dateOnly m \<Longrightarrow> optionally validDate m"
  by (cases m) (simp_all add: optionally_def dateOnly_def)

lemma dateToJson_valid: "validDate d \<Longrightarrow> dateToJson d = Returned (dateJson d)"
  by (simp add: dateToJson_def dateJson_def toISOString_def)

lemma mapOutcomeOption_dateToJson:
  "optionally validDate m \<Longrightarrow> mapOutcomeOption dateToJson m = Returned (map_option dateJson m)"
  by (cases m) (simp_all add: optionally_def dateToJson_valid)

section \<open>The JSON of a value against the schema of its class\<close>

lemma presentEntries_Nil [simp]: "presentEntries [] = []"
  by (simp add: presentEntries_def)

lemma presentEntries_Cons:
  "presentEntries ((k, v) # es) = (case v of None \<Rightarrow> [] | Some j \<Rightarrow> [(k, j)]) @ presentEntries es"
  by (simp add: presentEntries_def)

lemma presentEntries_append: "presentEntries (a @ b) = presentEntries a @ presentEntries b"
  by (simp add: presentEntries_def)

lemma presentEntries_keys: "k \<notin> fst ` set es \<Longrightarrow> map_of (presentEntries es) k = None"
proof (induction es)
  case Nil
  show ?case by simp
next
  case (Cons e es)
  obtain k' v where e: "e = (k', v)" by (cases e)
  with Cons show ?case
    by (cases v) (auto simp: presentEntries_Cons)
qed

lemma map_of_presentEntries:
  "distinct (map fst es) \<Longrightarrow> map_of (presentEntries es) k = lookupEntry es k"
proof (induction es)
  case Nil
  show ?case by (simp add: lookupEntry_def)
next
  case (Cons e es)
  obtain k' v where e: "e = (k', v)" by (cases e)
  from Cons.prems e have notin: "k' \<notin> fst ` set es" and dist: "distinct (map fst es)"
    by auto
  show ?case
  proof (cases "k = k'")
    case True
    with notin have "map_of (presentEntries es) k = None"
      by (simp add: presentEntries_keys)
    with True e show ?thesis
      by (cases v) (simp_all add: presentEntries_Cons lookupEntry_def)
  next
    case False
    with Cons.IH [OF dist] e show ?thesis
      by (cases v) (simp_all add: presentEntries_Cons lookupEntry_def)
  qed
qed

lemma field_objectLiteral:
  "distinct (map fst es) \<Longrightarrow> field (objectLiteral es) k = lookupEntry es k"
  by (simp add: objectLiteral_def map_of_presentEntries)

lemma validValue_objectLiteral:
  "distinct (map fst es) \<Longrightarrow>
   validValue (ZObject shape) (objectLiteral es)
     = list_all (\<lambda>(k, s). fieldValid s (lookupEntry es k)) shape"
  by (simp add: objectLiteral_def map_of_presentEntries fieldValid_def)

lemma strip_objectLiteral:
  "distinct (map fst es) \<Longrightarrow>
   strip (ZObject shape) (objectLiteral es)
     = objectLiteral (map (\<lambda>(k, s). (k, map_option (strip s) (lookupEntry es k))) shape)"
proof -
  assume d: "distinct (map fst es)"
  have "concat (map (\<lambda>(k, s). case lookupEntry es k of None \<Rightarrow> [] | Some v \<Rightarrow> [(k, strip s v)]) shape)
     = presentEntries (map (\<lambda>(k, s). (k, map_option (strip s) (lookupEntry es k))) shape)"
    by (induction shape) (auto simp: presentEntries_Cons split: option.splits)
  then show ?thesis
    using d by (simp add: objectLiteral_def map_of_presentEntries)
qed

lemma spread_objectLiteral: "spread (objectLiteral a) b = objectLiteral (a @ b)"
  by (simp add: objectLiteral_def presentEntries_append)

lemma fieldValid_simps [simp]:
  "fieldValid s None = isOptional s"
  "fieldValid s (Some j) = validValue s j"
  by (simp_all add: fieldValid_def)

lemma fieldValid_map_option:
  "fieldValid (ZOptional s) (map_option f m) = (case m of None \<Rightarrow> True | Some v \<Rightarrow> validValue s (f v))"
  by (cases m) simp_all

lemma validValue_JArray_map [simp]:
  "validValue (ZArray s) (JArray (map f xs)) = list_all (\<lambda>x. validValue s (f x)) xs"
  by (simp add: list_all_iff)

lemma strip_JArray_map:
  "(\<And>x. x \<in> set xs \<Longrightarrow> strip s (f x) = f x) \<Longrightarrow> strip (ZArray s) (JArray (map f xs)) = JArray (map f xs)"
  by simp

lemma lookupEntry_Cons [simp]:
  "lookupEntry ((k', v) # es) k = (if k = k' then v else lookupEntry es k)"
  by (cases v) (simp_all add: lookupEntry_def)

lemma lookupEntry_Nil [simp]: "lookupEntry [] k = None"
  by (simp add: lookupEntry_def)

lemmas schema_defs = thingJsonZodSchema_def intangibleJsonZodSchema_def
  structuredValueJsonZodSchema_def roleJsonZodSchema_def occupationJsonZodSchema_def
  organizationJsonZodSchema_def quantitiveValueJsonZodSchema_def creativeWorkJsonZodSchema_def
  mediaObjectJsonZodSchema_def imageObjectJsonZodSchema_def enumerationJsonZodSchema_def
  genderTypeJsonZodSchema_def

lemma roleSchema: "roleJsonZodSchema = ZObject
  [(''description'', ZOptional (ZString [])),
   (''@id'', ZString [Min 1]),
   (''identifiers'', ZArray (ZString [])),
   (''name'', ZOptional (ZString [])),
   (''sameAs'', ZArray referenceSchema),
   (''type'', ZLiteral ''Role''),
   (''url'', ZOptional referenceSchema),
   (''endDate'', ZOptional (ZString [IsDate])),
   (''roleName'', ZOptional referenceSchema),
   (''startDate'', ZOptional (ZString [IsDate]))]"
  by (simp add: schema_defs)


section \<open>fromJson after toJson\<close>

lemma optionally_simps [simp]:
  "optionally P None = True"
  "optionally P (Some x) = P x"
  by (simp_all add: optionally_def)

lemma optionally_True [simp]: "optionally (\<lambda>x. True) m"
  by (cases m) simp_all

lemma fieldValid_optional_map:
  "fieldValid (ZOptional s) (map_option f m) = optionally (\<lambda>v. validValue s (f v)) m"
  by (cases m) simp_all

lemma validValue_reference [simp]: "validValue referenceSchema (reference n) = nonEmptyIri n"
  by (cases "iri n") (simp_all add: referenceSchema_def reference_def nonEmptyIri_def)

lemma strip_reference [simp]: "strip referenceSchema (reference n) = reference n"
  by (simp add: referenceSchema_def reference_def)

lemma namedNodeOfReference_reference [simp]: "namedNodeOfReference (reference n) = n"
  by (simp add: namedNodeOfReference_def reference_def get_def)

lemma map_strip_reference [simp]:
  "map (\<lambda>x. strip referenceSchema (reference x)) xs = map reference xs"
  by simp

lemma map_option_cong_optionally:
  "optionally P m \<Longrightarrow> (\<And>x. P x \<Longrightarrow> f x = g x) \<Longrightarrow> map_option f m = map_option g m"
  by (cases m) simp_all

lemma min_length [simp]: "Suc 0 \<le> length xs \<longleftrightarrow> xs \<noteq> []"
  by (cases xs) simp_all

lemma get_objectLiteral:
  "distinct (map fst es) \<Longrightarrow> get (objectLiteral es) k = the (lookupEntry es k)"
  by (simp add: get_def field_objectLiteral)

lemma Thing_toJson_valid:
  assumes "Thing_jsonConstraints i x"
    and "t \<in> set [''GenderType'', ''ImageObject'', ''Occupation'', ''Organization'',
                          ''Person'', ''QuantitiveValue'', ''Role'']"
  shows "validValue thingJsonZodSchema (Thing_toJson i t x)"
  using assms
  by (simp add: Thing_toJson_def thingJsonZodSchema_def validValue_objectLiteral
      fieldValid_optional_map Thing_jsonConstraints_def nonEmptyIri_def list_all_iff
      optionally_def del: validValue.simps(7) split: option.splits)

lemma Thing_toJson_strip:
  "strip thingJsonZodSchema (Thing_toJson i t x) = Thing_toJson i t x"
  by (simp add: Thing_toJson_def thingJsonZodSchema_def strip_objectLiteral
      option.map_comp comp_def option.map_ident del: strip.simps(3))

lemma Thing_propertiesFromJson_toJson:
  assumes "Thing_jsonConstraints i x"
    and "t \<in> set [''GenderType'', ''ImageObject'', ''Occupation'', ''Organization'',
                          ''Person'', ''QuantitiveValue'', ''Role'']"
  shows "Thing_propertiesFromJson (Thing_toJson i t x) = Returned (Inr (i, Thing.truncate x))"
proof -
  have "safeParse thingJsonZodSchema (Thing_toJson i t x) = Inr (Thing_toJson i t x)"
    using Thing_toJson_valid [OF assms] by (simp add: safeParse_valid Thing_toJson_strip)
  then show ?thesis
    by (simp add: Thing_propertiesFromJson_def Thing_toJson_def field_objectLiteral
        get_objectLiteral option.map_comp comp_def option.map_ident Thing.truncate_def)
qed


lemma optionally_dateOnly_valid [simp]:
  "optionally dateOnly m
     \<Longrightarrow> optionally (\<lambda>v. isDateString (replaceTimeSuffix (isoString v))) m"
  using isDateString_dateJson
  by (cases m) (auto simp: dateJson_def)

lemma Role_record:
  "Thing.extend (Thing.truncate r) (Role.fields (endDate r) i (roleName r) (startDate r))
     = r \<lparr> Role__identifier := i \<rparr>"
  by (cases r) (simp add: Thing.defs Role.defs)

lemma Thing_toJson_id [simp]: "NamedNode (asString (get (Thing_toJson i t x) ''@id'')) = i"
  by (simp add: Thing_toJson_def get_objectLiteral)

lemma newDate_read_back:
  "optionally dateOnly m
     \<Longrightarrow> map_option (\<lambda>item. newDate (asString item)) (map_option dateJson m) = m"
  using newDate_dateJson by (cases m) simp_all

lemma strip_dateJson [simp]: "strip (ZString cs) (dateJson d) = dateJson d"
  by (simp add: dateJson_def)

lemma optionally_reference_valid [simp]:
  "optionally (\<lambda>v. validValue referenceSchema (reference v)) m = optionally nonEmptyIri m"
  by (cases m) simp_all

lemma list_all_reference_valid [simp]:
  "list_all (\<lambda>x. validValue referenceSchema (reference x)) xs = list_all nonEmptyIri xs"
  by (simp add: list_all_iff)

lemma Role_json_passes:
  assumes "Role_jsonConstraints lib r"
  shows "validValue roleJsonZodSchema (Role_json lib r)"
  using assms
  by (simp add: Role_json_def Thing_toJson_def spread_objectLiteral roleSchema
      validValue_objectLiteral fieldValid_optional_map Role_jsonConstraints_def
      Thing_jsonConstraints_def Role_type_def nonEmptyIri_def [symmetric] dateJson_def
      list_all_iff del: validValue.simps(7))

lemma Role_json_strip: "strip roleJsonZodSchema (Role_json lib r) = Role_json lib r"
  by (simp add: Role_json_def Thing_toJson_def spread_objectLiteral roleSchema
      strip_objectLiteral option.map_comp comp_def option.map_ident del: strip.simps(3))

lemma intangibleSchema:
  "intangibleJsonZodSchema = ZObject
     [(''description'', ZOptional (ZString [])),
      (''@id'', ZString [Min 1]),
      (''identifiers'', ZArray (ZString [])),
      (''name'', ZOptional (ZString [])),
      (''sameAs'', ZArray referenceSchema),
      (''type'', ZEnum [''GenderType'', ''Occupation'', ''QuantitiveValue'', ''Role'']),
      (''url'', ZOptional referenceSchema)]"
  by (simp add: schema_defs)

lemma Role_json_strip_intangible:
  "strip intangibleJsonZodSchema (Role_json lib r)
     = Thing_toJson (returned (Role_identifier lib r)) Role_type r"
  by (simp add: Role_json_def Thing_toJson_def spread_objectLiteral intangibleSchema
      strip_objectLiteral option.map_comp comp_def option.map_ident del: strip.simps(3))

lemma Intangible_propertiesFromJson_via:
  assumes "validValue intangibleJsonZodSchema j"
    and "strip intangibleJsonZodSchema j = Thing_toJson i t x"
    and "Thing_jsonConstraints i x"
  shows "Intangible_propertiesFromJson j = Returned (Inr (i, Thing.truncate x))"
proof -
  have v: "validValue thingJsonZodSchema (Thing_toJson i t x)"
    using extends_valid [OF extends_intangible_thing assms(1)] assms(2) by simp
  have "safeParse thingJsonZodSchema (Thing_toJson i t x) = Inr (Thing_toJson i t x)"
    using v by (simp add: safeParse_valid Thing_toJson_strip)
  then have "Thing_propertiesFromJson (Thing_toJson i t x)
               = Returned (Inr (i, Thing.truncate x))"
    by (simp add: Thing_propertiesFromJson_def Thing_toJson_def field_objectLiteral
        get_objectLiteral option.map_comp comp_def option.map_ident Thing.truncate_def)
  then show ?thesis
    using assms(1,2)
    by (simp add: Intangible_propertiesFromJson_def safeParse_valid)
qed

lemma Role_fromJson_toJson:
  assumes "Role_jsonConstraints lib r"
  shows "Role_fromJson (Role_json lib r)
           = Returned (Inr (r \<lparr> Role__identifier := Some (returned (Role_identifier lib r)) \<rparr>))"
proof -
  have v: "validValue roleJsonZodSchema (Role_json lib r)"
    using Role_json_passes [OF assms] .
  have p: "safeParse roleJsonZodSchema (Role_json lib r) = Inr (Role_json lib r)"
    using v by (simp add: safeParse_valid Role_json_strip)
  have vi: "validValue intangibleJsonZodSchema (Role_json lib r)"
    using extends_valid [OF extends_role_intangible v] by (simp add: Role_json_strip)
  have s: "Intangible_propertiesFromJson (Role_json lib r)
             = Returned (Inr (returned (Role_identifier lib r), Thing.truncate r))"
    using Intangible_propertiesFromJson_via [OF vi Role_json_strip_intangible] assms
    by (simp add: Role_jsonConstraints_def)
  have e: "map_option (\<lambda>item. newDate (asString item))
             (field (Role_json lib r) ''endDate'') = endDate r"
    using assms
    by (simp add: Role_json_def Thing_toJson_def spread_objectLiteral field_objectLiteral
        newDate_read_back Role_jsonConstraints_def)
  have st: "map_option (\<lambda>item. newDate (asString item))
             (field (Role_json lib r) ''startDate'') = startDate r"
    using assms
    by (simp add: Role_json_def Thing_toJson_def spread_objectLiteral field_objectLiteral
        newDate_read_back Role_jsonConstraints_def)
  have rn: "map_option namedNodeOfReference (field (Role_json lib r) ''roleName'')
              = roleName r"
    by (simp add: Role_json_def Thing_toJson_def spread_objectLiteral field_objectLiteral
        option.map_comp comp_def option.map_ident)
  have i: "NamedNode (asString (get (Role_json lib r) ''@id'')) = returned (Role_identifier lib r)"
    by (simp add: Role_json_def Thing_toJson_def spread_objectLiteral get_objectLiteral)
  show ?thesis
    by (simp add: Role_fromJson_def Role_propertiesFromJson_def p s e st rn i Role_record)
qed

lemma Thing_propertiesFromJson_via:
  assumes "validValue thingJsonZodSchema j"
    and "strip thingJsonZodSchema j = Thing_toJson i t x"
  shows "Thing_propertiesFromJson j = Returned (Inr (i, Thing.truncate x))"
  using assms
  by (simp add: Thing_propertiesFromJson_def safeParse_valid)
     (simp add: Thing_toJson_def field_objectLiteral
        get_objectLiteral option.map_comp comp_def option.map_ident Thing.truncate_def)

lemma Thing_toJson_strip_intangible:
  "strip intangibleJsonZodSchema (Thing_toJson i t x) = Thing_toJson i t x"
  by (simp add: Thing_toJson_def intangibleSchema
      strip_objectLiteral option.map_comp comp_def option.map_ident del: strip.simps(3))

lemma StructuredValue_propertiesFromJson_via:
  assumes "validValue structuredValueJsonZodSchema j"
    and "strip structuredValueJsonZodSchema j = Thing_toJson i t x"
    and "Thing_jsonConstraints i x"
  shows "StructuredValue_propertiesFromJson j = Returned (Inr (i, Thing.truncate x))"
proof -
  have v: "validValue intangibleJsonZodSchema (Thing_toJson i t x)"
    using extends_valid [OF extends_structuredValue_intangible assms(1)] assms(2) by simp
  have "Intangible_propertiesFromJson (Thing_toJson i t x)
          = Returned (Inr (i, Thing.truncate x))"
    using Intangible_propertiesFromJson_via [OF v Thing_toJson_strip_intangible assms(3)] .
  then show ?thesis
    using assms(1,2)
    by (simp add: StructuredValue_propertiesFromJson_def safeParse_valid)
qed

lemma Enumeration_propertiesFromJson_via:
  assumes "validValue enumerationJsonZodSchema j"
    and "strip enumerationJsonZodSchema j = Thing_toJson i t x"
    and "Thing_jsonConstraints i x"
  shows "Enumeration_propertiesFromJson j = Returned (Inr (i, Thing.truncate x))"
proof -
  have v: "validValue intangibleJsonZodSchema (Thing_toJson i t x)"
    using extends_valid [OF extends_enumeration_intangible assms(1)] assms(2) by simp
  have "Intangible_propertiesFromJson (Thing_toJson i t x)
          = Returned (Inr (i, Thing.truncate x))"
    using Intangible_propertiesFromJson_via [OF v Thing_toJson_strip_intangible assms(3)] .
  then show ?thesis
    using assms(1,2)
    by (simp add: Enumeration_propertiesFromJson_def safeParse_valid)
qed

subsection \<open>Occupation\<close>

lemma Occupation_toJson_valid:
  assumes "Occupation_jsonConstraints x"
  shows "validValue occupationJsonZodSchema (Occupation_toJson x)"
  using assms
  by (simp add: Occupation_toJson_def Thing_toJson_def schema_defs
      validValue_objectLiteral fieldValid_optional_map Occupation_jsonConstraints_def
      Thing_jsonConstraints_def Occupation_type_def nonEmptyIri_def [symmetric]
      list_all_iff del: validValue.simps(7))

lemma Occupation_toJson_strip:
  "strip occupationJsonZodSchema (Occupation_toJson x) = Occupation_toJson x"
  by (simp add: Occupation_toJson_def Thing_toJson_def schema_defs
      strip_objectLiteral option.map_comp comp_def option.map_ident del: strip.simps(3))

lemma Occupation_record:
  "Thing.extend (Thing.truncate x) (Occupation.fields (Occupation_identifier x)) = x"
  by (cases x) (simp add: Thing.defs Occupation.defs)

lemma Occupation_fromJson_toJson:
  assumes "Occupation_jsonConstraints x"
  shows "Occupation_fromJson (Occupation_toJson x) = Returned (Inr x)"
proof -
  have v: "validValue occupationJsonZodSchema (Occupation_toJson x)"
    using Occupation_toJson_valid [OF assms] .
  have p: "safeParse occupationJsonZodSchema (Occupation_toJson x) = Inr (Occupation_toJson x)"
    using v by (simp add: safeParse_valid Occupation_toJson_strip)
  have vi: "validValue intangibleJsonZodSchema (Occupation_toJson x)"
    using extends_valid [OF extends_occupation_intangible v]
    by (simp add: Occupation_toJson_strip)
  have s: "Intangible_propertiesFromJson (Occupation_toJson x)
             = Returned (Inr (Occupation_identifier x, Thing.truncate x))"
    using Intangible_propertiesFromJson_via [OF vi, of "Occupation_identifier x"
        Occupation_type x] assms
    by (simp add: Occupation_jsonConstraints_def Occupation_toJson_def
        Thing_toJson_strip_intangible)
  show ?thesis
    by (simp add: Occupation_fromJson_def Occupation_propertiesFromJson_def p s
        Occupation_record)
       (simp add: Occupation_toJson_def Occupation_record)
qed

subsection \<open>GenderType\<close>

lemma GenderType_toJson_valid:
  assumes "GenderType_jsonConstraints x"
  shows "validValue genderTypeJsonZodSchema (GenderType_toJson x)"
  using assms
  by (simp add: GenderType_toJson_def Thing_toJson_def schema_defs
      validValue_objectLiteral fieldValid_optional_map GenderType_jsonConstraints_def
      Thing_jsonConstraints_def GenderType_type_def nonEmptyIri_def [symmetric]
      list_all_iff del: validValue.simps(7))

lemma GenderType_toJson_strip:
  "strip genderTypeJsonZodSchema (GenderType_toJson x) = GenderType_toJson x"
  by (simp add: GenderType_toJson_def Thing_toJson_def schema_defs
      strip_objectLiteral option.map_comp comp_def option.map_ident del: strip.simps(3))

lemma Thing_toJson_strip_enumeration:
  "strip enumerationJsonZodSchema (Thing_toJson i t x) = Thing_toJson i t x"
  by (simp add: Thing_toJson_def schema_defs
      strip_objectLiteral option.map_comp comp_def option.map_ident del: strip.simps(3))

lemma GenderType_record:
  "Thing.extend (Thing.truncate x) (GenderType.fields (GenderType_identifier x)) = x"
  by (cases x) (simp add: Thing.defs GenderType.defs)

lemma GenderType_fromJson_toJson:
  assumes "GenderType_jsonConstraints x"
  shows "GenderType_fromJson (GenderType_toJson x) = Returned (Inr x)"
proof -
  have v: "validValue genderTypeJsonZodSchema (GenderType_toJson x)"
    using GenderType_toJson_valid [OF assms] .
  have p: "safeParse genderTypeJsonZodSchema (GenderType_toJson x) = Inr (GenderType_toJson x)"
    using v by (simp add: safeParse_valid GenderType_toJson_strip)
  have vi: "validValue enumerationJsonZodSchema (GenderType_toJson x)"
    using extends_valid [OF extends_genderType_enumeration v]
    by (simp add: GenderType_toJson_strip)
  have s: "Enumeration_propertiesFromJson (GenderType_toJson x)
             = Returned (Inr (GenderType_identifier x, Thing.truncate x))"
    using Enumeration_propertiesFromJson_via [OF vi, of "GenderType_identifier x"
        GenderType_type x] assms
    by (simp add: GenderType_jsonConstraints_def GenderType_toJson_def
        Thing_toJson_strip_enumeration)
  show ?thesis
    by (simp add: GenderType_fromJson_def GenderType_propertiesFromJson_def p s)
       (simp add: GenderType_toJson_def GenderType_record)
qed

subsection \<open>QuantitiveValue\<close>

lemma finiteNumber_valid [simp]:
  "optionally finiteNumber m
     \<Longrightarrow> optionally (\<lambda>v. validValue ZNumber (jsonNumber v)) m"
  by (cases m) (auto simp: finiteNumber_def split: number.splits)

lemma asNumber_read_back:
  "optionally finiteNumber m \<Longrightarrow> map_option asNumber (map_option jsonNumber m) = m"
  by (cases m) (auto simp: finiteNumber_def split: number.splits)

lemma strip_jsonNumber [simp]: "strip ZNumber j = j"
  by simp

lemma QuantitiveValue_toJson_valid:
  assumes "QuantitiveValue_jsonConstraints x"
  shows "validValue quantitiveValueJsonZodSchema (QuantitiveValue_toJson x)"
  using assms
  by (simp add: QuantitiveValue_toJson_def Thing_toJson_def spread_objectLiteral schema_defs
      validValue_objectLiteral fieldValid_optional_map QuantitiveValue_jsonConstraints_def
      Thing_jsonConstraints_def QuantitiveValue_type_def nonEmptyIri_def [symmetric]
      list_all_iff del: validValue.simps(7) validValue.simps(2))

lemma QuantitiveValue_toJson_strip:
  "strip quantitiveValueJsonZodSchema (QuantitiveValue_toJson x) = QuantitiveValue_toJson x"
  by (simp add: QuantitiveValue_toJson_def Thing_toJson_def spread_objectLiteral schema_defs
      strip_objectLiteral option.map_comp comp_def option.map_ident del: strip.simps(3))

lemma QuantitiveValue_toJson_strip_structuredValue:
  "strip structuredValueJsonZodSchema (QuantitiveValue_toJson x)
     = Thing_toJson (QuantitiveValue_identifier x) QuantitiveValue_type x"
  by (simp add: QuantitiveValue_toJson_def Thing_toJson_def spread_objectLiteral schema_defs
      strip_objectLiteral option.map_comp comp_def option.map_ident del: strip.simps(3))

lemma QuantitiveValue_record:
  "Thing.extend (Thing.truncate x)
     (QuantitiveValue.fields (QuantitiveValue_identifier x) (QuantitiveValue_value x)) = x"
  by (cases x) (simp add: Thing.defs QuantitiveValue.defs)

lemma QuantitiveValue_fromJson_toJson:
  assumes "QuantitiveValue_jsonConstraints x"
  shows "QuantitiveValue_fromJson (QuantitiveValue_toJson x) = Returned (Inr x)"
proof -
  have v: "validValue quantitiveValueJsonZodSchema (QuantitiveValue_toJson x)"
    using QuantitiveValue_toJson_valid [OF assms] .
  have p: "safeParse quantitiveValueJsonZodSchema (QuantitiveValue_toJson x)
             = Inr (QuantitiveValue_toJson x)"
    using v by (simp add: safeParse_valid QuantitiveValue_toJson_strip)
  have vi: "validValue structuredValueJsonZodSchema (QuantitiveValue_toJson x)"
    using extends_valid [OF extends_quantitiveValue_structuredValue v]
    by (simp add: QuantitiveValue_toJson_strip)
  have s: "StructuredValue_propertiesFromJson (QuantitiveValue_toJson x)
             = Returned (Inr (QuantitiveValue_identifier x, Thing.truncate x))"
    using StructuredValue_propertiesFromJson_via
            [OF vi QuantitiveValue_toJson_strip_structuredValue] assms
    by (simp add: QuantitiveValue_jsonConstraints_def)
  have n: "map_option asNumber (field (QuantitiveValue_toJson x) ''value'')
             = QuantitiveValue_value x"
    using assms
    by (simp add: QuantitiveValue_toJson_def Thing_toJson_def spread_objectLiteral
        field_objectLiteral asNumber_read_back QuantitiveValue_jsonConstraints_def)
  have i: "NamedNode (asString (get (QuantitiveValue_toJson x) ''@id''))
             = QuantitiveValue_identifier x"
    by (simp add: QuantitiveValue_toJson_def Thing_toJson_def spread_objectLiteral
        get_objectLiteral)
  show ?thesis
    by (simp add: QuantitiveValue_fromJson_def QuantitiveValue_propertiesFromJson_def
        p s n i QuantitiveValue_record)
qed

subsection \<open>Organization\<close>

lemma Organization_toJson_valid:
  assumes "Organization_jsonConstraints x"
  shows "validValue organizationJsonZodSchema (Organization_toJson x)"
  using assms
  by (simp add: Organization_toJson_def Thing_toJson_def spread_objectLiteral schema_defs
      validValue_objectLiteral fieldValid_optional_map Organization_jsonConstraints_def
      Thing_jsonConstraints_def Organization_type_def nonEmptyIri_def [symmetric]
      list_all_iff del: validValue.simps(7))

lemma Organization_toJson_strip:
  "strip organizationJsonZodSchema (Organization_toJson x) = Organization_toJson x"
  by (simp add: Organization_toJson_def Thing_toJson_def spread_objectLiteral schema_defs
      strip_objectLiteral option.map_comp comp_def option.map_ident del: strip.simps(3))

lemma Organization_toJson_strip_thing:
  "strip thingJsonZodSchema (Organization_toJson x)
     = Thing_toJson (Organization_identifier x) Organization_type x"
  by (simp add: Organization_toJson_def Thing_toJson_def spread_objectLiteral schema_defs
      strip_objectLiteral option.map_comp comp_def option.map_ident del: strip.simps(3))

lemma Organization_record:
  "Thing.extend (Thing.truncate x)
     (Organization.fields (Organization_identifier x) (members x) (parentOrganizations x)
        (subOrganizations x)) = x"
  by (cases x) (simp add: Thing.defs Organization.defs)

lemma Organization_fromJson_toJson:
  assumes "Organization_jsonConstraints x"
  shows "Organization_fromJson (Organization_toJson x) = Returned (Inr x)"
proof -
  have v: "validValue organizationJsonZodSchema (Organization_toJson x)"
    using Organization_toJson_valid [OF assms] .
  have p: "safeParse organizationJsonZodSchema (Organization_toJson x)
             = Inr (Organization_toJson x)"
    using v by (simp add: safeParse_valid Organization_toJson_strip)
  have vi: "validValue thingJsonZodSchema (Organization_toJson x)"
    using extends_valid [OF extends_organization_thing v]
    by (simp add: Organization_toJson_strip)
  have s: "Thing_propertiesFromJson (Organization_toJson x)
             = Returned (Inr (Organization_identifier x, Thing.truncate x))"
    using Thing_propertiesFromJson_via [OF vi Organization_toJson_strip_thing] .
  have m: "map namedNodeOfReference (asArray (get (Organization_toJson x) ''members''))
             = members x"
    by (simp add: Organization_toJson_def Thing_toJson_def spread_objectLiteral
        get_objectLiteral comp_def)
  have po: "map namedNodeOfReference
              (asArray (get (Organization_toJson x) ''parentOrganizations''))
             = parentOrganizations x"
    by (simp add: Organization_toJson_def Thing_toJson_def spread_objectLiteral
        get_objectLiteral comp_def)
  have so: "map namedNodeOfReference
              (asArray (get (Organization_toJson x) ''subOrganizations''))
             = subOrganizations x"
    by (simp add: Organization_toJson_def Thing_toJson_def spread_objectLiteral
        get_objectLiteral comp_def)
  have i: "NamedNode (asString (get (Organization_toJson x) ''@id''))
             = Organization_identifier x"
    by (simp add: Organization_toJson_def Thing_toJson_def spread_objectLiteral
        get_objectLiteral)
  show ?thesis
    by (simp add: Organization_fromJson_def Organization_propertiesFromJson_def
        p s m po so i Organization_record)
qed

lemma imageObjectSchema:
  "imageObjectJsonZodSchema = ZObject
     [(''description'', ZOptional (ZString [])),
      (''@id'', ZString [Min 1]),
      (''identifiers'', ZArray (ZString [])),
      (''name'', ZOptional (ZString [])),
      (''sameAs'', ZArray referenceSchema),
      (''type'', ZLiteral ''ImageObject''),
      (''url'', ZOptional referenceSchema),
      (''isBasedOn'', ZArray referenceSchema),
      (''contentUrl'', ZOptional referenceSchema),
      (''encodingFormat'', ZOptional (ZString [])),
      (''height'', ZOptional quantitiveValueJsonZodSchema),
      (''width'', ZOptional quantitiveValueJsonZodSchema)]"
  by (simp add: imageObjectJsonZodSchema_def mediaObjectSchema)

lemma creativeWorkSchema:
  "creativeWorkJsonZodSchema = ZObject
     [(''description'', ZOptional (ZString [])),
      (''@id'', ZString [Min 1]),
      (''identifiers'', ZArray (ZString [])),
      (''name'', ZOptional (ZString [])),
      (''sameAs'', ZArray referenceSchema),
      (''type'', ZLiteral ''ImageObject''),
      (''url'', ZOptional referenceSchema),
      (''isBasedOn'', ZArray referenceSchema)]"
  by (simp add: creativeWorkJsonZodSchema_def thingJsonZodSchema_def)

lemmas ImageObject_toJson_defs = ImageObject_toJson_def MediaObject_toJson_def
  CreativeWork_toJson_def Thing_toJson_def spread_objectLiteral

lemma nested_QuantitiveValue_valid [simp]:
  "optionally QuantitiveValue_jsonConstraints m
     \<Longrightarrow> optionally (\<lambda>v. validValue quantitiveValueJsonZodSchema (QuantitiveValue_toJson v)) m"
  using QuantitiveValue_toJson_valid by (cases m) simp_all

lemma nested_QuantitiveValue_read_back:
  "optionally QuantitiveValue_jsonConstraints m
     \<Longrightarrow> mapOutcomeOption (\<lambda>item. andThen (QuantitiveValue_fromJson item) unsafeCoerce)
           (map_option QuantitiveValue_toJson m) = Returned m"
  using QuantitiveValue_fromJson_toJson by (cases m) simp_all

lemma ImageObject_toJson_valid:
  assumes "ImageObject_jsonConstraints x"
  shows "validValue imageObjectJsonZodSchema (ImageObject_toJson x)"
  using assms
  by (simp add: ImageObject_toJson_defs imageObjectSchema
      validValue_objectLiteral fieldValid_optional_map ImageObject_jsonConstraints_def
      Thing_jsonConstraints_def ImageObject_type_def nonEmptyIri_def [symmetric]
      list_all_iff del: validValue.simps(7))

lemma ImageObject_toJson_strip:
  "strip imageObjectJsonZodSchema (ImageObject_toJson x) = ImageObject_toJson x"
  by (simp add: ImageObject_toJson_defs imageObjectSchema QuantitiveValue_toJson_strip
      strip_objectLiteral option.map_comp comp_def option.map_ident del: strip.simps(3))

lemma ImageObject_toJson_strip_mediaObject:
  "strip mediaObjectJsonZodSchema (ImageObject_toJson x) = ImageObject_toJson x"
  by (simp add: ImageObject_toJson_defs mediaObjectSchema QuantitiveValue_toJson_strip
      strip_objectLiteral option.map_comp comp_def option.map_ident del: strip.simps(3))

lemma ImageObject_toJson_strip_creativeWork:
  "strip creativeWorkJsonZodSchema (ImageObject_toJson x)
     = CreativeWork_toJson (ImageObject_identifier x) ImageObject_type x"
  by (simp add: ImageObject_toJson_defs creativeWorkSchema
      strip_objectLiteral option.map_comp comp_def option.map_ident del: strip.simps(3))

lemma CreativeWork_toJson_strip_thing:
  "strip thingJsonZodSchema (CreativeWork_toJson i t x) = Thing_toJson i t x"
  by (simp add: ImageObject_toJson_defs thingJsonZodSchema_def
      strip_objectLiteral option.map_comp comp_def option.map_ident del: strip.simps(3))

lemma CreativeWork_record:
  "Thing.extend (Thing.truncate x) (CreativeWork.fields (isBasedOn x)) = CreativeWork.truncate x"
  by (cases x) (simp add: Thing.defs CreativeWork.defs)

lemma MediaObject_record:
  "CreativeWork.extend (CreativeWork.truncate x)
     (MediaObject.fields (contentUrl x) (encodingFormat x) (height x) (width x))
     = MediaObject.truncate x"
  by (cases x) (simp add: Thing.defs CreativeWork.defs MediaObject.defs)

lemma ImageObject_record:
  "MediaObject.extend (MediaObject.truncate x) (ImageObject.fields (ImageObject_identifier x))
     = x"
  by (cases x) (simp add: Thing.defs CreativeWork.defs MediaObject.defs ImageObject.defs)

lemma ImageObject_fromJson_toJson:
  assumes "ImageObject_jsonConstraints x"
  shows "ImageObject_fromJson (ImageObject_toJson x) = Returned (Inr x)"
proof -
  let ?j = "ImageObject_toJson x"
  let ?i = "ImageObject_identifier x"
  have v: "validValue imageObjectJsonZodSchema ?j"
    using ImageObject_toJson_valid [OF assms] .
  have p: "safeParse imageObjectJsonZodSchema ?j = Inr ?j"
    using v by (simp add: safeParse_valid ImageObject_toJson_strip)
  have vm: "validValue mediaObjectJsonZodSchema ?j"
    using extends_valid [OF extends_imageObject_mediaObject v]
    by (simp add: ImageObject_toJson_strip)
  have pm: "safeParse mediaObjectJsonZodSchema ?j = Inr ?j"
    using vm by (simp add: safeParse_valid ImageObject_toJson_strip_mediaObject)
  have vc: "validValue creativeWorkJsonZodSchema ?j"
    using extends_valid [OF extends_mediaObject_creativeWork vm]
    by (simp add: ImageObject_toJson_strip_mediaObject)
  have pc: "safeParse creativeWorkJsonZodSchema ?j
              = Inr (CreativeWork_toJson ?i ImageObject_type x)"
    using vc by (simp add: safeParse_valid ImageObject_toJson_strip_creativeWork)
  have vt: "validValue thingJsonZodSchema (CreativeWork_toJson ?i ImageObject_type x)"
    using extends_valid [OF extends_creativeWork_thing vc]
    by (simp add: ImageObject_toJson_strip_creativeWork)
  have t: "Thing_propertiesFromJson (CreativeWork_toJson ?i ImageObject_type x)
             = Returned (Inr (?i, Thing.truncate x))"
    using Thing_propertiesFromJson_via [OF vt CreativeWork_toJson_strip_thing] .
  have b: "map namedNodeOfReference
             (asArray (get (CreativeWork_toJson ?i ImageObject_type x) ''isBasedOn''))
           = isBasedOn x"
    by (simp add: ImageObject_toJson_defs get_objectLiteral comp_def)
  have ic: "NamedNode (asString (get (CreativeWork_toJson ?i ImageObject_type x) ''@id''))
              = ?i"
    by (simp add: ImageObject_toJson_defs get_objectLiteral)
  have c: "CreativeWork_propertiesFromJson ?j = Returned (Inr (?i, CreativeWork.truncate x))"
    by (simp add: CreativeWork_propertiesFromJson_def pc t b ic CreativeWork_record)
  have cu: "map_option namedNodeOfReference (field ?j ''contentUrl'') = contentUrl x"
    by (simp add: ImageObject_toJson_defs field_objectLiteral option.map_comp comp_def
        option.map_ident)
  have ef: "map_option asString (field ?j ''encodingFormat'') = encodingFormat x"
    by (simp add: ImageObject_toJson_defs field_objectLiteral option.map_comp comp_def
        option.map_ident)
  have fh: "field ?j ''height'' = map_option QuantitiveValue_toJson (height x)"
    by (simp add: ImageObject_toJson_defs field_objectLiteral)
  have fw: "field ?j ''width'' = map_option QuantitiveValue_toJson (width x)"
    by (simp add: ImageObject_toJson_defs field_objectLiteral)
  have h: "mapOutcomeOption (\<lambda>item. andThen (QuantitiveValue_fromJson item) unsafeCoerce)
             (field ?j ''height'') = Returned (height x)"
    using assms
    by (simp add: fh nested_QuantitiveValue_read_back ImageObject_jsonConstraints_def)
  have w: "mapOutcomeOption (\<lambda>item. andThen (QuantitiveValue_fromJson item) unsafeCoerce)
             (field ?j ''width'') = Returned (width x)"
    using assms
    by (simp add: fw nested_QuantitiveValue_read_back ImageObject_jsonConstraints_def)
  have i: "NamedNode (asString (get ?j ''@id'')) = ?i"
    by (simp add: ImageObject_toJson_defs get_objectLiteral)
  have m: "MediaObject_propertiesFromJson ?j = Returned (Inr (?i, MediaObject.truncate x))"
    by (simp add: MediaObject_propertiesFromJson_def pm c cu ef h w i MediaObject_record)
  show ?thesis
    by (simp add: ImageObject_fromJson_def ImageObject_propertiesFromJson_def p m i
        ImageObject_record)
qed

subsection \<open>The gender of a person\<close>

lemma termToJson_valid:
  "Term_jsonConstraints lib t \<Longrightarrow> validValue genderJsonZodSchema (termToJson t)"
  by (cases t)
     (simp_all add: genderJsonZodSchema_def field_objectLiteral validValue_objectLiteral
        nonEmptyIri_def del: validValue.simps(7))

lemma termToJson_strip: "strip genderJsonZodSchema (termToJson t) = termToJson t"
  by (cases t)
     (simp_all add: genderJsonZodSchema_def field_objectLiteral strip_objectLiteral
        del: strip.simps(3))

lemma NamedNode_eq_iff: "NamedNode s = n \<longleftrightarrow> iri n = s"
  by (cases n) auto

lemma genderFromJson_termToJson:
  "Term_jsonConstraints lib t \<Longrightarrow> genderFromJson lib (termToJson t) = t"
  by (cases t)
     (auto simp: genderFromJson_def field_objectLiteral get_objectLiteral nonEmptyIri_def
        xsd_string_def rdf_langString_def NamedNode_eq_iff languageOrDatatypeOf_def)

subsection \<open>The elements of hasOccupation and of images\<close>

lemma Role_json_type [simp]: "field (Role_json lib r) ''type'' = Some (JString ''Role'')"
  by (simp add: Role_json_def Thing_toJson_def spread_objectLiteral field_objectLiteral
      Role_type_def)

lemma Occupation_toJson_type [simp]:
  "field (Occupation_toJson x) ''type'' = Some (JString ''Occupation'')"
  by (simp add: Occupation_toJson_def Thing_toJson_def field_objectLiteral
      Occupation_type_def)

lemma hasOccupation_element_valid:
  "OccupationOrRole_jsonConstraints lib e
     \<Longrightarrow> validValue hasOccupationJsonZodSchema (OccupationOrRole_json lib e)"
  by (cases e)
     (simp_all add: hasOccupationJsonZodSchema_def discriminator_occupation
        discriminator_role Role_json_passes Occupation_toJson_valid)

lemma hasOccupation_element_strip:
  "strip hasOccupationJsonZodSchema (OccupationOrRole_json lib e)
     = OccupationOrRole_json lib e"
  by (cases e)
     (simp_all add: hasOccupationJsonZodSchema_def discriminator_occupation
        discriminator_role Role_json_strip Occupation_toJson_strip)

lemma hasOccupationFromJson_toJson:
  "OccupationOrRole_jsonConstraints lib e
     \<Longrightarrow> hasOccupationFromJson (OccupationOrRole_json lib e)
           = Returned (OccupationOrRole_decoded lib e)"
  by (cases e)
     (simp_all add: hasOccupationFromJson_def get_def Role_fromJson_toJson
        Occupation_fromJson_toJson)

lemma mapOutcome_map:
  "(\<And>x. x \<in> set xs \<Longrightarrow> f (g x) = Returned (h x))
     \<Longrightarrow> mapOutcome f (map g xs) = Returned (map h xs)"
  by (induction xs) simp_all

lemma hasOccupation_read_back:
  "list_all (OccupationOrRole_jsonConstraints lib) xs
     \<Longrightarrow> mapOutcome hasOccupationFromJson (map (OccupationOrRole_json lib) xs)
           = Returned (map (OccupationOrRole_decoded lib) xs)"
  by (rule mapOutcome_map) (simp add: list_all_iff hasOccupationFromJson_toJson)

lemma images_read_back:
  "list_all ImageObject_jsonConstraints xs
     \<Longrightarrow> mapOutcome (\<lambda>item. andThen (ImageObject_fromJson item) unsafeCoerce)
           (map ImageObject_toJson xs) = Returned xs"
  using mapOutcome_map [of xs "\<lambda>item. andThen (ImageObject_fromJson item) unsafeCoerce"
      ImageObject_toJson "\<lambda>x. x"]
  by (simp add: list_all_iff ImageObject_fromJson_toJson)

subsection \<open>Person\<close>

lemma optionally_gender_valid:
  "optionally (Term_jsonConstraints lib) m
     \<Longrightarrow> optionally (\<lambda>v. validValue genderJsonZodSchema (termToJson v)) m"
  using termToJson_valid by (cases m) simp_all

lemma gender_read_back:
  "optionally (Term_jsonConstraints lib) m
     \<Longrightarrow> map_option (genderFromJson lib) (map_option termToJson m) = m"
  using genderFromJson_termToJson by (cases m) simp_all

lemma Person_json_passes:
  assumes "Person_jsonConstraints lib x"
  shows "validValue personJsonZodSchema (Person_json lib x)"
  using assms optionally_gender_valid [of lib "gender x"]
  by (simp add: Person_json_def Thing_toJson_def spread_objectLiteral personSchema
      validValue_objectLiteral fieldValid_optional_map Person_jsonConstraints_def
      Thing_jsonConstraints_def Person_type_def nonEmptyIri_def [symmetric]
      dateJson_def list_all_iff hasOccupation_element_valid ImageObject_toJson_valid
      del: validValue.simps(7) validValue.simps(8))

lemma Person_json_strip:
  "strip personJsonZodSchema (Person_json lib x) = Person_json lib x"
  by (simp add: Person_json_def Thing_toJson_def spread_objectLiteral personSchema
      strip_objectLiteral option.map_comp comp_def option.map_ident termToJson_strip
      hasOccupation_element_strip ImageObject_toJson_strip
      del: strip.simps(3) strip.simps(4))

lemma Person_json_strip_thing:
  "strip thingJsonZodSchema (Person_json lib x)
     = Thing_toJson (Person_identifier x) Person_type x"
  by (simp add: Person_json_def Thing_toJson_def spread_objectLiteral
      thingJsonZodSchema_def
      strip_objectLiteral option.map_comp comp_def option.map_ident del: strip.simps(3))

lemma Person_record:
  "Thing.extend (Thing.truncate x)
     (Person.fields (birthDate x) (familyName x) (gender x) (givenName x) os
        (Person_identifier x) (images x) (memberOf x))
     = x \<lparr> hasOccupation := os \<rparr>"
  by (cases x) (simp add: Thing.defs Person.defs)

lemma Person_fromJson_toJson:
  assumes "Person_jsonConstraints lib x"
  shows "Person_fromJson lib (Person_json lib x)
           = Returned (Inr (x \<lparr> hasOccupation :=
                                   map (OccupationOrRole_decoded lib) (hasOccupation x) \<rparr>))"
proof -
  let ?j = "Person_json lib x"
  have v: "validValue personJsonZodSchema ?j"
    using Person_json_passes [OF assms] .
  have p: "safeParse personJsonZodSchema ?j = Inr ?j"
    using v by (simp add: safeParse_valid Person_json_strip)
  have vt: "validValue thingJsonZodSchema ?j"
    using extends_valid [OF extends_person_thing v] by (simp add: Person_json_strip)
  have t: "Thing_propertiesFromJson ?j = Returned (Inr (Person_identifier x, Thing.truncate x))"
    using Thing_propertiesFromJson_via [OF vt Person_json_strip_thing] .
  have bd: "map_option (\<lambda>item. newDate (asString item)) (field ?j ''birthDate'')
              = birthDate x"
    using assms
    by (simp add: Person_json_def Thing_toJson_def spread_objectLiteral field_objectLiteral
        newDate_read_back Person_jsonConstraints_def)
  have fn: "map_option asString (field ?j ''familyName'') = familyName x"
    by (simp add: Person_json_def Thing_toJson_def spread_objectLiteral field_objectLiteral
        option.map_comp comp_def option.map_ident)
  have gn: "map_option asString (field ?j ''givenName'') = givenName x"
    by (simp add: Person_json_def Thing_toJson_def spread_objectLiteral field_objectLiteral
        option.map_comp comp_def option.map_ident)
  have g: "map_option (genderFromJson lib) (field ?j ''gender'') = gender x"
    using assms
    by (simp add: Person_json_def Thing_toJson_def spread_objectLiteral field_objectLiteral
        gender_read_back Person_jsonConstraints_def)
  have ho: "asArray (get ?j ''hasOccupation'')
              = map (OccupationOrRole_json lib) (hasOccupation x)"
    by (simp add: Person_json_def Thing_toJson_def spread_objectLiteral get_objectLiteral)
  have im: "asArray (get ?j ''images'') = map ImageObject_toJson (images x)"
    by (simp add: Person_json_def Thing_toJson_def spread_objectLiteral get_objectLiteral)
  have mo: "map namedNodeOfReference (asArray (get ?j ''memberOf'')) = memberOf x"
    by (simp add: Person_json_def Thing_toJson_def spread_objectLiteral get_objectLiteral
        comp_def)
  have i: "NamedNode (asString (get ?j ''@id'')) = Person_identifier x"
    by (simp add: Person_json_def Thing_toJson_def spread_objectLiteral get_objectLiteral)
  have os: "mapOutcome hasOccupationFromJson (map (OccupationOrRole_json lib) (hasOccupation x))
              = Returned (map (OccupationOrRole_decoded lib) (hasOccupation x))"
    using assms by (simp add: hasOccupation_read_back Person_jsonConstraints_def)
  have imgs: "mapOutcome (\<lambda>item. andThen (ImageObject_fromJson item) unsafeCoerce)
              (map ImageObject_toJson (images x)) = Returned (images x)"
    using assms by (simp add: images_read_back Person_jsonConstraints_def)
  show ?thesis
    by (simp add: Person_fromJson_def Person_propertiesFromJson_def p t bd fn gn g ho im mo
        i os imgs Person_record)
qed

subsection \<open>toJson on values with valid dates\<close>

lemma Role_jsonConstraints_validDates: "Role_jsonConstraints lib r \<Longrightarrow> Role_validDates r"
  by (simp add: Role_jsonConstraints_def Role_validDates_def optionally_dateOnly_validDate)

lemma OccupationOrRole_jsonConstraints_validDates:
  "OccupationOrRole_jsonConstraints lib e \<Longrightarrow> OccupationOrRole_validDates e"
  by (cases e) (simp_all add: Role_jsonConstraints_validDates)

lemma Person_jsonConstraints_validDates:
  "Person_jsonConstraints lib x \<Longrightarrow> Person_validDates x"
  by (auto simp: Person_jsonConstraints_def Person_validDates_def list_all_iff
      optionally_dateOnly_validDate OccupationOrRole_jsonConstraints_validDates)

lemma Role_toJson_returns:
  assumes "Role_validDates r"
  shows "Role_toJson lib r = Returned (Role_json lib r)"
proof -
  obtain i where "Role_identifier lib r = Returned i"
    using Role_identifier_returns [OF assms] by blast
  then show ?thesis
    using assms
    by (simp add: Role_toJson_def Role_json_def Role_validDates_def
        mapOutcomeOption_dateToJson)
qed

lemma OccupationOrRole_toJson_returns:
  "OccupationOrRole_validDates e
     \<Longrightarrow> OccupationOrRole_toJson lib e = Returned (OccupationOrRole_json lib e)"
  by (cases e) (simp_all add: Role_toJson_returns)

lemma Person_toJson_returns:
  assumes "Person_validDates x"
  shows "Person_toJson lib x = Returned (Person_json lib x)"
proof -
  have "mapOutcome (OccupationOrRole_toJson lib) (map (\<lambda>e. e) (hasOccupation x))
      = Returned (map (OccupationOrRole_json lib) (hasOccupation x))"
    using assms
    by (intro mapOutcome_map)
      (simp add: Person_validDates_def list_all_iff OccupationOrRole_toJson_returns)
  then show ?thesis
    using assms
    by (simp add: Person_toJson_def Person_json_def Person_validDates_def
        mapOutcomeOption_dateToJson)
qed

subsection \<open>The decoded value is equal to the value\<close>

lemma Thing_equals_same:
  "sameThingFields a b \<Longrightarrow> Thing_equals i t a i t b = Equal"
  by (simp add: Thing_equals_def sameThingFields_def maybeEquals_refl arrayEquals_refl
      booleanEquals_def NamedNode_equals_def strictEquals_def)

lemma Role_equals_decoded:
  assumes "Role_validDates r"
  shows "Role_equals lib (r \<lparr> Role__identifier := Some (returned (Role_identifier lib r)) \<rparr>) r
    = Returned Equal"
proof -
  obtain i where "Role_identifier lib r = Returned i"
    using Role_identifier_returns [OF assms] by blast
  then show ?thesis
    using assms
    by (simp add: Role_equals_def Role_identifier_stored Thing_equals_same
        sameThingFields_def maybeEquals_refl maybeEquals_date_refl Role_validDates_def)
qed

lemma OccupationOrRole_decoded_validDates:
  "OccupationOrRole_validDates (OccupationOrRole_decoded lib e) = OccupationOrRole_validDates e"
  by (cases e) (simp_all add: Role_validDates_def)

lemma OccupationOrRole_equals_decoded:
  "OccupationOrRole_validDates e
     \<Longrightarrow> OccupationOrRole_equals lib (OccupationOrRole_decoded lib e) e
         = Returned (Result Equal)"
  by (cases e) (simp_all add: Role_equals_decoded)

lemma arrayEquals_map:
  "(\<And>x. x \<in> set xs \<Longrightarrow> fromBooleanEqualsResult (eq (h x) x) = Equal)
     \<Longrightarrow> arrayEquals eq (map h xs) xs = Equal"
  by (auto simp: arrayEquals_Equal_iff)

lemma hasOccupation_equals_decoded:
  assumes "list_all OccupationOrRole_validDates xs"
  shows "arrayEqualsOutcome (OccupationOrRole_equals lib)
           (map (OccupationOrRole_decoded lib) xs) xs
         = Returned Equal"
proof -
  have valid: "OccupationOrRole_validDates x" if "x \<in> set xs" for x
    using assms that by (simp add: list_all_iff)
  have valid': "OccupationOrRole_validDates x"
    if "x \<in> set (map (OccupationOrRole_decoded lib) xs)" for x
    using that valid by (auto simp: OccupationOrRole_decoded_validDates)
  have "arrayEqualsOutcome (OccupationOrRole_equals lib)
          (map (OccupationOrRole_decoded lib) xs) xs
      = Returned (arrayEquals (\<lambda>x y. returned (OccupationOrRole_equals lib x y))
                    (map (OccupationOrRole_decoded lib) xs) xs)"
    by (rule arrayEqualsOutcome_returns)
      (rule OccupationOrRole_equals_returns; simp add: valid valid')
  moreover have "arrayEquals (\<lambda>x y. returned (OccupationOrRole_equals lib x y))
      (map (OccupationOrRole_decoded lib) xs) xs = Equal"
    by (rule arrayEquals_map) (simp add: OccupationOrRole_equals_decoded valid)
  ultimately show ?thesis by simp
qed

lemma finite_notNaN: "optionally QuantitiveValue_jsonConstraints m \<Longrightarrow> notNaN m"
  by (cases m)
     (auto simp: notNaN_def QuantitiveValue_jsonConstraints_def finiteNumber_def)

lemma ImageObject_equals_constrained:
  "ImageObject_jsonConstraints x \<Longrightarrow> ImageObject_equals x x = Equal"
  by (simp add: ImageObject_jsonConstraints_def ImageObject_equals_refl finite_notNaN)

lemma QuantitiveValue_equals_constrained:
  "QuantitiveValue_jsonConstraints x \<Longrightarrow> QuantitiveValue_equals x x = Equal"
  using finite_notNaN [of "Some x"]
  by (simp add: QuantitiveValue_equals_refl notNaN_def)

lemma Person_equals_decoded:
  assumes "list_all ImageObject_jsonConstraints (images x)" and "Person_validDates x"
  shows "Person_equals lib
           (x \<lparr> hasOccupation := map (OccupationOrRole_decoded lib) (hasOccupation x) \<rparr>) x
         = Returned Equal"
proof -
  have i: "arrayEquals (\<lambda>left right. Result (ImageObject_equals left right))
             (images x) (images x) = Equal"
    using assms(1)
    by (intro arrayEquals_refl) (simp add: list_all_iff ImageObject_equals_constrained)
  have o: "arrayEqualsOutcome (OccupationOrRole_equals lib)
             (map (OccupationOrRole_decoded lib) (hasOccupation x)) (hasOccupation x)
           = Returned Equal"
    using assms(2) by (intro hasOccupation_equals_decoded) (simp add: Person_validDates_def)
  show ?thesis
    using assms(2)
    by (simp add: Person_equals_def Thing_equals_same sameThingFields_def maybeEquals_refl
        maybeEquals_date_refl arrayEquals_refl Person_validDates_def i o)
qed

text \<open>
  C2, as stated, fails on a role whose \<^verbatim>\<open>endDate\<close> is noon of 1 January 2020: \<^verbatim>\<open>toJson\<close>
  writes the day only (\<^verbatim>\<open>toISOString().replace(/T.*$/, "")\<close>, read back under the schema's
  \<^verbatim>\<open>date()\<close> check), so the decoded role has midnight and \<^verbatim>\<open>equals\<close>, which compares the
  time values, reports the property. It fails on other values too, each of which the
  amended claim excludes: a date that is the \<^verbatim>\<open>Invalid Date\<close>, on which \<^verbatim>\<open>toJson\<close>
  throws; a date of the year 10000 or of a year before the year 0, whose day is written
  with a sign and six digits and refused by the schema; a number that is infinite or
  \<^verbatim>\<open>NaN\<close>, written as \<^verbatim>\<open>null\<close> and refused by the schema; an identifier with an empty
  IRI, refused by the schema; a gender that is a literal whose language tag is in
  upper case, which the data factory of the examples puts in lower case, or a blank
  node with an empty label, which that factory replaces.
\<close>

theorem Role_json_round_trip_drops_time_of_day:
  "(case Role_toJson exampleLibrary exampleRole of
      Returned json \<Rightarrow>
        (case Role_fromJson json of
           Returned (Inr decoded) \<Rightarrow>
             Some (endDate decoded, Role_equals exampleLibrary decoded exampleRole)
         | _ \<Rightarrow> None)
    | Threw \<Rightarrow> None)
   = Some (Some (Date 2020 1 1 0), Returned (Inl (Property ''endDate'' BooleanEquals)))
   \<and> Role_toJson exampleLibrary exampleRoleInvalidDate = Threw
   \<and> andThen (Role_toJson exampleLibrary exampleRoleYear10000) Role_fromJson
     = Returned (Inl (ZodError [ZodIssue ''invalid_string'' [Key ''endDate'']]))
   \<and> andThen (Role_toJson exampleLibrary exampleRoleBeforeYear0) Role_fromJson
     = Returned (Inl (ZodError [ZodIssue ''invalid_string'' [Key ''endDate'']]))
   \<and> QuantitiveValue_fromJson (QuantitiveValue_toJson exampleQuantitiveValueInfinity)
     = Returned (Inl (ZodError [ZodIssue ''invalid_type'' [Key ''value'']]))
   \<and> QuantitiveValue_fromJson (QuantitiveValue_toJson exampleQuantitiveValueNaN)
     = Returned (Inl (ZodError [ZodIssue ''invalid_type'' [Key ''value'']]))
   \<and> Occupation_fromJson (Occupation_toJson exampleOccupationEmptyIri)
     = Returned (Inl (ZodError [ZodIssue ''too_small'' [Key ''@id'']]))
   \<and> (case Person_toJson exampleLibrary examplePersonUpperCaseTag of
        Returned json \<Rightarrow>
          (case Person_fromJson exampleLibrary json of
             Returned (Inr decoded) \<Rightarrow>
               Some (gender decoded,
                     Person_equals exampleLibrary decoded examplePersonUpperCaseTag)
           | _ \<Rightarrow> None)
      | Threw \<Rightarrow> None)
     = Some (Some (LiteralTerm ''female'' ''en'' rdf_langString),
             Returned (Inl (Property ''gender'' BooleanEquals)))
   \<and> (case Person_toJson exampleLibrary examplePersonEmptyLabel of
        Returned json \<Rightarrow>
          (case Person_fromJson exampleLibrary json of
             Returned (Inr decoded) \<Rightarrow>
               Some (gender decoded,
                     Person_equals exampleLibrary decoded examplePersonEmptyLabel)
           | _ \<Rightarrow> None)
      | Threw \<Rightarrow> None)
     = Some (Some (BlankNodeTerm ''n3-0''),
             Returned (Inl (Property ''gender'' BooleanEquals)))"
  by code_simp

text \<open>
  C2, amended. For every class and every value that satisfies the constraints below,
  \<^verbatim>\<open>toJson\<close> returns and \<^verbatim>\<open>fromJson\<close> of what it returns is a \<^verbatim>\<open>Right\<close> whose value is
  \<^verbatim>\<open>Equal\<close> to \<open>x\<close> by the class's \<^verbatim>\<open>equals\<close>. The constraints: identifiers and
  referenced named nodes have non-empty IRIs; a date is midnight UTC of a day of the
  years 0 to 9999; a number is finite; the identifier of a gender type is one of the
  two of its declared type; a blank node or a literal as gender is one that the data
  factory gives back when it is passed what \<^verbatim>\<open>fromJson\<close> passes it (the label; the
  value with the language tag or, without a tag, the datatype); nested values satisfy
  the constraints of their classes.
\<close>

theorem fromJson_toJson_round_trip:
  "(Role_jsonConstraints lib role \<longrightarrow>
      (\<exists>json decoded. Role_toJson lib role = Returned json
                 \<and> Role_fromJson json = Returned (Inr decoded)
                 \<and> Role_equals lib decoded role = Returned Equal))
   \<and> (Occupation_jsonConstraints occupation \<longrightarrow>
      (\<exists>decoded. Occupation_fromJson (Occupation_toJson occupation) = Returned (Inr decoded)
                 \<and> Occupation_equals decoded occupation = Equal))
   \<and> (Organization_jsonConstraints organization \<longrightarrow>
      (\<exists>decoded. Organization_fromJson (Organization_toJson organization)
                   = Returned (Inr decoded)
                 \<and> Organization_equals decoded organization = Equal))
   \<and> (GenderType_jsonConstraints genderType \<longrightarrow>
      (\<exists>decoded. GenderType_fromJson (GenderType_toJson genderType) = Returned (Inr decoded)
                 \<and> GenderType_equals decoded genderType = Equal))
   \<and> (QuantitiveValue_jsonConstraints quantitiveValue \<longrightarrow>
      (\<exists>decoded. QuantitiveValue_fromJson (QuantitiveValue_toJson quantitiveValue)
                   = Returned (Inr decoded)
                 \<and> QuantitiveValue_equals decoded quantitiveValue = Equal))
   \<and> (ImageObject_jsonConstraints imageObject \<longrightarrow>
      (\<exists>decoded. ImageObject_fromJson (ImageObject_toJson imageObject)
                   = Returned (Inr decoded)
                 \<and> ImageObject_equals decoded imageObject = Equal))
   \<and> (Person_jsonConstraints lib person \<longrightarrow>
      (\<exists>json decoded. Person_toJson lib person = Returned json
                 \<and> Person_fromJson lib json = Returned (Inr decoded)
                 \<and> Person_equals lib decoded person = Returned Equal))"
proof (intro conjI impI)
  assume c: "Role_jsonConstraints lib role"
  then have "Role_validDates role" by (rule Role_jsonConstraints_validDates)
  then show "\<exists>json decoded. Role_toJson lib role = Returned json
                 \<and> Role_fromJson json = Returned (Inr decoded)
                 \<and> Role_equals lib decoded role = Returned Equal"
    using c by (simp add: Role_toJson_returns Role_fromJson_toJson Role_equals_decoded)
next
  assume "Occupation_jsonConstraints occupation"
  then show "\<exists>decoded. Occupation_fromJson (Occupation_toJson occupation)
                   = Returned (Inr decoded)
                 \<and> Occupation_equals decoded occupation = Equal"
    by (simp add: Occupation_fromJson_toJson)
next
  assume "Organization_jsonConstraints organization"
  then show "\<exists>decoded. Organization_fromJson (Organization_toJson organization)
                   = Returned (Inr decoded)
                 \<and> Organization_equals decoded organization = Equal"
    by (simp add: Organization_fromJson_toJson)
next
  assume "GenderType_jsonConstraints genderType"
  then show "\<exists>decoded. GenderType_fromJson (GenderType_toJson genderType)
                   = Returned (Inr decoded)
                 \<and> GenderType_equals decoded genderType = Equal"
    by (simp add: GenderType_fromJson_toJson)
next
  assume "QuantitiveValue_jsonConstraints quantitiveValue"
  then show "\<exists>decoded. QuantitiveValue_fromJson (QuantitiveValue_toJson quantitiveValue)
                   = Returned (Inr decoded)
                 \<and> QuantitiveValue_equals decoded quantitiveValue = Equal"
    by (simp add: QuantitiveValue_fromJson_toJson QuantitiveValue_equals_constrained)
next
  assume "ImageObject_jsonConstraints imageObject"
  then show "\<exists>decoded. ImageObject_fromJson (ImageObject_toJson imageObject)
                   = Returned (Inr decoded)
                 \<and> ImageObject_equals decoded imageObject = Equal"
    by (simp add: ImageObject_fromJson_toJson ImageObject_equals_constrained)
next
  assume c: "Person_jsonConstraints lib person"
  then have "Person_validDates person" by (rule Person_jsonConstraints_validDates)
  then show "\<exists>json decoded. Person_toJson lib person = Returned json
                 \<and> Person_fromJson lib json = Returned (Inr decoded)
                 \<and> Person_equals lib decoded person = Returned Equal"
    using c
    by (simp add: Person_toJson_returns Person_fromJson_toJson Person_equals_decoded
        Person_jsonConstraints_def)
qed

theorem fromJson_toJson_round_trip_witness:
  "Role_jsonConstraints exampleLibrary exampleRoleOnADay
   \<and> (\<exists>json decoded. Role_toJson exampleLibrary exampleRoleOnADay = Returned json
                \<and> Role_fromJson json = Returned (Inr decoded)
                \<and> Role_equals exampleLibrary decoded exampleRoleOnADay = Returned Equal)
   \<and> Occupation_jsonConstraints exampleOccupation
   \<and> (\<exists>decoded. Occupation_fromJson (Occupation_toJson exampleOccupation)
                  = Returned (Inr decoded)
                \<and> Occupation_equals decoded exampleOccupation = Equal)
   \<and> Organization_jsonConstraints exampleOrganization
   \<and> (\<exists>decoded. Organization_fromJson (Organization_toJson exampleOrganization)
                  = Returned (Inr decoded)
                \<and> Organization_equals decoded exampleOrganization = Equal)
   \<and> GenderType_jsonConstraints exampleGenderType
   \<and> (\<exists>decoded. GenderType_fromJson (GenderType_toJson exampleGenderType)
                  = Returned (Inr decoded)
                \<and> GenderType_equals decoded exampleGenderType = Equal)
   \<and> QuantitiveValue_jsonConstraints exampleQuantitiveValue
   \<and> (\<exists>decoded. QuantitiveValue_fromJson (QuantitiveValue_toJson exampleQuantitiveValue)
                  = Returned (Inr decoded)
                \<and> QuantitiveValue_equals decoded exampleQuantitiveValue = Equal)
   \<and> ImageObject_jsonConstraints exampleImageObject
   \<and> (\<exists>decoded. ImageObject_fromJson (ImageObject_toJson exampleImageObject)
                  = Returned (Inr decoded)
                \<and> ImageObject_equals decoded exampleImageObject = Equal)
   \<and> Person_jsonConstraints exampleLibrary examplePersonOnDays
   \<and> (\<exists>json decoded. Person_toJson exampleLibrary examplePersonOnDays = Returned json
                \<and> Person_fromJson exampleLibrary json = Returned (Inr decoded)
                \<and> Person_equals exampleLibrary decoded examplePersonOnDays = Returned Equal)"
proof -
  have role: "Role_jsonConstraints exampleLibrary exampleRoleOnADay"
    by code_simp
  have occupation: "Occupation_jsonConstraints exampleOccupation"
    by code_simp
  have organization: "Organization_jsonConstraints exampleOrganization"
    by code_simp
  have genderType: "GenderType_jsonConstraints exampleGenderType"
    by code_simp
  have quantitiveValue: "QuantitiveValue_jsonConstraints exampleQuantitiveValue"
    by code_simp
  have imageObject: "ImageObject_jsonConstraints exampleImageObject"
    by code_simp
  have person: "Person_jsonConstraints exampleLibrary examplePersonOnDays"
    by code_simp
  from fromJson_toJson_round_trip
         [where lib = exampleLibrary and role = exampleRoleOnADay
            and occupation = exampleOccupation and organization = exampleOrganization
            and genderType = exampleGenderType and quantitiveValue = exampleQuantitiveValue
            and imageObject = exampleImageObject and person = examplePersonOnDays]
       role occupation organization genderType quantitiveValue imageObject person
  show ?thesis by simp
qed

end
